(* ===== verification/Prelude.thy ===== *)
theory Prelude
  imports Main "HOL-Library.Word"
begin

text \<open>
  Shared vocabulary of the development: the pieces of the JavaScript runtime that the
  TypeScript sources of the repository lean on, written once as HOL functions.
  \<^item> strings are \<open>string\<close> (a byte list): a JavaScript string is represented by its
    UTF-8 encoding, the form in which it crosses the HTTP boundary as JSON; \<open>utf8\<close>
    writes the non-ASCII literals of the sources (Korean labels, emoji, dashes) from their
    code points, so that the theories stay ASCII;
  \<^item> \<open>jsval\<close> is a parsed JSON value, with JavaScript truthiness (\<open>truthy\<close>) and
    property access (\<open>get_prop\<close>, the last duplicate key wins as in \<open>JSON.parse\<close>);
  \<^item> \<open>js_split\<close> is \<open>String.prototype.split\<close> with a one-character separator and
    \<open>nth_opt\<close> is array indexing that yields \<open>undefined\<close> (\<open>None\<close>) out of range;
  \<^item> \<open>string_of_nat\<close> is the decimal printing of a non-negative integer in a template
    literal, with its parser \<open>nat_of_digits\<close>;
  \<^item> \<open>js_str_opt\<close> prints a possibly-\<open>undefined\<close> value inside a template literal.
  The lemmas are the facts the component theories share: the split of a string around a
  separator that occurs once, the decimal round trip, the shape of printed numbers.
\<close>

named_theorems js_simps "equations of the JavaScript runtime helpers"

subsection \<open>Text\<close>

fun utf8_char :: "nat \<Rightarrow> string" where
  "utf8_char cp =
    (if cp < 0x80 then [char_of cp]
     else if cp < 0x800 then [char_of (0xC0 + cp div 64), char_of (0x80 + cp mod 64)]
     else if cp < 0x10000 then
       [char_of (0xE0 + cp div 4096), char_of (0x80 + (cp div 64) mod 64),
        char_of (0x80 + cp mod 64)]
     else
       [char_of (0xF0 + cp div 262144), char_of (0x80 + (cp div 4096) mod 64),
        char_of (0x80 + (cp div 64) mod 64), char_of (0x80 + cp mod 64)])"

definition utf8 :: "nat list \<Rightarrow> string" where
  "utf8 cps = concat (map utf8_char cps)"

definition lf :: char where
  "lf = CHR 0x0A"

type_synonym mime = string

subsection \<open>JSON values and JavaScript truthiness\<close>

datatype jsval =
    JUndef
  | JNull
  | JBool bool
  | JNum int
  | JStr string
  | JArr "jsval list"
  | JObj "(string \<times> jsval) list"

text \<open>A thrown value: an \<open>Error\<close> with its \<open>name\<close> and \<open>message\<close>, or anything
  else.\<close>

datatype thrown = ThrownError string string | ThrownValue

fun truthy :: "jsval \<Rightarrow> bool" where
  "truthy JUndef = False"
| "truthy JNull = False"
| "truthy (JBool b) = b"
| "truthy (JNum n) = (n \<noteq> 0)"
| "truthy (JStr s) = (s \<noteq> [])"
| "truthy (JArr _) = True"
| "truthy (JObj _) = True"

fun get_prop :: "jsval \<Rightarrow> string \<Rightarrow> jsval" where
  "get_prop (JObj kvs) k = (case map_of (rev kvs) k of None \<Rightarrow> JUndef | Some v \<Rightarrow> v)"
| "get_prop _ k = JUndef"

fun nullish :: "jsval \<Rightarrow> bool" where
  "nullish JUndef = True"
| "nullish JNull = True"
| "nullish _ = False"

fun js_str_opt :: "string option \<Rightarrow> string" where
  "js_str_opt None = ''undefined''"
| "js_str_opt (Some s) = s"

subsection \<open>Splitting and indexing\<close>

fun js_split :: "char \<Rightarrow> string \<Rightarrow> string list" where
  "js_split c [] = [[]]"
| "js_split c (x # xs) =
    (let r = js_split c xs in if x = c then [] # r else (x # hd r) # tl r)"

fun nth_opt :: "'a list \<Rightarrow> nat \<Rightarrow> 'a option" where
  "nth_opt [] i = None"
| "nth_opt (x # xs) 0 = Some x"
| "nth_opt (x # xs) (Suc i) = nth_opt xs i"

subsection \<open>Decimal numbers\<close>

definition digit_char :: "nat \<Rightarrow> char" where
  "digit_char d = char_of (48 + d)"

fun string_of_nat :: "nat \<Rightarrow> string" where
  "string_of_nat n =
    (if n < 10 then [digit_char n] else string_of_nat (n div 10) @ [digit_char (n mod 10)])"

definition is_dec_digit :: "char \<Rightarrow> bool" where
  "is_dec_digit c \<longleftrightarrow> (48::nat) \<le> of_char c \<and> of_char c < (58::nat)"

definition nat_of_digits :: "string \<Rightarrow> nat" where
  "nat_of_digits s = foldl (\<lambda>acc c. 10 * acc + (of_char c - 48)) 0 s"

declare string_of_nat.simps [simp del]

definition string_of_int :: "int \<Rightarrow> string" where
  "string_of_int i = (if i < 0 then CHR ''-'' # string_of_nat (nat (- i)) else string_of_nat (nat i))"

text \<open>\<open>Array.prototype.join\<close> with a separator.\<close>

fun js_join :: "string \<Rightarrow> string list \<Rightarrow> string" where
  "js_join sep [] = []"
| "js_join sep [x] = x"
| "js_join sep (x # xs) = x @ sep @ js_join sep xs"

text \<open>\<open>String(v)\<close>, as a template literal \<open>${v}\<close> prints a value; array elements that are
  \<open>null\<close> or \<open>undefined\<close> print as the empty string.\<close>

fun js_to_string :: "jsval \<Rightarrow> string" where
  "js_to_string JUndef = ''undefined''"
| "js_to_string JNull = ''null''"
| "js_to_string (JBool b) = (if b then ''true'' else ''false'')"
| "js_to_string (JNum n) = string_of_int n"
| "js_to_string (JStr s) = s"
| "js_to_string (JArr xs) =
    js_join '','' (map (\<lambda>x. if nullish x then [] else js_to_string x) xs)"
| "js_to_string (JObj _) = ''[object Object]''"

subsection \<open>Lemmas\<close>

lemma js_split_not_Nil [simp]: "js_split c s \<noteq> []"
  by (induction s) (auto simp: Let_def)

lemma js_split_no_sep [js_simps]: "c \<notin> set s \<Longrightarrow> js_split c s = [s]"
  by (induction s) (auto simp: Let_def)

lemma js_split_prefix [js_simps]:
  "c \<notin> set a \<Longrightarrow> js_split c (a @ c # b) = a # js_split c b"
  by (induction a) (auto simp: Let_def)

text \<open>The field after the first separator, when the separator occurs exactly once.\<close>

lemma nth_opt_split_second [js_simps]:
  "c \<notin> set a \<Longrightarrow> c \<notin> set b \<Longrightarrow> nth_opt (js_split c (a @ c # b)) 1 = Some b"
  by (simp add: js_split_prefix js_split_no_sep)

lemma nth_opt_Some_iff: "nth_opt xs i = Some x \<longleftrightarrow> i < length xs \<and> xs ! i = x"
  by (induction xs i rule: nth_opt.induct) auto

text \<open>An element of a list whose keys are distinct is the only element with its key.\<close>

lemma filter_key_unique:
  "distinct (map f xs) \<Longrightarrow> x \<in> set xs \<Longrightarrow> filter (\<lambda>y. f x = f y) xs = [x]"
proof (induction xs)
  case (Cons y ys)
  show ?case
  proof (cases "x = y")
    case True
    with Cons.prems(1) have "f x \<notin> f ` set ys" by simp
    then have "\<forall>z \<in> set ys. f z \<noteq> f x" by (metis image_eqI)
    with True show ?thesis by (auto simp: filter_empty_conv)
  next
    case False
    with Cons.prems(2) have x: "x \<in> set ys" by simp
    then have "f x \<in> f ` set ys" by simp
    moreover have "f y \<notin> f ` set ys" using Cons.prems(1) by simp
    ultimately have "f x \<noteq> f y" by metis
    with Cons.IH x Cons.prems(1) show ?thesis by simp
  qed
qed simp

lemma is_dec_digit_digit_char [simp]: "d < 10 \<Longrightarrow> is_dec_digit (digit_char d)"
  by (simp add: is_dec_digit_def digit_char_def)

lemma of_char_digit_char [simp]: "d < 10 \<Longrightarrow> of_char (digit_char d) = 48 + d"
  by (simp add: digit_char_def)

lemma digit_char_simps [simp]:
  "digit_char 0 = CHR ''0''" "digit_char 1 = CHR ''1''" "digit_char 2 = CHR ''2''"
  "digit_char 3 = CHR ''3''" "digit_char 4 = CHR ''4''" "digit_char 5 = CHR ''5''"
  "digit_char 6 = CHR ''6''" "digit_char 7 = CHR ''7''" "digit_char 8 = CHR ''8''"
  "digit_char 9 = CHR ''9''" "digit_char (Suc 0) = CHR ''1''"
  by (simp_all add: digit_char_def char_of_def bit_0)

lemma string_of_nat_digits: "\<forall>c \<in> set (string_of_nat n). is_dec_digit c"
proof (induction n rule: string_of_nat.induct)
  case (1 n)
  then show ?case by (subst string_of_nat.simps) auto
qed

lemma string_of_nat_not_Nil [simp]: "string_of_nat n \<noteq> []"
  by (subst string_of_nat.simps) simp

lemma digit_not_char [simp]:
  "\<forall>c \<in> set (string_of_nat n). c \<noteq> CHR ''_'' \<and> c \<noteq> CHR ''.''"
  using string_of_nat_digits [of n] by (auto simp: is_dec_digit_def)

lemma nat_of_digits_snoc:
  "nat_of_digits (s @ [c]) = 10 * nat_of_digits s + (of_char c - 48)"
  by (simp add: nat_of_digits_def)

theorem nat_of_digits_string_of_nat [simp]: "nat_of_digits (string_of_nat n) = n"
proof (induction n rule: string_of_nat.induct)
  case (1 n)
  show ?case
  proof (cases "n < 10")
    case True
    then show ?thesis by (subst string_of_nat.simps) (simp add: nat_of_digits_def)
  next
    case False
    then have "string_of_nat n = string_of_nat (n div 10) @ [digit_char (n mod 10)]"
      by (subst string_of_nat.simps) simp
    with False "1.IH" show ?thesis by (simp add: nat_of_digits_snoc)
  qed
qed

lemma utf8_char_not_Nil [simp]: "utf8_char cp \<noteq> []"
  by simp

lemma utf8_Cons_not_Nil [simp]: "utf8 (cp # cps) \<noteq> []"
  by (simp add: utf8_def)

lemma truthy_JStr [simp]: "truthy (JStr s) \<longleftrightarrow> s \<noteq> []"
  by simp

end
