(* ===== verification/Transform_Route.thy ===== *)
theory Transform_Route
  imports Prelude
begin

text \<open>
  The server endpoint \<open>POST /api/transform\<close> of \<open>src/app/api/transform/route.ts\<close>.
  The handler is split at its one suspension point, the call to the external model:
  \<open>route_prepare\<close> runs \<open>getAI\<close>, \<open>req.json()\<close>, the destructuring, the parameter check
  and the prompt composition, and either answers at once (\<open>Respond\<close>) or yields the
  request it sends upstream (\<open>CallUpstream\<close>); \<open>route_finish\<close> turns what the
  upstream call settles to (a response object or a thrown value) into the HTTP answer.
  \<open>POST\<close> composes the two with the upstream as a parameter: a function from the
  request to the time it takes and its outcome. Every \<open>throw\<close> and \<open>return\<close> of the
  source is a branch: thrown values are \<open>thrown\<close>, and the outer \<open>catch\<close> is
  \<open>catch_response\<close>.
\<close>

subsection \<open>Wire types\<close>

text \<open>\<open>TransformResponse\<close> of \<open>src/types/index.ts\<close>: the optional fields of the JSON body.\<close>

record transform_response =
  resp_image :: "string option"
  resp_mime :: "mime option"
  resp_error :: "string option"

record http_response =
  status :: nat
  payload :: transform_response

text \<open>The parts of the SDK's \<open>GenerateContentResponse\<close> the handler reads.\<close>

record inline_blob =
  blob_data :: "string option"
  blob_mime :: "mime option"

record part =
  part_inline :: "inline_blob option"
  part_text :: "string option"

record content =
  parts :: "part list option"

record candidate =
  cand_content :: "content option"

record gen_response =
  candidates :: "candidate list option"

datatype upstream_outcome = Resolved gen_response | Rejected thrown

text \<open>The argument of \<open>ai.models.generateContent\<close>: the model name, the two content parts
  (the text and the inline image, whose fields are passed through from the request body as
  they are) and the response modalities. The call gets no abort signal.\<close>

record upstream_request =
  up_model :: string
  up_prompt :: string
  up_mime :: jsval
  up_data :: jsval
  up_modalities :: "string list"

record route_env =
  gemini_api_key :: "string option"

datatype route_stage = Respond http_response | CallUpstream upstream_request

subsection \<open>Constants and messages\<close>

definition BASE_INSTRUCTION :: string where
  \<open>BASE_INSTRUCTION = ''IMPORTANT: Preserve the original photo\'s composition, subject positions, facial features, and overall layout exactly. Only change the artistic style and visual rendering technique.''\<close>

definition MODEL_NAME :: string where
  "MODEL_NAME = ''nano-banana-pro-preview''"

definition TIMEOUT_MS :: nat where
  "TIMEOUT_MS = 120000"

definition msg_no_key :: string where
  "msg_no_key = ''GEMINI_API_KEY '' @ utf8 [0xD658, 0xACBD, 0xBCC0, 0xC218, 0xAC00, 0x20,
     0xC124, 0xC815, 0xB418, 0xC9C0, 0x20, 0xC54A, 0xC558, 0xC2B5, 0xB2C8, 0xB2E4, 0x2E]"

definition msg_missing_param :: string where
  "msg_missing_param = utf8 [0xD544, 0xC218, 0x20, 0xD30C, 0xB77C, 0xBBF8, 0xD130, 0xAC00,
     0x20, 0xB204, 0xB77D, 0xB418, 0xC5C8, 0xC2B5, 0xB2C8, 0xB2E4, 0x2E]"

definition msg_no_content :: string where
  "msg_no_content = ''AI '' @ utf8 [0xC751, 0xB2F5, 0xC5D0, 0xC11C, 0x20, 0xCF58, 0xD150,
     0xCE20, 0xB97C, 0x20, 0xCC3E, 0xC744, 0x20, 0xC218, 0x20, 0xC5C6, 0xC2B5, 0xB2C8,
     0xB2E4, 0x2E]"

definition msg_gen_failed :: string where
  "msg_gen_failed = utf8 [0xC774, 0xBBF8, 0xC9C0, 0x20, 0xC0DD, 0xC131, 0xC5D0, 0x20, 0xC2E4,
     0xD328, 0xD588, 0xC2B5, 0xB2C8, 0xB2E4, 0x2E] @ '' AI '' @ utf8 [0xC751, 0xB2F5] @ '': ''"

definition msg_no_answer :: string where
  "msg_no_answer = utf8 [0xC751, 0xB2F5, 0x20, 0xC5C6, 0xC74C]"

definition msg_timeout :: string where
  "msg_timeout = utf8 [0xC694, 0xCCAD, 0x20, 0xC2DC, 0xAC04, 0xC774, 0x20, 0xCD08, 0xACFC,
     0xB418, 0xC5C8, 0xC2B5, 0xB2C8, 0xB2E4, 0x2E, 0x20, 0xB2E4, 0xC2DC, 0x20, 0xC2DC, 0xB3C4,
     0xD574, 0xC8FC, 0xC138, 0xC694, 0x2E]"

definition msg_unknown :: string where
  "msg_unknown = utf8 [0xC54C, 0x20, 0xC218, 0x20, 0xC5C6, 0xB294, 0x20, 0xC624, 0xB958,
     0xAC00, 0x20, 0xBC1C, 0xC0DD, 0xD588, 0xC2B5, 0xB2C8, 0xB2E4, 0x2E]"

text \<open>The \<open>TypeError\<close> the runtime throws when the body is \<open>null\<close> and cannot be
  destructured.\<close>

definition destructure_error :: thrown where
  \<open>destructure_error = ThrownError ''TypeError''
     ''Cannot destructure property \'imageBase64\' of \'(intermediate value)\' as it is null.''\<close>

subsection \<open>The handler\<close>

definition json_response :: "nat \<Rightarrow> transform_response \<Rightarrow> http_response" where
  "json_response st b = \<lparr>status = st, payload = b\<rparr>"

definition error_response :: "nat \<Rightarrow> string \<Rightarrow> http_response" where
  "error_response st m =
     json_response st \<lparr>resp_image = None, resp_mime = None, resp_error = Some m\<rparr>"

text \<open>The outer \<open>catch (error)\<close>: the message of an \<open>Error\<close>, a generic text otherwise.\<close>

fun catch_response :: "thrown \<Rightarrow> http_response" where
  "catch_response (ThrownError n m) = error_response 500 m"
| "catch_response ThrownValue = error_response 500 msg_unknown"

text \<open>\<open>getAI\<close>: a missing or empty key throws; otherwise the client for that key.\<close>

definition getAI :: "route_env \<Rightarrow> thrown + string" where
  "getAI env =
     (case gemini_api_key env of
        None \<Rightarrow> Inl (ThrownError ''Error'' msg_no_key)
      | Some k \<Rightarrow> if k = [] then Inl (ThrownError ''Error'' msg_no_key) else Inr k)"

definition full_prompt :: "jsval \<Rightarrow> string" where
  "full_prompt sp = BASE_INSTRUCTION @ [lf, lf] @ js_to_string sp"

text \<open>Lines 17--52: \<open>body\<close> is what \<open>await req.json()\<close> settles to, a rejection
  (malformed JSON) or the parsed value.\<close>

definition route_prepare :: "route_env \<Rightarrow> thrown + jsval \<Rightarrow> route_stage" where
  "route_prepare env body =
    (case getAI env of
       Inl e \<Rightarrow> Respond (catch_response e)
     | Inr _ \<Rightarrow>
       (case body of
          Inl e \<Rightarrow> Respond (catch_response e)
        | Inr v \<Rightarrow>
            if nullish v then Respond (catch_response destructure_error)
            else
              (let imageBase64 = get_prop v ''imageBase64'';
                   mimeType = get_prop v ''mimeType'';
                   stylePrompt = get_prop v ''stylePrompt''
               in if \<not> truthy imageBase64 \<or> \<not> truthy mimeType \<or> \<not> truthy stylePrompt
                  then Respond (error_response 400 msg_missing_param)
                  else CallUpstream
                    \<lparr>up_model = MODEL_NAME, up_prompt = full_prompt stylePrompt,
                     up_mime = mimeType, up_data = imageBase64,
                     up_modalities = [''TEXT'', ''IMAGE'']\<rparr>)))"

text \<open>\<open>response?.candidates?.[0]?.content?.parts\<close>.\<close>

definition response_parts :: "gen_response \<Rightarrow> part list option" where
  "response_parts r =
     (case candidates r of
        None \<Rightarrow> None
      | Some cs \<Rightarrow>
          (case nth_opt cs 0 of
             None \<Rightarrow> None
           | Some c \<Rightarrow> (case cand_content c of None \<Rightarrow> None | Some ct \<Rightarrow> parts ct)))"

text \<open>The \<open>for (const part of parts)\<close> loop with its early \<open>return\<close>.\<close>

fun first_inline :: "part list \<Rightarrow> inline_blob option" where
  "first_inline [] = None"
| "first_inline (p # ps) = (case part_inline p of Some b \<Rightarrow> Some b | None \<Rightarrow> first_inline ps)"

definition has_text :: "part \<Rightarrow> bool" where
  "has_text p \<longleftrightarrow> (case part_text p of None \<Rightarrow> False | Some s \<Rightarrow> s \<noteq> [])"

text \<open>\<open>textPart?.text || "..."\<close>.\<close>

definition text_or_placeholder :: "part option \<Rightarrow> string" where
  "text_or_placeholder tp =
     (case tp of
        None \<Rightarrow> msg_no_answer
      | Some p \<Rightarrow> (case part_text p of Some s \<Rightarrow> if s = [] then msg_no_answer else s
                                     | None \<Rightarrow> msg_no_answer))"

text \<open>Lines 54--97: after \<open>clearTimeout\<close>, the outcome of the upstream call.\<close>

definition route_finish :: "upstream_outcome \<Rightarrow> http_response" where
  "route_finish out =
    (case out of
       Rejected e \<Rightarrow>
         (case e of
            ThrownError n m \<Rightarrow>
              if n = ''AbortError'' then error_response 504 msg_timeout else catch_response e
          | ThrownValue \<Rightarrow> catch_response e)
     | Resolved r \<Rightarrow>
         (case response_parts r of
            None \<Rightarrow> error_response 500 msg_no_content
          | Some ps \<Rightarrow>
              (case first_inline ps of
                 Some b \<Rightarrow>
                   json_response 200
                     \<lparr>resp_image = blob_data b, resp_mime = blob_mime b, resp_error = None\<rparr>
               | None \<Rightarrow>
                   error_response 500 (msg_gen_failed @ text_or_placeholder (find has_text ps)))))"

text \<open>The whole handler. \<open>upstream\<close> is the external model: for the request it is
  given, how long the call takes (in milliseconds) and what it settles to. The handler arms
  a timer that aborts its \<open>AbortController\<close> after \<open>TIMEOUT_MS\<close>, but the controller's
  signal is not part of the request, so nothing observes the abort.\<close>

definition POST ::
  "route_env \<Rightarrow> thrown + jsval \<Rightarrow> (upstream_request \<Rightarrow> nat \<times> upstream_outcome) \<Rightarrow> http_response"
where
  "POST env body upstream =
    (case route_prepare env body of
       Respond r \<Rightarrow> r
     | CallUpstream rq \<Rightarrow>
         (let (elapsed, out) = upstream rq;
              aborted = (TIMEOUT_MS \<le> elapsed)
          in route_finish out))"

text \<open>The shape every answer of the endpoint has (section 6.1 of the spec): one of the
  four statuses, and an \<open>error\<close> field exactly when the status is not 200.\<close>

definition response_ok :: "http_response \<Rightarrow> bool" where
  "response_ok r \<longleftrightarrow> status r \<in> {200, 400, 500, 504} \<and>
     (status r = 200 \<longleftrightarrow> resp_error (payload r) = None)"

subsection \<open>Lemmas\<close>

lemma error_response_sel [simp]:
  "status (error_response st m) = st"
  "payload (error_response st m) = \<lparr>resp_image = None, resp_mime = None, resp_error = Some m\<rparr>"
  by (simp_all add: error_response_def json_response_def)

text \<open>The loop is \<open>find\<close>: the first part that carries inline data.\<close>

lemma first_inline_eq_find:
  "first_inline ps = map_option (\<lambda>p. the (part_inline p)) (find (\<lambda>p. part_inline p \<noteq> None) ps)"
  by (induction ps) (auto split: option.splits)

lemma first_inline_skip:
  "\<forall>q \<in> set pre. part_inline q = None \<Longrightarrow> first_inline (pre @ ps) = first_inline ps"
  by (induction pre) auto

lemma first_inline_None_iff: "first_inline ps = None \<longleftrightarrow> (\<forall>p \<in> set ps. part_inline p = None)"
  by (induction ps) (auto split: option.splits)

lemma getAI_Inr: "gemini_api_key env = Some k \<Longrightarrow> k \<noteq> [] \<Longrightarrow> getAI env = Inr k"
  by (simp add: getAI_def)

lemma POST_call:
  "route_prepare env body = CallUpstream rq \<Longrightarrow> upstream rq = (t, out) \<Longrightarrow>
   POST env body upstream = route_finish out"
  by (simp add: POST_def)

lemma POST_respond: "route_prepare env body = Respond r \<Longrightarrow> POST env body upstream = r"
  by (simp add: POST_def)

lemma route_finish_first_inline:
  "response_parts r = Some (pre @ p # post) \<Longrightarrow> \<forall>q \<in> set pre. part_inline q = None \<Longrightarrow>
   part_inline p = Some b \<Longrightarrow>
   route_finish (Resolved r) =
     \<lparr>status = 200, payload = \<lparr>resp_image = blob_data b, resp_mime = blob_mime b, resp_error = None\<rparr>\<rparr>"
  by (simp add: route_finish_def first_inline_skip json_response_def)

lemma route_finish_text_only:
  "response_parts r = Some ps \<Longrightarrow> \<forall>q \<in> set ps. part_inline q = None \<Longrightarrow>
   find has_text ps = Some p \<Longrightarrow> part_text p = Some s \<Longrightarrow>
   route_finish (Resolved r) = error_response 500 (msg_gen_failed @ s)"
  using first_inline_None_iff [of ps]
  by (auto simp: route_finish_def text_or_placeholder_def has_text_def
      dest!: find_Some_iff [THEN iffD1])

lemma error_response_ok: "st \<in> {400, 500, 504} \<Longrightarrow> response_ok (error_response st m)"
  by (auto simp: response_ok_def)

lemma catch_response_ok: "response_ok (catch_response e)"
  by (cases e) (simp_all add: error_response_ok)

lemma route_finish_ok: "response_ok (route_finish out)"
proof (cases out)
  case (Resolved r)
  then show ?thesis
    by (simp add: route_finish_def response_ok_def json_response_def split: option.splits)
next
  case (Rejected e)
  then show ?thesis
    by (cases e) (simp_all add: route_finish_def error_response_ok catch_response_ok)
qed

lemma route_prepare_ok: "route_prepare env body = Respond r \<Longrightarrow> response_ok r"
  by (auto simp: route_prepare_def Let_def error_response_ok catch_response_ok
      split: sum.splits if_splits)

subsection \<open>Properties of the endpoint\<close>

text \<open>C1. With the key configured and the three fields of the body present, the endpoint
  makes exactly one upstream call, with the model name, the prompt made of the base
  instruction, two line feeds and the style prompt, the image data and MIME type as the
  client sent them, and the modalities TEXT and IMAGE; its answer is the normalisation of
  what that call returns.\<close>

theorem POST_upstream_request:
  assumes "gemini_api_key env = Some k" "k \<noteq> []" "\<not> nullish v"
    and "truthy (get_prop v ''imageBase64'')" "truthy (get_prop v ''mimeType'')"
    and "truthy (get_prop v ''stylePrompt'')"
  shows "POST env (Inr v) upstream = route_finish (snd (upstream
    \<lparr>up_model = ''nano-banana-pro-preview'',
     up_prompt = BASE_INSTRUCTION @ [lf, lf] @ js_to_string (get_prop v ''stylePrompt''),
     up_mime = get_prop v ''mimeType'', up_data = get_prop v ''imageBase64'',
     up_modalities = [''TEXT'', ''IMAGE'']\<rparr>))"
  using assms
  by (simp add: POST_def route_prepare_def getAI_Inr full_prompt_def MODEL_NAME_def
      split: prod.splits)

theorem POST_upstream_request_witness:
  "POST \<lparr>gemini_api_key = Some ''key''\<rparr>
     (Inr (JObj [(''imageBase64'', JStr ''QUJD''), (''mimeType'', JStr ''image/png''),
                 (''stylePrompt'', JStr ''Sketch'')]))
     (\<lambda>rq. (1000, if up_prompt rq = BASE_INSTRUCTION @ [lf, lf] @ ''Sketch''
                   then Rejected ThrownValue else Rejected (ThrownError ''E'' ''e'')))
   = error_response 500 msg_unknown"
  by (simp add: POST_upstream_request route_finish_def)

text \<open>C2. When the model's first candidate carries parts and one of them has inline data,
  the endpoint answers 200 with the data and MIME type of the first such part, whatever the
  later parts hold (first inline image wins).\<close>

theorem POST_first_inline_wins:
  assumes "route_prepare env body = CallUpstream rq" "upstream rq = (t, Resolved r)"
    and "response_parts r = Some (pre @ p # post)" "\<forall>q \<in> set pre. part_inline q = None"
    and "part_inline p = Some b"
  shows "POST env body upstream =
    \<lparr>status = 200, payload = \<lparr>resp_image = blob_data b, resp_mime = blob_mime b, resp_error = None\<rparr>\<rparr>"
  using assms by (simp add: POST_call route_finish_first_inline)

theorem POST_first_inline_wins_witness:
  "POST \<lparr>gemini_api_key = Some ''key''\<rparr>
     (Inr (JObj [(''imageBase64'', JStr ''QUJD''), (''mimeType'', JStr ''image/png''),
                 (''stylePrompt'', JStr ''Sketch'')]))
     (\<lambda>_. (130000, Resolved \<lparr>candidates = Some [\<lparr>cand_content = Some \<lparr>parts = Some
        [\<lparr>part_inline = None, part_text = Some ''Here it is''\<rparr>,
         \<lparr>part_inline = Some \<lparr>blob_data = Some ''AAAA'', blob_mime = Some ''image/png''\<rparr>,
          part_text = None\<rparr>,
         \<lparr>part_inline = Some \<lparr>blob_data = Some ''BBBB'', blob_mime = Some ''image/jpeg''\<rparr>,
          part_text = None\<rparr>]\<rparr>\<rparr>]\<rparr>))
   = \<lparr>status = 200, payload = \<lparr>resp_image = Some ''AAAA'', resp_mime = Some ''image/png'',
       resp_error = None\<rparr>\<rparr>"
  (is "POST ?env ?body (\<lambda>_. (130000, Resolved ?r)) = _")
proof -
  obtain rq where h: "route_prepare ?env ?body = CallUpstream rq"
    by (simp add: route_prepare_def getAI_def)
  have "response_parts ?r = Some ([\<lparr>part_inline = None, part_text = Some ''Here it is''\<rparr>] @
     \<lparr>part_inline = Some \<lparr>blob_data = Some ''AAAA'', blob_mime = Some ''image/png''\<rparr>, part_text = None\<rparr> #
     [\<lparr>part_inline = Some \<lparr>blob_data = Some ''BBBB'', blob_mime = Some ''image/jpeg''\<rparr>, part_text = None\<rparr>])"
    by (simp add: response_parts_def)
  from POST_first_inline_wins [OF h _ this] show ?thesis by simp
qed

text \<open>C3. When the parts carry no inline data, the endpoint answers 500 and the error
  message embeds the text of the first part with non-empty text, so the client can show the
  model's explanation.\<close>

theorem POST_text_only:
  assumes "route_prepare env body = CallUpstream rq" "upstream rq = (t, Resolved r)"
    and "response_parts r = Some ps" "\<forall>q \<in> set ps. part_inline q = None"
    and "find has_text ps = Some p" "part_text p = Some s"
  shows "status (POST env body upstream) = 500 \<and>
         resp_error (payload (POST env body upstream)) = Some (msg_gen_failed @ s)"
  using assms by (simp add: POST_call route_finish_text_only)

theorem POST_text_only_witness:
  "POST \<lparr>gemini_api_key = Some ''key''\<rparr>
     (Inr (JObj [(''imageBase64'', JStr ''QUJD''), (''mimeType'', JStr ''image/png''),
                 (''stylePrompt'', JStr ''Sketch'')]))
     (\<lambda>_. (2000, Resolved \<lparr>candidates = Some [\<lparr>cand_content = Some \<lparr>parts = Some
        [\<lparr>part_inline = None, part_text = Some ''''\<rparr>,
         \<lparr>part_inline = None, part_text = Some ''I cannot edit this photo.''\<rparr>]\<rparr>\<rparr>]\<rparr>))
   = error_response 500 (msg_gen_failed @ ''I cannot edit this photo.'')"
  (is "POST ?env ?body (\<lambda>_. (2000, Resolved ?r)) = _")
proof -
  obtain rq where h: "route_prepare ?env ?body = CallUpstream rq"
    by (simp add: route_prepare_def getAI_def)
  have "status (POST ?env ?body (\<lambda>_. (2000, Resolved ?r))) = 500 \<and>
        resp_error (payload (POST ?env ?body (\<lambda>_. (2000, Resolved ?r)))) =
          Some (msg_gen_failed @ ''I cannot edit this photo.'')"
    by (rule POST_text_only [OF h])
       (simp add: response_parts_def has_text_def)+
  moreover have "resp_image (payload (POST ?env ?body (\<lambda>_. (2000, Resolved ?r)))) = None \<and>
                 resp_mime (payload (POST ?env ?body (\<lambda>_. (2000, Resolved ?r)))) = None"
    using h by (simp add: POST_call route_finish_def response_parts_def)
  ultimately show ?thesis
    by (simp add: error_response_def json_response_def)
qed

text \<open>C4. With the key configured and a non-null body, if any of \<open>imageBase64\<close>,
  \<open>mimeType\<close>, \<open>stylePrompt\<close> is missing or falsy, the endpoint answers 400 with the
  (non-empty) missing-parameter message and makes no upstream call.\<close>

theorem POST_missing_param:
  assumes "gemini_api_key env = Some k" "k \<noteq> []" "\<not> nullish v"
    and "\<not> truthy (get_prop v ''imageBase64'') \<or> \<not> truthy (get_prop v ''mimeType'') \<or>
         \<not> truthy (get_prop v ''stylePrompt'')"
  shows "POST env (Inr v) upstream = error_response 400 msg_missing_param \<and> msg_missing_param \<noteq> []"
  using assms by (auto simp: POST_def route_prepare_def getAI_Inr msg_missing_param_def)

theorem POST_missing_param_witness:
  "POST \<lparr>gemini_api_key = Some ''key''\<rparr>
     (Inr (JObj [(''imageBase64'', JStr ''QUJD''), (''mimeType'', JStr ''''),
                 (''stylePrompt'', JStr ''Sketch'')])) (\<lambda>_. (0, Rejected ThrownValue))
   = error_response 400 msg_missing_param"
  using POST_missing_param [of "\<lparr>gemini_api_key = Some ''key''\<rparr>" "''key''"
     "JObj [(''imageBase64'', JStr ''QUJD''), (''mimeType'', JStr ''''),
            (''stylePrompt'', JStr ''Sketch'')]"]
  by simp

text \<open>C5. The answer does not depend on how long the upstream call takes: the
  120-second timer aborts a controller whose signal is never handed to the call, so a slow
  call is neither cut off nor answered with 504 (the spec asks for 504 after 120 seconds).\<close>

theorem POST_ignores_latency:
  "POST env body (\<lambda>rq. (t rq, f rq)) = POST env body (\<lambda>rq. (0, f rq))"
  by (simp add: POST_def split: route_stage.splits)

text \<open>C6. Every answer of the endpoint has status 200, 400, 500 or 504, and carries an
  \<open>error\<close> field exactly when its status is not 200.\<close>

theorem POST_response_ok: "response_ok (POST env body upstream)"
  by (simp add: POST_def route_finish_ok route_prepare_ok split: route_stage.splits prod.splits)

text \<open>C7. When the model's response has no parts array on its first candidate (no
  candidates, an empty candidate list, or no content), the endpoint answers 500 with the
  no-content message.\<close>

theorem POST_no_parts:
  assumes "route_prepare env body = CallUpstream rq" "upstream rq = (t, Resolved r)"
    and "response_parts r = None"
  shows "POST env body upstream = error_response 500 msg_no_content"
  using assms by (simp add: POST_call route_finish_def)

theorem POST_no_parts_witness:
  "POST \<lparr>gemini_api_key = Some ''key''\<rparr>
     (Inr (JObj [(''imageBase64'', JStr ''QUJD''), (''mimeType'', JStr ''image/png''),
                 (''stylePrompt'', JStr ''Sketch'')]))
     (\<lambda>_. (10, Resolved \<lparr>candidates = Some []\<rparr>))
   = error_response 500 msg_no_content"
proof -
  obtain rq where h: "route_prepare \<lparr>gemini_api_key = Some ''key''\<rparr>
     (Inr (JObj [(''imageBase64'', JStr ''QUJD''), (''mimeType'', JStr ''image/png''),
                 (''stylePrompt'', JStr ''Sketch'')])) = CallUpstream rq"
    by (simp add: route_prepare_def getAI_def)
  show ?thesis
    by (rule POST_no_parts [OF h]) (simp add: response_parts_def)+
qed

text \<open>C8. An \<open>AbortError\<close> thrown by the upstream call is answered with 504 and
  the retry message.\<close>

theorem POST_abort_error:
  assumes "route_prepare env body = CallUpstream rq"
    and "upstream rq = (t, Rejected (ThrownError ''AbortError'' m))"
  shows "POST env body upstream = error_response 504 msg_timeout"
  using assms by (simp add: POST_call route_finish_def)

theorem POST_abort_error_witness:
  "POST \<lparr>gemini_api_key = Some ''key''\<rparr>
     (Inr (JObj [(''imageBase64'', JStr ''QUJD''), (''mimeType'', JStr ''image/png''),
                 (''stylePrompt'', JStr ''Sketch'')]))
     (\<lambda>_. (50, Rejected (ThrownError ''AbortError'' ''The operation was aborted'')))
   = error_response 504 msg_timeout"
proof -
  obtain rq where h: "route_prepare \<lparr>gemini_api_key = Some ''key''\<rparr>
     (Inr (JObj [(''imageBase64'', JStr ''QUJD''), (''mimeType'', JStr ''image/png''),
                 (''stylePrompt'', JStr ''Sketch'')])) = CallUpstream rq"
    by (simp add: route_prepare_def getAI_def)
  show ?thesis
    by (rule POST_abort_error [OF h]) simp
qed

text \<open>C9. Without a configured (non-empty) API key every request is answered 500 with
  the configuration message, before the body is read or checked.\<close>

theorem POST_no_key:
  assumes "gemini_api_key env = None \<or> gemini_api_key env = Some []"
  shows "POST env body upstream = error_response 500 msg_no_key"
  using assms by (auto simp: POST_def route_prepare_def getAI_def)

theorem POST_no_key_witness:
  "POST \<lparr>gemini_api_key = None\<rparr> (Inr JNull) (\<lambda>_. (0, Rejected ThrownValue))
   = error_response 500 msg_no_key"
  using POST_no_key [of "\<lparr>gemini_api_key = None\<rparr>"] by simp

end
