(* ===== verification/Styles.thy ===== *)
theory Styles
  imports Prelude
begin

text \<open>
  The style catalog of \<open>src/lib/styles.ts\<close>: the \<open>StyleOption\<close> record of
  \<open>src/types/index.ts\<close> and the constant array \<open>STYLES\<close>, one definition per entry in
  the source's order. The Korean display names, the emoji and the few non-ASCII characters of
  the prompts are written as their Unicode code points (\<open>utf8\<close>), so each string is the
  UTF-8 text of the source literal. The lemmas at the end are the catalog's contract: the ids
  run from 1 to 21 in display order, the slugs are distinct, non-empty and made of lower-case
  letters, digits and hyphens only, and every prompt is non-empty.
\<close>

record style_option =
  style_id :: nat
  name :: string
  nameEn :: string
  emoji :: string
  prompt :: string

definition style_watercolor :: style_option where
  \<open>style_watercolor = \<lparr>style_id = 1, name = utf8 [0xC218, 0xCC44, 0xD654],
    nameEn = ''watercolor'', emoji = utf8 [0x1F3A8],
    prompt =
       ''Transform this photo into a watercolor painting style. Apply soft, '' @
       ''translucent brush strokes with gentle color blending and natural paper '' @
       ''texture. Preserve the original composition, subject, and layout exactly.''\<rparr>\<close>

definition style_oil_painting :: style_option where
  \<open>style_oil_painting = \<lparr>style_id = 2, name = utf8 [0xC720, 0xD654],
    nameEn = ''oil-painting'', emoji = utf8 [0x1F5BC, 0xFE0F],
    prompt =
       ''Transform this photo into an oil painting style with rich textures, '' @
       ''visible thick brushstrokes, vivid color contrasts, and painterly depth. '' @
       ''Keep the original composition and subject intact.''\<rparr>\<close>

definition style_pencil_sketch :: style_option where
  \<open>style_pencil_sketch = \<lparr>style_id = 3, name = utf8 [0xC5F0, 0xD544, 0x20, 0xC2A4, 0xCF00, 0xCE58],
    nameEn = ''pencil-sketch'', emoji = utf8 [0x270F, 0xFE0F],
    prompt =
       ''Transform this photo into a detailed pencil sketch drawing with fine '' @
       ''graphite lines, cross-hatching shading, and clean white paper background. '' @
       ''Maintain the original form and proportions.''\<rparr>\<close>

definition style_anime :: style_option where
  \<open>style_anime = \<lparr>style_id = 4, name = utf8 [0xC77C, 0xBCF8, 0x20, 0xC560, 0xB2C8, 0xBA54],
    nameEn = ''anime'', emoji = utf8 [0x1F338],
    prompt =
       ''Transform this photo into Japanese anime style with bold outlines, '' @
       ''cel-shaded coloring, large expressive eyes for characters, vibrant '' @
       ''colors, and clean line art. Keep the original pose and composition.''\<rparr>\<close>

definition style_ghibli :: style_option where
  \<open>style_ghibli = \<lparr>style_id = 5, name = utf8 [0xC2A4, 0xD29C, 0xB514, 0xC624, 0x20, 0xC9C0, 0xBE0C, 0xB9AC],
    nameEn = ''ghibli'', emoji = utf8 [0x1F3D4, 0xFE0F],
    prompt =
       ''Transform this photo into Studio Ghibli animation style with soft pastel '' @
       ''colors, whimsical hand-drawn details, dreamy lighting, and warm '' @
       ''atmospheric backgrounds. Preserve the original scene layout.''\<rparr>\<close>

definition style_pop_art :: style_option where
  \<open>style_pop_art = \<lparr>style_id = 6, name = utf8 [0xD31D, 0x20, 0xC544, 0xD2B8],
    nameEn = ''pop-art'', emoji = utf8 [0x1F3AD],
    prompt =
       ''Transform this photo into Pop Art style inspired by Andy Warhol and Roy '' @
       ''Lichtenstein. Use bold primary colors, strong black outlines, Ben-Day '' @
       ''dots pattern, and high contrast. Keep the original subject.''\<rparr>\<close>

definition style_comic_book :: style_option where
  \<open>style_comic_book = \<lparr>style_id = 7, name = utf8 [0xB9CC, 0xD654, 0x2F, 0xCF54, 0xBBF9, 0xBD81],
    nameEn = ''comic-book'', emoji = utf8 [0x1F4A5],
    prompt =
       ''Transform this photo into a comic book / cartoon style with bold ink '' @
       ''outlines, flat vibrant color fills, halftone dot shading, and dynamic '' @
       ''comic panel look. Preserve the original composition.''\<rparr>\<close>

definition style_pixel_art :: style_option where
  \<open>style_pixel_art = \<lparr>style_id = 8, name = utf8 [0xD53D, 0xC140, 0x20, 0xC544, 0xD2B8],
    nameEn = ''pixel-art'', emoji = utf8 [0x1F47E],
    prompt =
       ''Transform this photo into retro pixel art style with a visible pixel '' @
       ''grid, limited color palette, and blocky 16-bit aesthetic. Maintain '' @
       ''recognizable shapes and the original composition.''\<rparr>\<close>

definition style_clay_3d :: style_option where
  \<open>style_clay_3d = \<lparr>style_id = 9, name = utf8 [0x33, 0x44, 0x20, 0xD074, 0xB808, 0xC774, 0x2F, 0xC810, 0xD1A0],
    nameEn = ''clay-3d'', emoji = utf8 [0x1F9F8],
    prompt =
       ''Transform this photo into a 3D claymation / clay figurine style with soft '' @
       ''rounded shapes, matte clay textures, subtle fingerprint details, and warm '' @
       ''studio lighting. Keep the original scene.''\<rparr>\<close>

definition style_cyberpunk :: style_option where
  \<open>style_cyberpunk = \<lparr>style_id = 10, name = utf8 [0xC0AC, 0xC774, 0xBC84, 0xD391, 0xD06C],
    nameEn = ''cyberpunk'', emoji = utf8 [0x1F303],
    prompt =
       ''Transform this photo into a cyberpunk aesthetic with neon glow effects, '' @
       ''dark moody atmosphere, rain-slicked surfaces, holographic highlights, and '' @
       ''futuristic electric blue and magenta tones. Preserve the original scene.''\<rparr>\<close>

definition style_impressionist :: style_option where
  \<open>style_impressionist = \<lparr>style_id = 11, name = utf8 [0xC778, 0xC0C1, 0xD30C, 0x20, 0x28, 0xBAA8, 0xB124, 0x20, 0xC2A4, 0xD0C0, 0xC77C, 0x29],
    nameEn = ''impressionist'', emoji = utf8 [0x1F33B],
    prompt =
       ''Transform this photo into an Impressionist painting style inspired by '' @
       ''Claude Monet, with visible loose brushstrokes, emphasis on light and '' @
       ''color, soft edges, and a luminous atmosphere. Keep the original '' @
       ''composition.''\<rparr>\<close>

definition style_ukiyo_e :: style_option where
  \<open>style_ukiyo_e = \<lparr>style_id = 12, name = utf8 [0xC6B0, 0xD0A4, 0xC694, 0xC5D0, 0x20, 0x28, 0xC77C, 0xBCF8, 0x20, 0xBAA9, 0xD310, 0xD654, 0x29],
    nameEn = ''ukiyo-e'', emoji = utf8 [0x1F5FE],
    prompt =
       ''Transform this photo into Japanese Ukiyo-e woodblock print style with '' @
       ''flat areas of color, strong black outlines, flowing curved lines, and '' @
       ''traditional Japanese artistic composition. Preserve the subject.''\<rparr>\<close>

definition style_caricature :: style_option where
  \<open>style_caricature = \<lparr>style_id = 13, name = utf8 [0xCE90, 0xB9AC, 0xCEE4, 0xCC98],
    nameEn = ''caricature'', emoji = utf8 [0x1F604],
    prompt =
       ''Transform this photo into a caricature style with exaggerated facial '' @
       ''features, humorous proportions, and expressive cartoon-like rendering '' @
       ''while keeping the subject recognizable.''\<rparr>\<close>

definition style_vaporwave :: style_option where
  \<open>style_vaporwave = \<lparr>style_id = 14, name = utf8 [0xBCA0, 0xC774, 0xD37C, 0xC6E8, 0xC774, 0xBE0C],
    nameEn = ''vaporwave'', emoji = utf8 [0x1F305],
    prompt =
       ''Transform this photo into a vaporwave aesthetic with pastel '' @
       ''pink/purple/cyan colors, retro 80s-90s digital artifacts, glitch effects, '' @
       ''sunset gradients, and nostalgic surreal atmosphere. Preserve the '' @
       ''composition.''\<rparr>\<close>

definition style_dark_gothic :: style_option where
  \<open>style_dark_gothic = \<lparr>style_id = 15, name = utf8 [0xACE0, 0xB515, 0x2F, 0xB2E4, 0xD06C, 0x20, 0xD310, 0xD0C0, 0xC9C0],
    nameEn = ''dark-gothic'', emoji = utf8 [0x1F3F0],
    prompt =
       ''Transform this photo into a dark Gothic fantasy style with dramatic '' @
       ''shadows, deep rich colors, ornate Victorian details, mysterious '' @
       ''atmosphere, and moody dark lighting. Keep the original scene.''\<rparr>\<close>

definition style_line_drawing :: style_option where
  \<open>style_line_drawing = \<lparr>style_id = 16, name = utf8 [0xBBF8, 0xB2C8, 0xBA40, 0x20, 0xB77C, 0xC778, 0x20, 0xB4DC, 0xB85C, 0xC789],
    nameEn = ''line-drawing'', emoji = utf8 [0x1F58A, 0xFE0F],
    prompt =
       ''Transform this photo into a Korean modern line illustration style. '' @
       ''Convert all people into elegantly proportioned illustrated characters '' @
       ''with: tall slender bodies (8+ head-to-body ratio, fashion illustration '' @
       ''proportions), thin clean black ink outlines with consistent line weight '' @
       ''throughout. FACE DETAILS ARE CRITICAL '' @
       utf8 [0x2014] @
       '' draw faces exactly like this: eyes as either tiny small dots OR short '' @
       ''slightly thick curved arch lines depending on expression (smiling = short '' @
       ''arch curves, neutral = small dots), eyebrows as short thick natural '' @
       ''curved strokes clearly separated above the eyes, nose as an extremely '' @
       ''minimal tiny curved line or short flick (almost like a small comma), '' @
       ''mouth as a very short simple curved smile line. Faces should be warm flat '' @
       ''beige/peach skin tone with NO blush, NO shading, and NO additional facial '' @
       ''details. Hair should be rendered as solid dark colored shapes with '' @
       ''minimal internal detail and natural volume. Clothing must preserve the '' @
       ''original outfit\'s style, colors, layering, and silhouette accurately '' @
       utf8 [0x2014] @
       '' draw fabric folds and drapes using clean line work only, with flat muted '' @
       ''pastel coloring (soft beige, dusty pink, olive, cream tones) and '' @
       ''absolutely NO gradients, NO shadows, and NO shading fills. Hands should '' @
       ''be simplified but naturally posed. The background should be a clean plain '' @
       ''off-white or very light cream color '' @
       utf8 [0x2014] @
       '' completely remove the original background. The overall color palette '' @
       ''must be warm, muted, and soft '' @
       utf8 [0x2014] @
       '' avoid any saturated or bright colors. The style should look like a '' @
       ''high-quality Korean portrait illustration ('' @
       utf8 [0xD55C, 0xAD6D] @
       '' '' @
       utf8 [0xAC10, 0xC131] @
       '' '' @
       utf8 [0xC77C, 0xB7EC, 0xC2A4, 0xD2B8] @
       '') with an elegant, warm, and minimal aesthetic. Preserve the original '' @
       ''photo\'s composition, poses, and relative positioning of all subjects.''\<rparr>\<close>

definition style_lego :: style_option where
  \<open>style_lego = \<lparr>style_id = 17, name = utf8 [0xB808, 0xACE0, 0x20, 0xC2A4, 0xD0C0, 0xC77C],
    nameEn = ''lego'', emoji = utf8 [0x1F9F1],
    prompt =
       ''Transform this photo into LEGO brick style, making everything look like '' @
       ''it\'s built from LEGO blocks and minifigures, with plastic-like textures '' @
       ''and blocky geometric shapes. Keep the scene recognizable.''\<rparr>\<close>

definition style_peanuts :: style_option where
  \<open>style_peanuts = \<lparr>style_id = 18, name = utf8 [0xC2A4, 0xB204, 0xD53C, 0x20, 0xC2A4, 0xD0C0, 0xC77C],
    nameEn = ''peanuts'', emoji = utf8 [0x1F436],
    prompt =
       ''Transform this photo into the art style of Charles Schulz\'s Peanuts '' @
       ''comic strip. Convert all people into Peanuts-style characters with: large '' @
       ''round heads proportionally bigger than their bodies, simple dot eyes or '' @
       ''small oval eyes, tiny round noses shown as a small curve, simple wide '' @
       ''curved line mouths, short stubby bodies with minimal detail, thin black '' @
       ''ink outlines with a slightly wobbly hand-drawn quality. Hair should be '' @
       ''simplified into solid blocked shapes. Clothing should be simplified but '' @
       ''retain the original outfit\'s colors and general style, rendered with '' @
       ''flat solid colors and no gradients or shading. IMPORTANT: Preserve the '' @
       ''original photo\'s background scene, environment, and setting as much as '' @
       ''possible '' @
       utf8 [0x2014] @
       '' redraw the background in Peanuts comic style while keeping the same '' @
       ''locations, objects, structures, and spatial layout from the original '' @
       ''photo. Do not replace the background with a blank or generic scene. Use a '' @
       ''soft, muted pastel color palette consistent with the Peanuts aesthetic. '' @
       ''The overall feel should look like an authentic Peanuts comic panel drawn '' @
       ''by Charles Schulz. Preserve the original photo\'s composition, subject '' @
       ''positions, and relative positioning of all people.''\<rparr>\<close>

definition style_art_nouveau :: style_option where
  \<open>style_art_nouveau = \<lparr>style_id = 19, name = utf8 [0xC544, 0xB974, 0xB204, 0xBCF4],
    nameEn = ''art-nouveau'', emoji = utf8 [0x1F33F],
    prompt =
       ''Transform this photo into Art Nouveau style with elegant flowing organic '' @
       ''lines, floral and botanical decorative elements, ornate borders, muted '' @
       ''earthy color palette, and Alphonse Mucha-inspired composition. Keep the '' @
       ''subject.''\<rparr>\<close>

definition style_gta_style :: style_option where
  \<open>style_gta_style = \<lparr>style_id = 20, name = utf8 [0x47, 0x54, 0x41, 0x20, 0xAC8C, 0xC784, 0x20, 0xC2A4, 0xD0C0, 0xC77C],
    nameEn = ''gta-style'', emoji = utf8 [0x1F3AE],
    prompt =
       ''Transform this photo into GTA (Grand Theft Auto) loading screen art style '' @
       ''with bold cinematic colors, dramatic shadows, slightly exaggerated '' @
       ''features, saturated tones, and a stylized realistic look. Preserve the '' @
       ''composition.''\<rparr>\<close>

definition style_nine_expressions_grid :: style_option where
  \<open>style_nine_expressions_grid = \<lparr>style_id = 21, name = utf8 [0x39, 0xC885, 0x20, 0xD45C, 0xC815, 0x20, 0xC138, 0xD2B8],
    nameEn = ''9-expressions-grid'', emoji = utf8 [0x1F4F8],
    prompt =
       ''Using the uploaded photo as reference for the person\'s appearance (face, '' @
       ''hair, body type), generate a single image containing a 3x3 grid of 9 '' @
       ''portraits of this exact same person. Each cell should show a different '' @
       ''pose and facial expression. The 9 variations should include: (1) smiling '' @
       ''with arms crossed, (2) laughing with head tilted, (3) chin resting on '' @
       ''hand thoughtfully, (4) covering mouth while giggling, (5) making a peace '' @
       ''sign, (6) hands on hips confidently, (7) surprised expression with open '' @
       ''mouth, (8) hands touching hair playfully, (9) calm neutral expression '' @
       ''looking straight ahead. All 9 portraits must maintain the exact same '' @
       ''person identity '' @
       utf8 [0x2014] @
       '' same face, same hairstyle, same hair color, same clothing outfit '' @
       ''throughout all cells. Keep the same plain light gray background in every '' @
       ''cell. Each cell should be evenly sized and separated by thin white '' @
       ''borders. The style should be photorealistic studio portrait photography '' @
       ''with soft natural lighting. The output should be one single combined '' @
       ''image with all 9 portraits arranged in a clean 3x3 grid layout.''\<rparr>\<close>

definition STYLES :: "style_option list" where
  "STYLES = [style_watercolor,
    style_oil_painting,
    style_pencil_sketch,
    style_anime,
    style_ghibli,
    style_pop_art,
    style_comic_book,
    style_pixel_art,
    style_clay_3d,
    style_cyberpunk,
    style_impressionist,
    style_ukiyo_e,
    style_caricature,
    style_vaporwave,
    style_dark_gothic,
    style_line_drawing,
    style_lego,
    style_peanuts,
    style_art_nouveau,
    style_gta_style,
    style_nine_expressions_grid]"

definition slug_char :: "char \<Rightarrow> bool" where
  "slug_char c \<longleftrightarrow> c \<in> set ''abcdefghijklmnopqrstuvwxyz0123456789-''"

lemmas style_defs = style_watercolor_def style_oil_painting_def style_pencil_sketch_def style_anime_def style_ghibli_def style_pop_art_def style_comic_book_def style_pixel_art_def style_clay_3d_def style_cyberpunk_def style_impressionist_def style_ukiyo_e_def style_caricature_def style_vaporwave_def style_dark_gothic_def style_line_drawing_def style_lego_def style_peanuts_def style_art_nouveau_def style_gta_style_def style_nine_expressions_grid_def

text \<open>Every prompt of the catalog is a non-empty string, so the client's
  \<open>stylePrompt\<close> is never falsy.\<close>

lemma STYLES_prompts: "list_all (\<lambda>s. prompt s \<noteq> []) STYLES"
  by (simp add: STYLES_def style_defs)

lemma STYLES_ids_distinct: "distinct (map style_id STYLES)"
  by (simp add: STYLES_def style_defs)

text \<open>No slug contains an underscore, the separator of the download file name.\<close>

lemma STYLES_slug_no_underscore: "st \<in> set STYLES \<Longrightarrow> CHR ''_'' \<notin> set (nameEn st)"
  by (auto simp: STYLES_def style_defs)


text \<open>C11. The slugs (\<open>nameEn\<close>), which name the downloaded files, are pairwise
  distinct and non-empty, and consist of lower-case ASCII letters, digits and hyphens only.\<close>

theorem STYLES_slugs:
  "distinct (map nameEn STYLES) \<and>
   list_all (\<lambda>s. nameEn s \<noteq> [] \<and> list_all slug_char (nameEn s)) STYLES"
  by (simp add: STYLES_def style_defs slug_char_def)

end
