(* ===== verification/Image_Prep.thy ===== *)
theory Image_Prep
  imports Complex_Main Prelude
begin

text \<open>
  Client-side image preparation: \<open>validateFile\<close> and \<open>resizeAndConvertToBase64\<close> of
  \<open>src/lib/utils.ts\<close>, and \<open>processFile\<close> of \<open>src/components/ImageUploader.tsx\<close>,
  which runs them and hands an \<open>UploadedImage\<close> to the page.
  The browser is a parameter, not an assumption: what \<open>FileReader\<close> and \<open>Image\<close>
  deliver is a \<open>decode_outcome\<close> over an abstract pixel type \<open>'img\<close>, and the
  canvas encoder is a function from the requested MIME type, the pixels and the size to
  the MIME type it actually used and the base64 payload. \<open>canvas_to_data_url\<close> adds what
  the HTML standard fixes about \<open>toDataURL\<close>: a canvas with no pixels yields
  \<open>"data:,"\<close>, any other the \<open>data:\<close> URL of the encoding.
  JavaScript numbers in the resize are modelled as exact rationals; \<open>Math.round\<close> is
  \<open>\<lfloor>x + 1/2\<rfloor>\<close>.
\<close>

subsection \<open>Data\<close>

text \<open>The fields of the DOM \<open>File\<close> the code reads.\<close>

record file_info =
  file_name :: string
  file_type :: mime
  file_size :: nat

text \<open>The object \<open>resizeAndConvertToBase64\<close> resolves to. \<open>base64\<close> is
  \<open>dataUrl.split(",")[1]\<close>, \<open>undefined\<close> when there is no comma.\<close>

record prepared =
  prep_base64 :: "string option"
  prep_mime :: mime
  prep_preview :: string

text \<open>\<open>UploadedImage\<close> of \<open>src/types/index.ts\<close>.\<close>

record uploaded_image =
  img_file :: file_info
  img_preview :: string
  img_base64 :: "string option"
  img_mime :: mime

datatype 'img decode_outcome = ReadError | ImageError | Loaded 'img nat nat

type_synonym 'img encoder = "mime \<Rightarrow> 'img \<Rightarrow> nat \<Rightarrow> nat \<Rightarrow> mime \<times> string"

text \<open>The state of the \<open>ImageUploader\<close> component (its \<open>useState\<close> hooks).\<close>

record uploader_state =
  u_dragging :: bool
  u_error :: "string option"
  u_processing :: bool

subsection \<open>Constants and messages\<close>

definition SUPPORTED_TYPES :: "mime list" where
  "SUPPORTED_TYPES = [''image/jpeg'', ''image/png'', ''image/webp'']"

definition MAX_FILE_SIZE :: nat where
  "MAX_FILE_SIZE = 10 * 1024 * 1024"

definition MAX_DIMENSION :: nat where
  "MAX_DIMENSION = 1024"

definition msg_unsupported_type :: string where
  "msg_unsupported_type = utf8 [0xC9C0, 0xC6D0, 0xD558, 0xC9C0, 0x20, 0xC54A, 0xB294, 0x20,
     0xD30C, 0xC77C, 0x20, 0xD615, 0xC2DD, 0xC785, 0xB2C8, 0xB2E4, 0x2E] @
     '' JPG, PNG, WEBP '' @
     utf8 [0xD30C, 0xC77C, 0xB9CC, 0x20, 0xC5C5, 0xB85C, 0xB4DC, 0xD574, 0xC8FC, 0xC138, 0xC694,
     0x2E]"

definition msg_too_large :: string where
  "msg_too_large = utf8 [0xD30C, 0xC77C, 0x20, 0xD06C, 0xAE30, 0xAC00] @ '' 10MB'' @
     utf8 [0xB97C, 0x20, 0xCD08, 0xACFC, 0xD569, 0xB2C8, 0xB2E4, 0x2E, 0x20, 0xB354, 0x20, 0xC791,
     0xC740, 0x20, 0xD30C, 0xC77C, 0xC744, 0x20, 0xC120, 0xD0DD, 0xD574, 0xC8FC, 0xC138, 0xC694,
     0x2E]"

definition msg_ctx_failed :: string where
  "msg_ctx_failed = ''Canvas context'' @ utf8 [0x20, 0xC0DD, 0xC131, 0x20, 0xC2E4, 0xD328]"

definition msg_load_failed :: string where
  "msg_load_failed = utf8 [0xC774, 0xBBF8, 0xC9C0, 0x20, 0xB85C, 0xB4DC, 0x20, 0xC2E4, 0xD328]"

definition msg_read_failed :: string where
  "msg_read_failed = utf8 [0xD30C, 0xC77C, 0x20, 0xC77D, 0xAE30, 0x20, 0xC2E4, 0xD328]"

definition msg_processing_failed :: string where
  "msg_processing_failed = utf8 [0xC774, 0xBBF8, 0xC9C0, 0x20, 0xCC98, 0xB9AC, 0x20, 0xC911,
     0x20, 0xC624, 0xB958, 0xAC00, 0x20, 0xBC1C, 0xC0DD, 0xD588, 0xC2B5, 0xB2C8, 0xB2E4, 0x2E,
     0x20, 0xB2E4, 0xC2DC, 0x20, 0xC2DC, 0xB3C4, 0xD574, 0xC8FC, 0xC138, 0xC694, 0x2E]"

subsection \<open>Validation\<close>

definition validateFile :: "file_info \<Rightarrow> string option" where
  "validateFile f =
     (if file_type f \<notin> set SUPPORTED_TYPES then Some msg_unsupported_type
      else if file_size f > MAX_FILE_SIZE then Some msg_too_large
      else None)"

subsection \<open>Resize\<close>

text \<open>\<open>Math.round\<close> on non-negative numbers.\<close>

definition js_round :: "rat \<Rightarrow> int" where
  "js_round x = \<lfloor>x + 1 / 2\<rfloor>"

text \<open>\<open>Math.min(MAX_DIMENSION / width, MAX_DIMENSION / height)\<close>: a division by a zero
  side is \<open>Infinity\<close> in JavaScript, which \<open>Math.min\<close> passes over.\<close>

definition resize_ratio :: "nat \<Rightarrow> nat \<Rightarrow> rat" where
  "resize_ratio w h =
     (if w = 0 then of_nat MAX_DIMENSION / of_nat h
      else if h = 0 then of_nat MAX_DIMENSION / of_nat w
      else min (of_nat MAX_DIMENSION / of_nat w) (of_nat MAX_DIMENSION / of_nat h))"

text \<open>Lines 38--42: the canvas size for an image of \<open>w \<times> h\<close> pixels.\<close>

definition resize_dims :: "nat \<Rightarrow> nat \<Rightarrow> nat \<times> nat" where
  "resize_dims w h =
     (if w > MAX_DIMENSION \<or> h > MAX_DIMENSION then
        (let ratio = resize_ratio w h
         in (nat (js_round (of_nat w * ratio)), nat (js_round (of_nat h * ratio))))
      else (w, h))"

subsection \<open>Encoding\<close>

text \<open>\<open>canvas.toDataURL(type, quality)\<close>.\<close>

definition canvas_to_data_url :: "'img encoder \<Rightarrow> 'img \<Rightarrow> nat \<Rightarrow> nat \<Rightarrow> mime \<Rightarrow> string" where
  "canvas_to_data_url enc img w h m =
     (if w = 0 \<or> h = 0 then ''data:,''
      else (case enc m img w h of (m', payload) \<Rightarrow> ''data:'' @ m' @ '';base64,'' @ payload))"

text \<open>The promise of \<open>resizeAndConvertToBase64\<close>: its rejections (the reader, the
  image or the 2D context failing) and its resolution. \<open>ctx\<close> says whether
  \<open>getContext("2d")\<close> returns a context.\<close>

definition resizeAndConvertToBase64 ::
  "'img encoder \<Rightarrow> bool \<Rightarrow> 'img decode_outcome \<Rightarrow> file_info \<Rightarrow> thrown + prepared"
where
  "resizeAndConvertToBase64 enc ctx dec f =
     (case dec of
        ReadError \<Rightarrow> Inl (ThrownError ''Error'' msg_read_failed)
      | ImageError \<Rightarrow> Inl (ThrownError ''Error'' msg_load_failed)
      | Loaded img w0 h0 \<Rightarrow>
          (case resize_dims w0 h0 of (w, h) \<Rightarrow>
             if \<not> ctx then Inl (ThrownError ''Error'' msg_ctx_failed)
             else
               (let mimeType = file_type f;
                    dataUrl = canvas_to_data_url enc img w h mimeType
                in Inr \<lparr>prep_base64 = nth_opt (js_split (CHR '','') dataUrl) 1,
                        prep_mime = mimeType, prep_preview = dataUrl\<rparr>)))"

subsection \<open>The uploader\<close>

text \<open>\<open>processFile\<close> up to its \<open>await\<close>: clear the error, validate, and either show
  the validation message or mark the component busy and start the preparation (the
  second component of the result says whether it was started).\<close>

definition processFile_start :: "file_info \<Rightarrow> uploader_state \<Rightarrow> uploader_state \<times> bool" where
  "processFile_start f s =
     (let s1 = s\<lparr>u_error := None\<rparr>
      in case validateFile f of
           Some e \<Rightarrow> (s1\<lparr>u_error := Some e\<rparr>, False)
         | None \<Rightarrow> (s1\<lparr>u_processing := True\<rparr>, True))"

text \<open>The \<open>UploadedImage\<close> object \<open>processFile\<close> builds from the file and the prepared
  data.\<close>

definition uploaded_of :: "file_info \<Rightarrow> prepared \<Rightarrow> uploaded_image" where
  "uploaded_of f p =
     \<lparr>img_file = f, img_preview = prep_preview p, img_base64 = prep_base64 p, img_mime = prep_mime p\<rparr>"

text \<open>\<open>processFile\<close> after its \<open>await\<close>: on success the \<open>UploadedImage\<close> handed to
  \<open>onImageUpload\<close>, on failure the generic message; \<open>finally\<close> clears the busy flag.\<close>

definition processFile_finish ::
  "file_info \<Rightarrow> thrown + prepared \<Rightarrow> uploader_state \<Rightarrow> uploader_state \<times> uploaded_image option"
where
  "processFile_finish f r s =
     (case r of
        Inr p \<Rightarrow>
          (s\<lparr>u_processing := False\<rparr>, Some (uploaded_of f p))
      | Inl _ \<Rightarrow> (s\<lparr>u_error := Some msg_processing_failed, u_processing := False\<rparr>, None))"

text \<open>The whole of \<open>processFile\<close> when nothing else happens while it waits: the
  start, the preparation, and the continuation after the \<open>await\<close>.\<close>

definition processFile_run ::
  "'img encoder \<Rightarrow> bool \<Rightarrow> 'img decode_outcome \<Rightarrow> file_info \<Rightarrow> uploader_state \<Rightarrow>
   uploader_state \<times> uploaded_image option"
where
  "processFile_run enc ctx dec f s =
     (case processFile_start f s of
        (s1, False) \<Rightarrow> (s1, None)
      | (s1, True) \<Rightarrow> processFile_finish f (resizeAndConvertToBase64 enc ctx dec f) s1)"

subsection \<open>Lemmas\<close>

lemma js_round_div:
  assumes "0 < b"
  shows "js_round (of_nat a / of_nat b) = int ((2 * a + b) div (2 * b))"
proof -
  have eq: "of_nat a / of_nat b + 1 / 2 = (of_int (2 * int a + int b) / of_int (2 * int b) :: rat)"
    using assms by (simp add: field_simps)
  have "js_round (of_nat a / of_nat b) = (2 * int a + int b) div (2 * int b)"
    unfolding js_round_def eq by (rule floor_divide_of_int_eq)
  then show ?thesis by (simp add: zdiv_int)
qed

lemma resize_ratio_max:
  "0 < max w h \<Longrightarrow> resize_ratio w h = of_nat MAX_DIMENSION / of_nat (max w h)"
  by (auto simp: resize_ratio_def min_def max_def MAX_DIMENSION_def field_simps)

lemma js_round_scaled:
  assumes "0 < max w h"
  shows "js_round (of_nat s * resize_ratio w h) =
         int ((2 * (MAX_DIMENSION * s) + max w h) div (2 * max w h))"
proof -
  have "of_nat s * resize_ratio w h = (of_nat (MAX_DIMENSION * s) / of_nat (max w h) :: rat)"
    using assms by (simp add: resize_ratio_max)
  then show ?thesis using assms by (simp only: js_round_div)
qed

text \<open>The integer form: \<open>round(s * 1024 / m) = (2048 s + m) div 2m\<close>.\<close>

lemma resize_dims_eq:
  "resize_dims w h =
     (if MAX_DIMENSION < max w h
      then ((2 * (MAX_DIMENSION * w) + max w h) div (2 * max w h),
            (2 * (MAX_DIMENSION * h) + max w h) div (2 * max w h))
      else (w, h))"
proof (cases "MAX_DIMENSION < max w h")
  case True
  then have m: "0 < max w h" by simp
  have "MAX_DIMENSION < w \<or> MAX_DIMENSION < h" using True by (simp add: less_max_iff_disj)
  with True m show ?thesis
    by (simp add: resize_dims_def js_round_scaled Let_def del: of_nat_mult)
next
  case False
  then show ?thesis by (simp add: resize_dims_def less_max_iff_disj)
qed



lemma scale_max: "0 < m \<Longrightarrow> (2 * (1024 * m) + m) div (2 * m) = (1024::nat)"
proof -
  assume m: "0 < m"
  have "2 * (1024 * m) + m = 1024 * (2 * m) + m" by simp
  moreover have "m < 2 * m" using m by simp
  ultimately show ?thesis using m by (simp add: div_add_self1 div_less)
qed

lemma scale_le: "0 < m \<Longrightarrow> s \<le> m \<Longrightarrow> (2 * (1024 * s) + m) div (2 * m) \<le> (1024::nat)"
proof -
  assume m: "0 < m" and s: "s \<le> m"
  have "(2 * (1024 * s) + m) div (2 * m) \<le> (2 * (1024 * m) + m) div (2 * m)"
    using s by (intro div_le_mono) simp
  then show ?thesis using scale_max [OF m] by simp
qed

lemma scale_err:
  assumes "0 < m"
  shows "2 * \<bar>int ((2 * (1024 * s) + m) div (2 * m)) * int m - 1024 * int s\<bar> \<le> int m"
proof -
  define q where "q = (2 * (1024 * s) + m) div (2 * m)"
  define r where "r = (2 * (1024 * s) + m) mod (2 * m)"
  have "q * (2 * m) + r = 2 * (1024 * s) + m"
    by (simp add: q_def r_def div_mult_mod_eq)
  then have eq: "2 * (int q * int m) + int r = 2048 * int s + int m"
  proof -
    have "int (q * (2 * m) + r) = int (2 * (1024 * s) + m)" using \<open>q * (2 * m) + r = _\<close> by simp
    then show ?thesis by (simp add: algebra_simps)
  qed
  have "r < 2 * m" using assms by (simp add: r_def)
  then have "int r < 2 * int m" by linarith
  moreover have "0 \<le> int r" by simp
  ultimately have "2 * \<bar>int q * int m - 1024 * int s\<bar> \<le> int m"
    using eq by (auto simp: abs_if)
  then show ?thesis by (simp add: q_def)
qed


lemma data_url_split:
  assumes "CHR '','' \<notin> set m" "CHR '','' \<notin> set p"
  shows "nth_opt (js_split (CHR '','') (''data:'' @ m @ '';base64,'' @ p)) 1 = Some p"
proof -
  have "''data:'' @ m @ '';base64,'' @ p = (''data:'' @ m @ '';base64'') @ CHR '','' # p"
    by simp
  moreover have "CHR '','' \<notin> set (''data:'' @ m @ '';base64'')" using assms(1) by simp
  then have "nth_opt (js_split (CHR '','') ((''data:'' @ m @ '';base64'') @ CHR '','' # p)) 1 = Some p"
    using assms(2) by (rule nth_opt_split_second)
  ultimately show ?thesis by simp
qed

text \<open>C13. An image whose longer side is at most 1024 pixels keeps its size (no
  upscaling, no change).\<close>

theorem resize_noop: "max w h \<le> MAX_DIMENSION \<Longrightarrow> resize_dims w h = (w, h)"
  by (simp add: resize_dims_def)

theorem resize_noop_witness: "max 800 600 \<le> MAX_DIMENSION \<and> resize_dims 800 600 = (800, 600)"
  using resize_noop [of 800 600] by (simp add: MAX_DIMENSION_def)

text \<open>C14. An image whose longer side exceeds 1024 pixels is scaled so that its longer
  side is exactly 1024 pixels (and the shorter side is at most 1024).\<close>

theorem resize_fits:
  assumes "MAX_DIMENSION < max w h"
  shows "max (fst (resize_dims w h)) (snd (resize_dims w h)) = MAX_DIMENSION"
proof (cases "w \<le> h")
  case True
  then have mh: "max w h = h" "0 < h" using assms by auto
  have a: "(2 * (1024 * w) + h) div (2 * h) \<le> 1024" using mh True by (intro scale_le) auto
  have b: "(2 * (1024 * h) + h) div (2 * h) = 1024" using mh by (intro scale_max) auto
  show ?thesis using a b mh assms by (simp add: resize_dims_eq MAX_DIMENSION_def max_def)
next
  case False
  then have mw: "max w h = w" "0 < w" using assms by auto
  have a: "(2 * (1024 * h) + w) div (2 * w) \<le> 1024" using mw False by (intro scale_le) auto
  have b: "(2 * (1024 * w) + w) div (2 * w) = 1024" using mw by (intro scale_max) auto
  show ?thesis using a b mw assms by (simp add: resize_dims_eq MAX_DIMENSION_def max_def)
qed

theorem resize_fits_witness:
  "MAX_DIMENSION < max 2000 1000 \<and> max (fst (resize_dims 2000 1000)) (snd (resize_dims 2000 1000)) = MAX_DIMENSION
   \<and> resize_dims 2000 1000 = (1024, 512)"
  using resize_fits [of 2000 1000] by (simp add: MAX_DIMENSION_def resize_dims_eq)

text \<open>C15. The aspect ratio is kept within rounding: each side of the result differs
  from the exact scaled size \<open>side * 1024 / max(W, H)\<close> by at most half a pixel.\<close>

theorem resize_aspect:
  assumes "MAX_DIMENSION < max w h"
  shows "2 * \<bar>int (fst (resize_dims w h)) * int (max w h) - int MAX_DIMENSION * int w\<bar> \<le> int (max w h) \<and>
         2 * \<bar>int (snd (resize_dims w h)) * int (max w h) - int MAX_DIMENSION * int h\<bar> \<le> int (max w h)"
proof -
  have m: "0 < max w h" using assms by simp
  show ?thesis
    using assms scale_err [OF m, of w] scale_err [OF m, of h]
    by (simp add: resize_dims_eq MAX_DIMENSION_def)
qed

theorem resize_aspect_witness:
  "MAX_DIMENSION < max 3000 2001 \<and> resize_dims 3000 2001 = (1024, 683) \<and>
   2 * \<bar>683 * 3000 - 1024 * 2001\<bar> \<le> (3000::int)"
  using resize_aspect [of 3000 2001] by (simp add: MAX_DIMENSION_def resize_dims_eq)


text \<open>C17. \<open>validateFile\<close> accepts exactly the JPEG, PNG and WebP files of at most
  10 MiB; an unsupported type is reported first (whatever the size), and a supported file
  over 10 MiB gets the size message.\<close>

theorem validateFile_spec:
  "(validateFile f = None \<longleftrightarrow>
      file_type f \<in> {''image/jpeg'', ''image/png'', ''image/webp''} \<and> file_size f \<le> 10485760) \<and>
   (file_type f \<notin> {''image/jpeg'', ''image/png'', ''image/webp''} \<longrightarrow>
      validateFile f = Some msg_unsupported_type) \<and>
   (file_type f \<in> {''image/jpeg'', ''image/png'', ''image/webp''} \<and> 10485760 < file_size f \<longrightarrow>
      validateFile f = Some msg_too_large)"
  by (auto simp: validateFile_def SUPPORTED_TYPES_def MAX_FILE_SIZE_def)

theorem validateFile_spec_witness:
  "validateFile \<lparr>file_name = ''a.gif'', file_type = ''image/gif'', file_size = 20000000\<rparr> =
     Some msg_unsupported_type \<and>
   validateFile \<lparr>file_name = ''b.png'', file_type = ''image/png'', file_size = 10485761\<rparr> =
     Some msg_too_large \<and>
   validateFile \<lparr>file_name = ''c.webp'', file_type = ''image/webp'', file_size = 10485760\<rparr> = None"
  using validateFile_spec [of "\<lparr>file_name = ''a.gif'', file_type = ''image/gif'', file_size = 20000000\<rparr>"]
    validateFile_spec [of "\<lparr>file_name = ''b.png'', file_type = ''image/png'', file_size = 10485761\<rparr>"]
    validateFile_spec [of "\<lparr>file_name = ''c.webp'', file_type = ''image/webp'', file_size = 10485760\<rparr>"]
  by simp

text \<open>C18. When the image loads, the canvas is non-empty and the encoder's MIME type and
  payload contain no comma (as base64 and MIME types never do), the preparation resolves with
  \<open>base64\<close> equal to the payload and \<open>preview\<close> equal to
  \<open>"data:" + type + ";base64," + base64\<close>: the preview and the transported payload are
  the same encoding. The MIME type recorded is the file's, whatever the encoder used.\<close>

theorem prepare_data_url:
  assumes "resize_dims w0 h0 = (w, h)" "0 < w" "0 < h"
    and "enc (file_type f) img w h = (m', p)" "CHR '','' \<notin> set m'" "CHR '','' \<notin> set p"
  shows "resizeAndConvertToBase64 enc True (Loaded img w0 h0) f =
           Inr \<lparr>prep_base64 = Some p, prep_mime = file_type f,
                prep_preview = ''data:'' @ m' @ '';base64,'' @ p\<rparr>"
proof -
  have url: "canvas_to_data_url enc img w h (file_type f) = ''data:'' @ m' @ '';base64,'' @ p"
    using assms(2-4) by (simp add: canvas_to_data_url_def)
  have "resizeAndConvertToBase64 enc True (Loaded img w0 h0) f =
     Inr \<lparr>prep_base64 = nth_opt (js_split (CHR '','') (canvas_to_data_url enc img w h (file_type f))) 1,
          prep_mime = file_type f, prep_preview = canvas_to_data_url enc img w h (file_type f)\<rparr>"
    using assms(1) by (simp add: resizeAndConvertToBase64_def Let_def del: js_split.simps)
  then show ?thesis by (simp only: url data_url_split [OF assms(5,6)])
qed

theorem prepare_data_url_witness:
  "resizeAndConvertToBase64 (\<lambda>m img w h. (m, ''QUJD'')) True (Loaded () 2000 1000)
     \<lparr>file_name = ''p.jpg'', file_type = ''image/jpeg'', file_size = 9000000\<rparr> =
   Inr \<lparr>prep_base64 = Some ''QUJD'', prep_mime = ''image/jpeg'',
        prep_preview = ''data:image/jpeg;base64,QUJD''\<rparr>"
proof -
  have "resize_dims 2000 1000 = (1024, 512)" by (simp add: resize_dims_eq MAX_DIMENSION_def)
  from prepare_data_url [OF this, where enc = "\<lambda>m img w h. (m, ''QUJD'')" and img = "()"
      and f = "\<lparr>file_name = ''p.jpg'', file_type = ''image/jpeg'', file_size = 9000000\<rparr>"
      and m' = "''image/jpeg''" and p = "''QUJD''"]
  show ?thesis by simp
qed

text \<open>C19. When the resized canvas has a zero side, \<open>toDataURL\<close> gives
  \<open>"data:,"\<close>, and the preparation still resolves, with an empty \<open>base64\<close>.\<close>

theorem prepare_empty_canvas:
  assumes "resize_dims w0 h0 = (w, h)" "w = 0 \<or> h = 0"
  shows "resizeAndConvertToBase64 enc True (Loaded img w0 h0) f =
           Inr \<lparr>prep_base64 = Some [], prep_mime = file_type f, prep_preview = ''data:,''\<rparr>"
  using assms by (auto simp: resizeAndConvertToBase64_def canvas_to_data_url_def)

theorem prepare_empty_canvas_witness:
  "resizeAndConvertToBase64 (\<lambda>m img w h. (m, ''QUJD'')) True (Loaded () 1 2049)
     \<lparr>file_name = ''line.png'', file_type = ''image/png'', file_size = 100\<rparr> =
   Inr \<lparr>prep_base64 = Some [], prep_mime = ''image/png'', prep_preview = ''data:,''\<rparr>"
proof -
  have "resize_dims 1 2049 = (0, 1024)" by (simp add: resize_dims_eq MAX_DIMENSION_def)
  from prepare_empty_canvas [OF this, where enc = "\<lambda>m img w h. (m, ''QUJD'')" and img = "()"]
  show ?thesis by simp
qed


end
