(* ===== verification/Uploader.thy ===== *)
theory Uploader
  imports Image_Prep
begin

text \<open>
  The \<open>ImageUploader\<close> component of \<open>src/components/ImageUploader.tsx\<close> around
  \<open>processFile\<close>: its event handlers and what it renders.
  \<^item> \<open>uploader_event\<close> is the DOM event a handler receives; \<open>uploader_input\<close> applies
    the handler to the component's state and yields the file it passes to
    \<open>processFile\<close>, if any (\<open>files[0]\<close>);
  \<^item> \<open>ImageUploader_view\<close> is the rendered component: the preview of the uploaded image
    with its name and size, or the drop zone with its spinner, prompt and error message.
    The size is \<open>(file.size / 1024 / 1024).toFixed(2)\<close>: dividing by a power of two
    is exact in binary floating point, so the rational \<open>size / 2^20\<close> is the value
    \<open>toFixed\<close> formats, and \<open>toFixed2\<close> is its algorithm for two digits on a
    non-negative number below \<open>10^21\<close>.
\<close>

subsection \<open>Event handlers\<close>

datatype uploader_event =
    DragEnter
  | DragLeave
  | DragOver
  | Drop "file_info list"
  | FileChange "file_info list"

definition handleDragEnter :: "uploader_state \<Rightarrow> uploader_state" where
  "handleDragEnter s = s\<lparr>u_dragging := True\<rparr>"

definition handleDragLeave :: "uploader_state \<Rightarrow> uploader_state" where
  "handleDragLeave s = s\<lparr>u_dragging := False\<rparr>"

text \<open>\<open>handleDragOver\<close> only prevents the browser's default.\<close>

definition handleDragOver :: "uploader_state \<Rightarrow> uploader_state" where
  "handleDragOver s = s"

definition first_file :: "file_info list \<Rightarrow> file_info option" where
  "first_file files = (case files of [] \<Rightarrow> None | f # _ \<Rightarrow> Some f)"

text \<open>\<open>handleDrop\<close>: the highlight is cleared first; a disabled component ignores the
  drop; otherwise the first dropped file, if any, is processed.\<close>

definition handleDrop ::
  "bool \<Rightarrow> file_info list \<Rightarrow> uploader_state \<Rightarrow> uploader_state \<times> file_info option" where
  "handleDrop disabled files s =
     (let s1 = s\<lparr>u_dragging := False\<rparr>
      in if disabled then (s1, None) else (s1, first_file files))"

text \<open>\<open>handleFileChange\<close>: the first chosen file, if any, is processed and the input is
  cleared (\<open>e.target.value = ""\<close>, no state of the component). The file input is opened
  by \<open>handleClick\<close>, which does nothing when the component is disabled.\<close>

definition handleFileChange ::
  "file_info list \<Rightarrow> uploader_state \<Rightarrow> uploader_state \<times> file_info option" where
  "handleFileChange files s = (s, first_file files)"

definition handleClick :: "bool \<Rightarrow> bool" where
  "handleClick disabled \<longleftrightarrow> \<not> disabled"

definition uploader_input ::
  "bool \<Rightarrow> uploader_event \<Rightarrow> uploader_state \<Rightarrow> uploader_state \<times> file_info option" where
  "uploader_input disabled ev s =
     (case ev of
        DragEnter \<Rightarrow> (handleDragEnter s, None)
      | DragLeave \<Rightarrow> (handleDragLeave s, None)
      | DragOver \<Rightarrow> (handleDragOver s, None)
      | Drop files \<Rightarrow> handleDrop disabled files s
      | FileChange files \<Rightarrow> handleFileChange files s)"

subsection \<open>Rendering\<close>

text \<open>\<open>Number.prototype.toFixed(2)\<close> on a non-negative number: the integer \<open>n\<close> with
  \<open>n / 100\<close> closest to \<open>x\<close> (the larger on a tie), its decimal digits padded with
  zeros to at least three, and a point before the last two.\<close>

definition fixed2_digits :: "nat \<Rightarrow> string" where
  "fixed2_digits n =
     (let m = string_of_nat n;
          m' = replicate (3 - length m) CHR ''0'' @ m
      in take (length m' - 2) m' @ ''.'' @ drop (length m' - 2) m')"

definition toFixed2 :: "rat \<Rightarrow> string" where
  "toFixed2 x = fixed2_digits (nat \<lfloor>x * 100 + 1 / 2\<rfloor>)"

definition size_label :: "nat \<Rightarrow> string" where
  "size_label bytes = toFixed2 (of_nat bytes / 1024 / 1024) @ '' MB''"

record preview_view =
  pv_src :: string
  pv_file_name :: string
  pv_size :: string
  pv_reset_disabled :: bool

record drop_zone_view =
  dz_dimmed :: bool
  dz_highlight :: bool
  dz_spinner :: bool
  dz_prompt :: "string option"
  dz_error :: "string option"

datatype uploader_view = PreviewPane preview_view | DropZone drop_zone_view

definition msg_drop_here :: string where
  "msg_drop_here = utf8 [0xC5EC, 0xAE30, 0xC5D0] @ '' '' @ utf8 [0xB193, 0xC73C, 0xC138, 0xC694] @ ''!''"

definition msg_drag_or_click :: string where
  "msg_drag_or_click = utf8 [0xC774, 0xBBF8, 0xC9C0, 0xB97C] @ '' '' @
     utf8 [0xB4DC, 0xB798, 0xADF8, 0xD558, 0xAC70, 0xB098] @ '' '' @
     utf8 [0xD074, 0xB9AD, 0xD558, 0xC5EC] @ '' '' @ utf8 [0xC5C5, 0xB85C, 0xB4DC]"

text \<open>Lines 104--222: the preview when an image is uploaded, otherwise the drop zone;
  the uploader's error message belongs to the drop zone only.\<close>

definition ImageUploader_view ::
  "uploaded_image option \<Rightarrow> bool \<Rightarrow> uploader_state \<Rightarrow> uploader_view" where
  "ImageUploader_view img disabled s =
     (case img of
        Some i \<Rightarrow>
          PreviewPane \<lparr>pv_src = img_preview i, pv_file_name = file_name (img_file i),
                       pv_size = size_label (file_size (img_file i)),
                       pv_reset_disabled = disabled\<rparr>
      | None \<Rightarrow>
          DropZone \<lparr>dz_dimmed = disabled, dz_highlight = u_dragging s,
                    dz_spinner = u_processing s,
                    dz_prompt = (if u_processing s then None
                                 else Some (if u_dragging s then msg_drop_here else msg_drag_or_click)),
                    dz_error = u_error s\<rparr>)"

subsection \<open>Lemmas\<close>

lemma nat_of_digits_zeros: "nat_of_digits (replicate k CHR ''0'' @ s) = nat_of_digits s"
proof -
  have "foldl (\<lambda>acc c. 10 * acc + (of_char c - 48)) 0 (replicate k CHR ''0'') = (0::nat)"
    by (induction k) simp_all
  then show ?thesis by (simp add: nat_of_digits_def)
qed

lemma round_div_err:
  assumes "0 < d"
  shows "2 * \<bar>int ((2 * a + d) div (2 * d)) * int d - int a\<bar> \<le> int d"
proof -
  define q where "q = (2 * a + d) div (2 * d)"
  define r where "r = (2 * a + d) mod (2 * d)"
  have "int (q * (2 * d) + r) = int (2 * a + d)" by (simp add: q_def r_def div_mult_mod_eq)
  then have eq: "2 * (int q * int d) + int r = 2 * int a + int d" by (simp add: algebra_simps)
  have "r < 2 * d" using assms by (simp add: r_def)
  then have "int r < 2 * int d" by linarith
  with eq have "2 * \<bar>int q * int d - int a\<bar> \<le> int d" by (auto simp: abs_if)
  then show ?thesis by (simp add: q_def)
qed

lemma size_label_round:
  "nat \<lfloor>(of_nat s / 1024 / 1024 :: rat) * 100 + 1 / 2\<rfloor> = (2 * (100 * s) + 1048576) div (2 * 1048576)"
proof -
  have "(of_nat s / 1024 / 1024 :: rat) * 100 = of_nat (100 * s) / of_nat 1048576" by simp
  then have "\<lfloor>(of_nat s / 1024 / 1024 :: rat) * 100 + 1 / 2\<rfloor> =
      js_round (of_nat (100 * s) / of_nat 1048576)"
    by (simp only: js_round_def)
  also have "\<dots> = int ((2 * (100 * s) + 1048576) div (2 * 1048576))"
    by (rule js_round_div) simp
  finally show ?thesis by simp
qed

lemma fixed2_digits_parts:
  "\<exists>a b. fixed2_digits n = a @ ''.'' @ b \<and> a \<noteq> [] \<and> length b = 2 \<and>
           (\<forall>c \<in> set (a @ b). is_dec_digit c) \<and> nat_of_digits (a @ b) = n"
proof -
  define m where "m = string_of_nat n"
  define m' where "m' = replicate (3 - length m) CHR ''0'' @ m"
  have len: "3 \<le> length m'" by (simp add: m'_def)
  have "fixed2_digits n = take (length m' - 2) m' @ ''.'' @ drop (length m' - 2) m'"
    by (simp add: fixed2_digits_def m_def m'_def Let_def)
  moreover have "take (length m' - 2) m' \<noteq> []" using len by (cases m') auto
  moreover have "length (drop (length m' - 2) m') = 2" using len by simp
  moreover have "\<forall>c \<in> set m'. is_dec_digit c"
    using string_of_nat_digits [of n] by (auto simp: m'_def m_def is_dec_digit_def)
  moreover have "nat_of_digits m' = n" by (simp add: m'_def m_def nat_of_digits_zeros)
  ultimately show ?thesis
    by (intro exI [of _ "take (length m' - 2) m'"] exI [of _ "drop (length m' - 2) m'"]) simp
qed

text \<open>C38. The size label of the preview is a decimal with at least one digit before the
  point and exactly two after it, followed by \<open> MB\<close>; read back without the point it is
  the size in hundredths of a mebibyte, within half a hundredth of the exact value.\<close>

theorem size_label_roundtrip:
  "\<exists>a b. size_label s = a @ ''.'' @ b @ '' MB'' \<and> a \<noteq> [] \<and> length b = 2 \<and>
     (\<forall>c \<in> set (a @ b). is_dec_digit c) \<and>
     2 * \<bar>int (nat_of_digits (a @ b)) * 1048576 - 100 * int s\<bar> \<le> 1048576"
proof -
  have t: "toFixed2 (of_nat s / 1024 / 1024) =
      fixed2_digits ((2 * (100 * s) + 1048576) div (2 * 1048576))"
    by (simp only: toFixed2_def size_label_round)
  obtain a b where ab: "fixed2_digits ((2 * (100 * s) + 1048576) div (2 * 1048576)) = a @ ''.'' @ b"
    "a \<noteq> []" "length b = 2" "\<forall>c \<in> set (a @ b). is_dec_digit c"
    "nat_of_digits (a @ b) = (2 * (100 * s) + 1048576) div (2 * 1048576)"
    using fixed2_digits_parts by blast
  have "2 * \<bar>int (nat_of_digits (a @ b)) * int 1048576 - int (100 * s)\<bar> \<le> int 1048576"
    unfolding ab(5) by (rule round_div_err) simp
  note err = this
  show ?thesis unfolding size_label_def t
    by (rule exI [of _ a], rule exI [of _ b]) (use ab(1-4) err in simp)
qed

theorem size_label_roundtrip_witness:
  "size_label 3670016 = ''3.50 MB'' \<and>
   (\<exists>a b. size_label 3670016 = a @ ''.'' @ b @ '' MB'' \<and> a \<noteq> [] \<and> length b = 2 \<and>
     list_all is_dec_digit (a @ b) \<and>
     2 * \<bar>int (nat_of_digits (a @ b)) * 1048576 - 100 * int 3670016\<bar> \<le> 1048576)"
proof
  show "size_label 3670016 = ''3.50 MB''"
    unfolding size_label_def toFixed2_def size_label_round
    by (simp add: fixed2_digits_def string_of_nat.simps)
  show "\<exists>a b. size_label 3670016 = a @ ''.'' @ b @ '' MB'' \<and> a \<noteq> [] \<and> length b = 2 \<and>
     list_all is_dec_digit (a @ b) \<and>
     2 * \<bar>int (nat_of_digits (a @ b)) * 1048576 - 100 * int 3670016\<bar> \<le> 1048576"
    using size_label_roundtrip [of 3670016] by (simp only: list_all_iff)
qed

end
