(* ===== verification/Controller.thy ===== *)
theory Controller
  imports Styles Uploader Transform_Route "HOL-Library.Multiset"
begin

text \<open>
  The application state controller: the \<open>Home\<close> page of \<open>src/app/page.tsx\<close>.
  \<^item> \<open>home_state\<close> is its five \<open>useState\<close> hooks; each \<open>useCallback\<close> handler is a
    function on it. \<open>handleTransform\<close> is split at its \<open>await\<close>: the start clears the
    result and error, sets the loading flag and yields the request it sends (the image and
    style its closure captured), and the finish applies what the request settled to.
  \<^item> the client side of \<open>fetch("/api/transform")\<close>: \<open>request_body\<close> is the JSON the
    page sends and \<open>client_outcome\<close> what it makes of the answer; \<open>deliver\<close> is the
    HTTP answer of the route as the client sees it.
  \<^item> \<open>app_state\<close> adds the uploader component's state and the asynchronous work in flight
    (preparations and transform requests, as multisets: they complete in any order).
    \<open>ui_step\<close> is the step relation of the whole page: one rule per event, its guard the
    condition under which the page renders the control enabled (the JSX conditions and
    \<open>disabled\<close> attributes of \<open>page.tsx\<close>, \<open>ImageUploader\<close>, \<open>StyleGrid\<close>,
    \<open>StyleCard\<close>, \<open>TransformButton\<close> and \<open>ResultView\<close>), or the completion of one
    piece of work in flight with any outcome the browser or the server may produce. Events
    on the drop zone go through the uploader's handlers (\<open>uploader_input\<close>); when a
    handler yields a file, \<open>processFile\<close> starts on it.
  \<^item> \<open>stage_of\<close> abstracts a page state to the six stages of the spec (section 4.5) and
    \<open>spec_step\<close> is the spec's transition relation on them.
\<close>

subsection \<open>Data\<close>

text \<open>\<open>TransformResult\<close> of \<open>src/types/index.ts\<close>.\<close>

record transform_result =
  originalSrc :: string
  transformedSrc :: string
  style :: style_option

record home_state =
  uploadedImage :: "uploaded_image option"
  selectedStyle :: "style_option option"
  isLoading :: bool
  result :: "transform_result option"
  error :: "string option"

text \<open>What \<open>fetch\<close> settles to: a rejection (network failure), or a response with its
  status and what \<open>response.json()\<close> settles to.\<close>

datatype fetch_outcome = FetchRejected thrown | FetchResponse nat "thrown + transform_response"

type_synonym transform_request = "uploaded_image \<times> style_option"

record app_state =
  home :: home_state
  uploader :: uploader_state
  uploads :: "file_info multiset"
  transforms :: "transform_request multiset"

subsection \<open>Messages\<close>

definition msg_transform_failed :: string where
  "msg_transform_failed = utf8 [0xBCC0, 0xD658, 0xC5D0, 0x20, 0xC2E4, 0xD328, 0xD588, 0xC2B5,
     0xB2C8, 0xB2E4, 0x2E]"

definition msg_no_image :: string where
  "msg_no_image = utf8 [0xBCC0, 0xD658, 0xB41C, 0x20, 0xC774, 0xBBF8, 0xC9C0, 0xB97C, 0x20,
     0xBC1B, 0xC9C0, 0x20, 0xBABB, 0xD588, 0xC2B5, 0xB2C8, 0xB2E4, 0x2E, 0x20, 0xB2E4, 0xC2DC,
     0x20, 0xC2DC, 0xB3C4, 0xD574, 0xC8FC, 0xC138, 0xC694, 0x2E]"

definition msg_client_unknown :: string where
  "msg_client_unknown = utf8 [0xC54C, 0x20, 0xC218, 0x20, 0xC5C6, 0xB294, 0x20, 0xC624, 0xB958,
     0xAC00, 0x20, 0xBC1C, 0xC0DD, 0xD588, 0xC2B5, 0xB2C8, 0xB2E4, 0x2E]"

subsection \<open>The handlers\<close>

definition home_init :: home_state where
  "home_init = \<lparr>uploadedImage = None, selectedStyle = None, isLoading = False, result = None,
     error = None\<rparr>"

definition handleImageUpload :: "uploaded_image \<Rightarrow> home_state \<Rightarrow> home_state" where
  "handleImageUpload img s = s\<lparr>uploadedImage := Some img, result := None, error := None\<rparr>"

definition handleStyleSelect :: "style_option \<Rightarrow> home_state \<Rightarrow> home_state" where
  "handleStyleSelect st s = s\<lparr>selectedStyle := Some st, error := None\<rparr>"

text \<open>\<open>handleTransform\<close> up to the \<open>await fetch\<close>; \<open>None\<close> is the early return.\<close>

definition handleTransform_start :: "home_state \<Rightarrow> home_state \<times> transform_request option" where
  "handleTransform_start s =
     (case (uploadedImage s, selectedStyle s) of
        (Some img, Some st) \<Rightarrow>
          (s\<lparr>isLoading := True, error := None, result := None\<rparr>, Some (img, st))
      | _ \<Rightarrow> (s, None))"

text \<open>The body \<open>JSON.stringify\<close> produces, as the route parses it back (an
  \<open>undefined\<close> field is left out).\<close>

definition request_body :: "transform_request \<Rightarrow> jsval" where
  "request_body req =
     (case req of (img, st) \<Rightarrow>
        JObj ((case img_base64 img of None \<Rightarrow> [] | Some b \<Rightarrow> [(''imageBase64'', JStr b)]) @
              [(''mimeType'', JStr (img_mime img)), (''stylePrompt'', JStr (prompt st))]))"

definition thrown_message :: "thrown \<Rightarrow> string" where
  "thrown_message e = (case e of ThrownError _ m \<Rightarrow> m | ThrownValue \<Rightarrow> msg_client_unknown)"

definition str_truthy :: "string option \<Rightarrow> bool" where
  "str_truthy v \<longleftrightarrow> (case v of None \<Rightarrow> False | Some s \<Rightarrow> s \<noteq> [])"

text \<open>Lines 59--75 of \<open>handleTransform\<close>: the checks on the answer and the result it
  builds, or the \<open>Error\<close> it throws.\<close>

definition client_outcome :: "transform_request \<Rightarrow> fetch_outcome \<Rightarrow> thrown + transform_result" where
  "client_outcome req out =
     (case out of
        FetchRejected e \<Rightarrow> Inl e
      | FetchResponse st body \<Rightarrow>
          (case body of
             Inl e \<Rightarrow> Inl e
           | Inr data \<Rightarrow>
               if \<not> (200 \<le> st \<and> st \<le> 299) \<or> str_truthy (resp_error data) then
                 Inl (ThrownError ''Error''
                   (if str_truthy (resp_error data) then the (resp_error data) else msg_transform_failed))
               else if \<not> str_truthy (resp_image data) then Inl (ThrownError ''Error'' msg_no_image)
               else
                 Inr \<lparr>originalSrc = img_preview (fst req),
                      transformedSrc = ''data:'' @ js_str_opt (resp_mime data) @ '';base64,'' @
                                       the (resp_image data),
                      style = snd req\<rparr>))"

text \<open>\<open>handleTransform\<close> after the \<open>await\<close>: the result or the error message, and
  \<open>finally\<close> the loading flag off.\<close>

definition handleTransform_finish :: "transform_request \<Rightarrow> fetch_outcome \<Rightarrow> home_state \<Rightarrow> home_state" where
  "handleTransform_finish req out s =
     (case client_outcome req out of
        Inl e \<Rightarrow> s\<lparr>error := Some (thrown_message e), isLoading := False\<rparr>
      | Inr r \<Rightarrow> s\<lparr>result := Some r, isLoading := False\<rparr>)"

definition handleRetryWithNewStyle :: "home_state \<Rightarrow> home_state" where
  "handleRetryWithNewStyle s = s\<lparr>result := None, selectedStyle := None, error := None\<rparr>"

definition handleStartOver :: "home_state \<Rightarrow> home_state" where
  "handleStartOver s =
     s\<lparr>uploadedImage := None, selectedStyle := None, result := None, error := None\<rparr>"

definition handleImageReset :: "home_state \<Rightarrow> home_state" where
  "handleImageReset s =
     s\<lparr>uploadedImage := None, selectedStyle := None, result := None, error := None\<rparr>"

definition canTransform :: "home_state \<Rightarrow> bool" where
  "canTransform s \<longleftrightarrow> uploadedImage s \<noteq> None \<and> selectedStyle s \<noteq> None \<and> \<not> isLoading s"

text \<open>The route's answer as the page's \<open>fetch\<close> sees it: the status, and the JSON body
  read back (the fields the route set, the others \<open>undefined\<close>).\<close>

definition deliver :: "http_response \<Rightarrow> fetch_outcome" where
  "deliver r = FetchResponse (status r) (Inr (payload r))"

subsection \<open>The page as a transition system\<close>

definition app_init :: app_state where
  "app_init = \<lparr>home = home_init,
     uploader = \<lparr>u_dragging = False, u_error = None, u_processing = False\<rparr>,
     uploads = {#}, transforms = {#}\<rparr>"

inductive ui_step :: "app_state \<Rightarrow> app_state \<Rightarrow> bool" where
  uploader_event:
    "uploadedImage (home s) = None \<Longrightarrow>
     uploader_input (isLoading (home s)) ev (uploader s) = (u', None) \<Longrightarrow>
     ui_step s (s\<lparr>uploader := u'\<rparr>)"
| upload_start:
    "uploadedImage (home s) = None \<Longrightarrow>
     uploader_input (isLoading (home s)) ev (uploader s) = (uf, Some f) \<Longrightarrow>
     processFile_start f uf = (u', started) \<Longrightarrow>
     ui_step s (s\<lparr>uploader := u',
                  uploads := (if started then add_mset f (uploads s) else uploads s)\<rparr>)"
| upload_done:
    "f \<in># uploads s \<Longrightarrow> processFile_finish f r (uploader s) = (u', img) \<Longrightarrow>
     ui_step s (s\<lparr>uploader := u', uploads := uploads s - {#f#},
                  home := (case img of None \<Rightarrow> home s | Some i \<Rightarrow> handleImageUpload i (home s))\<rparr>)"
| select_style:
    "uploadedImage (home s) \<noteq> None \<Longrightarrow> \<not> isLoading (home s) \<Longrightarrow> st \<in> set STYLES \<Longrightarrow>
     ui_step s (s\<lparr>home := handleStyleSelect st (home s)\<rparr>)"
| transform_click:
    "uploadedImage (home s) \<noteq> None \<Longrightarrow> selectedStyle (home s) \<noteq> None \<Longrightarrow>
     result (home s) = None \<Longrightarrow> canTransform (home s) \<Longrightarrow>
     handleTransform_start (home s) = (h', Some req) \<Longrightarrow>
     ui_step s (s\<lparr>home := h', transforms := add_mset req (transforms s)\<rparr>)"
| retry_click:
    "error (home s) \<noteq> None \<Longrightarrow> handleTransform_start (home s) = (h', rq) \<Longrightarrow>
     ui_step s (s\<lparr>home := h',
                  transforms := (case rq of None \<Rightarrow> transforms s | Some q \<Rightarrow> add_mset q (transforms s))\<rparr>)"
| transform_done:
    "req \<in># transforms s \<Longrightarrow>
     ui_step s (s\<lparr>home := handleTransform_finish req out (home s),
                  transforms := transforms s - {#req#}\<rparr>)"
| retry_new_style:
    "result (home s) \<noteq> None \<Longrightarrow> ui_step s (s\<lparr>home := handleRetryWithNewStyle (home s)\<rparr>)"
| start_over:
    "result (home s) \<noteq> None \<Longrightarrow> ui_step s (s\<lparr>home := handleStartOver (home s)\<rparr>)"
| image_reset:
    "uploadedImage (home s) \<noteq> None \<Longrightarrow> \<not> isLoading (home s) \<Longrightarrow>
     ui_step s (s\<lparr>home := handleImageReset (home s)\<rparr>)"

inductive reachable :: "app_state \<Rightarrow> bool" where
  init: "reachable app_init"
| step: "reachable s \<Longrightarrow> ui_step s t \<Longrightarrow> reachable t"

subsection \<open>The stages of the specification\<close>

datatype stage = Empty | Uploaded | StyleChosen | Transforming | Resulted | Failed

definition stage_of :: "home_state \<Rightarrow> stage" where
  "stage_of s =
     (if isLoading s then Transforming
      else if result s \<noteq> None then Resulted
      else if error s \<noteq> None then Failed
      else if uploadedImage s = None then Empty
      else if selectedStyle s = None then Uploaded
      else StyleChosen)"

text \<open>Section 4.5 of the spec: the forward path, the retry from a result or a failure with
  the same image, and re-upload and reset from any stage.\<close>

inductive spec_step :: "stage \<Rightarrow> stage \<Rightarrow> bool" where
  prepared: "spec_step Empty Uploaded"
| pick: "spec_step Uploaded StyleChosen"
| transform: "spec_step StyleChosen Transforming"
| succeed: "spec_step Transforming Resulted"
| fail: "spec_step Transforming Failed"
| new_style_after_result: "spec_step Resulted StyleChosen"
| new_style_after_failure: "spec_step Failed StyleChosen"
| retry_after_failure: "spec_step Failed Transforming"
| reupload: "spec_step st Uploaded"
| reset: "spec_step st Empty"

text \<open>The invariant the page keeps between its hooks and its work in flight.\<close>

definition app_inv :: "app_state \<Rightarrow> bool" where
  "app_inv s \<longleftrightarrow>
     size (transforms s) \<le> 1 \<and>
     (isLoading (home s) \<longleftrightarrow> transforms s \<noteq> {#}) \<and>
     (isLoading (home s) \<longrightarrow> result (home s) = None \<and> error (home s) = None) \<and>
     (result (home s) = None \<or> error (home s) = None) \<and>
     (uploadedImage (home s) = None \<longrightarrow>
        selectedStyle (home s) = None \<and> result (home s) = None \<and> error (home s) = None \<and>
        \<not> isLoading (home s))"

subsection \<open>Lemmas\<close>

lemma single_in_flight: "size M \<le> 1 \<Longrightarrow> x \<in># M \<Longrightarrow> M - {#x#} = {#}"
  by (metis One_nat_def diff_is_0_eq size_Diff_singleton size_eq_0_iff_empty)

lemma app_inv_init: "app_inv app_init"
  by (simp add: app_inv_def app_init_def home_init_def)

lemma handleTransform_start_cases:
  "handleTransform_start h = (h', rq) \<Longrightarrow>
   (rq = None \<and> h' = h \<and> (uploadedImage h = None \<or> selectedStyle h = None)) \<or>
   (\<exists>img st. rq = Some (img, st) \<and> uploadedImage h = Some img \<and> selectedStyle h = Some st \<and>
      h' = h\<lparr>isLoading := True, error := None, result := None\<rparr>)"
  by (auto simp: handleTransform_start_def split: option.splits)

lemma ui_step_app_inv: "ui_step s t \<Longrightarrow> app_inv s \<Longrightarrow> app_inv t"
proof (induction rule: ui_step.induct)
  case (uploader_event s ev u')
  then show ?case by (auto simp: app_inv_def)
next
  case (upload_start s ev uf f u' started)
  then show ?case by (auto simp: app_inv_def)
next
  case (upload_done f s r u' img)
  then show ?case
    by (auto simp: app_inv_def handleImageUpload_def split: option.splits)
next
  case (select_style s st)
  then show ?case by (auto simp: app_inv_def handleStyleSelect_def)
next
  case (transform_click s h' req)
  then show ?case
    by (auto simp: app_inv_def canTransform_def handleTransform_start_def split: option.splits)
next
  case (retry_click s h' rq)
  then show ?case
    by (auto simp: app_inv_def dest!: handleTransform_start_cases)
next
  case (transform_done req s out)
  then have "transforms s - {#req#} = {#}" by (auto simp: app_inv_def intro: single_in_flight)
  with transform_done show ?case
    by (auto simp: app_inv_def handleTransform_finish_def split: sum.splits)
next
  case (retry_new_style s)
  then show ?case by (auto simp: app_inv_def handleRetryWithNewStyle_def)
next
  case (start_over s)
  then show ?case by (auto simp: app_inv_def handleStartOver_def)
next
  case (image_reset s)
  then show ?case by (auto simp: app_inv_def handleImageReset_def)
qed

lemma reachable_app_inv: "reachable s \<Longrightarrow> app_inv s"
proof (induction rule: reachable.induct)
  case init
  show ?case by (rule app_inv_init)
next
  case (step s t)
  then show ?case by (blast intro: ui_step_app_inv)
qed


lemma stage_of_simps:
  "isLoading h \<Longrightarrow> stage_of h = Transforming"
  "\<not> isLoading h \<Longrightarrow> result h \<noteq> None \<Longrightarrow> stage_of h = Resulted"
  "\<not> isLoading h \<Longrightarrow> result h = None \<Longrightarrow> error h \<noteq> None \<Longrightarrow> stage_of h = Failed"
  "\<not> isLoading h \<Longrightarrow> result h = None \<Longrightarrow> error h = None \<Longrightarrow> uploadedImage h = None \<Longrightarrow>
   stage_of h = Empty"
  "\<not> isLoading h \<Longrightarrow> result h = None \<Longrightarrow> error h = None \<Longrightarrow> uploadedImage h \<noteq> None \<Longrightarrow>
   selectedStyle h = None \<Longrightarrow> stage_of h = Uploaded"
  "\<not> isLoading h \<Longrightarrow> result h = None \<Longrightarrow> error h = None \<Longrightarrow> uploadedImage h \<noteq> None \<Longrightarrow>
   selectedStyle h \<noteq> None \<Longrightarrow> stage_of h = StyleChosen"
  by (simp_all add: stage_of_def)

lemma spec_step_any [intro]: "spec_step st Uploaded" "spec_step st Empty"
  by (rule spec_step.reupload, rule spec_step.reset)

lemma refines_upload_done:
  assumes inv: "app_inv s"
  shows "stage_of (handleImageUpload i (home s)) = stage_of (home s) \<or>
         spec_step (stage_of (home s)) (stage_of (handleImageUpload i (home s)))"
proof (cases "isLoading (home s)")
  case True
  then show ?thesis by (simp add: stage_of_simps handleImageUpload_def)
next
  case nl: False
  show ?thesis
  proof (cases "selectedStyle (home s)")
    case None
    with nl show ?thesis by (auto simp: stage_of_simps handleImageUpload_def)
  next
    case (Some st)
    with nl have after: "stage_of (handleImageUpload i (home s)) = StyleChosen"
      by (simp add: stage_of_simps handleImageUpload_def)
    from Some inv have "uploadedImage (home s) \<noteq> None" by (auto simp: app_inv_def)
    with nl Some have "stage_of (home s) \<in> {StyleChosen, Resulted, Failed}"
      by (auto simp: stage_of_def)
    with after show ?thesis by (auto intro: spec_step.intros)
  qed
qed

lemma stage_handleTransform_finish:
  "stage_of (handleTransform_finish req out h) \<in> {Resulted, Failed}"
  by (simp add: stage_of_def handleTransform_finish_def split: sum.splits)




lemma reachable_step_eq: "reachable s \<Longrightarrow> ui_step s t \<Longrightarrow> t = t' \<Longrightarrow> reachable t'"
  by (blast intro: reachable.step)

text \<open>Two files dropped one after the other, the first prepared, a style picked: the
  second preparation is still in flight.\<close>

lemma reachable_two_uploads:
  assumes vB: "validateFile fB = None" and vC: "validateFile fC = None"
    and st: "st \<in> set STYLES"
  shows "reachable \<lparr>home = \<lparr>uploadedImage = Some (uploaded_of fB pB), selectedStyle = Some st,
      isLoading = False, result = None, error = None\<rparr>,
    uploader = \<lparr>u_dragging = False, u_error = None, u_processing = False\<rparr>,
    uploads = {#fC#}, transforms = {#}\<rparr>"
proof -
  have u0: "processFile_start f \<lparr>u_dragging = False, u_error = None, u_processing = b\<rparr> =
      (\<lparr>u_dragging = False, u_error = None, u_processing = True\<rparr>, True)"
    if "validateFile f = None" for f b using that by (simp add: processFile_start_def)
  have r1: "reachable (app_init\<lparr>uploader := \<lparr>u_dragging = False, u_error = None, u_processing = True\<rparr>,
      uploads := {#fB#}\<rparr>)"
    by (rule reachable_step_eq [OF reachable.init ui_step.upload_start [where f = fB and ev = "Drop [fB]"
          and uf = "\<lparr>u_dragging = False, u_error = None, u_processing = False\<rparr>"
          and u' = "\<lparr>u_dragging = False, u_error = None, u_processing = True\<rparr>" and started = True]])
       (simp_all add: app_init_def home_init_def u0 [OF vB] uploader_input_def handleDrop_def
          first_file_def)
  have r2: "reachable (app_init\<lparr>uploader := \<lparr>u_dragging = False, u_error = None, u_processing = True\<rparr>,
      uploads := {#fC, fB#}\<rparr>)"
    by (rule reachable_step_eq [OF r1 ui_step.upload_start [where f = fC and ev = "Drop [fC]"
          and uf = "\<lparr>u_dragging = False, u_error = None, u_processing = True\<rparr>"
          and u' = "\<lparr>u_dragging = False, u_error = None, u_processing = True\<rparr>" and started = True]])
       (simp_all add: app_init_def home_init_def u0 [OF vC] uploader_input_def handleDrop_def
          first_file_def)
  have fin: "processFile_finish fB (Inr pB) \<lparr>u_dragging = False, u_error = None, u_processing = True\<rparr> =
      (\<lparr>u_dragging = False, u_error = None, u_processing = False\<rparr>, Some (uploaded_of fB pB))"
    by (simp add: processFile_finish_def)
  have r3: "reachable \<lparr>home = home_init\<lparr>uploadedImage := Some (uploaded_of fB pB)\<rparr>,
      uploader = \<lparr>u_dragging = False, u_error = None, u_processing = False\<rparr>,
      uploads = {#fC#}, transforms = {#}\<rparr>"
    by (rule reachable_step_eq [OF r2 ui_step.upload_done [where f = fB and r = "Inr pB"
          and u' = "\<lparr>u_dragging = False, u_error = None, u_processing = False\<rparr>"
          and img = "Some (uploaded_of fB pB)"]])
       (simp_all add: app_init_def home_init_def handleImageUpload_def fin)
  show ?thesis
    by (rule reachable_step_eq [OF r3 ui_step.select_style [OF _ _ st]])
       (simp_all add: home_init_def handleStyleSelect_def)
qed



text \<open>The transform button clicked in that state.\<close>

lemma two_uploads_click:
  "ui_step \<lparr>home = \<lparr>uploadedImage = Some (uploaded_of fB pB), selectedStyle = Some st,
      isLoading = False, result = None, error = None\<rparr>,
      uploader = \<lparr>u_dragging = False, u_error = None, u_processing = False\<rparr>, uploads = {#fC#},
      transforms = {#}\<rparr>
    \<lparr>home = \<lparr>uploadedImage = Some (uploaded_of fB pB), selectedStyle = Some st,
      isLoading = True, result = None, error = None\<rparr>,
      uploader = \<lparr>u_dragging = False, u_error = None, u_processing = False\<rparr>, uploads = {#fC#},
      transforms = {#(uploaded_of fB pB, st)#}\<rparr>"
proof -
  let ?s = "\<lparr>home = \<lparr>uploadedImage = Some (uploaded_of fB pB), selectedStyle = Some st,
      isLoading = False, result = None, error = None\<rparr>,
      uploader = \<lparr>u_dragging = False, u_error = None, u_processing = False\<rparr>, uploads = {#fC#},
      transforms = {#}\<rparr>"
  have "ui_step ?s (?s\<lparr>home := \<lparr>uploadedImage = Some (uploaded_of fB pB), selectedStyle = Some st,
      isLoading = True, result = None, error = None\<rparr>,
       transforms := add_mset (uploaded_of fB pB, st) (transforms ?s)\<rparr>)"
    by (rule ui_step.transform_click) (simp_all add: canTransform_def handleTransform_start_def)
  then show ?thesis by simp
qed

lemma reachable_transform_in_flight:
  assumes "validateFile fB = None" "validateFile fC = None" "st \<in> set STYLES"
  shows "reachable \<lparr>home = \<lparr>uploadedImage = Some (uploaded_of fB pB), selectedStyle = Some st,
      isLoading = True, result = None, error = None\<rparr>,
      uploader = \<lparr>u_dragging = False, u_error = None, u_processing = False\<rparr>, uploads = {#fC#}, transforms = {#(uploaded_of fB pB, st)#}\<rparr>"
  using reachable_two_uploads [OF assms] two_uploads_click by (rule reachable.step)

subsection \<open>Invariant\<close>

text \<open>C21. In every reachable state of the page at most one transform request is in
  flight, and the loading flag is set exactly when one is.\<close>

theorem reachable_single_transform:
  "reachable s \<Longrightarrow> size (transforms s) \<le> 1 \<and> (isLoading (home s) \<longleftrightarrow> transforms s \<noteq> {#})"
  by (auto dest!: reachable_app_inv simp: app_inv_def)

theorem reachable_single_transform_witness:
  "let fB = \<lparr>file_name = ''b.png'', file_type = ''image/png'', file_size = 1000\<rparr>;
       fC = \<lparr>file_name = ''c.jpg'', file_type = ''image/jpeg'', file_size = 2000\<rparr>;
       pB = \<lparr>prep_base64 = Some ''QkI='', prep_mime = ''image/png'', prep_preview = ''data:image/png;base64,QkI=''\<rparr>;
       s = \<lparr>home = \<lparr>uploadedImage = Some (uploaded_of fB pB), selectedStyle = Some style_watercolor,
           isLoading = True, result = None, error = None\<rparr>,
         uploader = \<lparr>u_dragging = False, u_error = None, u_processing = False\<rparr>, uploads = {#fC#},
         transforms = {#(uploaded_of fB pB, style_watercolor)#}\<rparr>
   in size (transforms s) \<le> 1 \<and> (isLoading (home s) \<longleftrightarrow> transforms s \<noteq> {#})"
  using reachable_single_transform [OF reachable_transform_in_flight [where
      fB = "\<lparr>file_name = ''b.png'', file_type = ''image/png'', file_size = 1000\<rparr>"
      and fC = "\<lparr>file_name = ''c.jpg'', file_type = ''image/jpeg'', file_size = 2000\<rparr>"
      and pB = "\<lparr>prep_base64 = Some ''QkI='', prep_mime = ''image/png'', prep_preview = ''data:image/png;base64,QkI=''\<rparr>" and st = style_watercolor]]
  by (simp add: validateFile_def SUPPORTED_TYPES_def MAX_FILE_SIZE_def STYLES_def)

text \<open>C22. In every reachable state the page never shows a result and an error together,
  shows neither while loading, and without an image has no style, result, error or loading
  flag.\<close>

theorem reachable_page_consistent:
  "reachable s \<Longrightarrow>
     (result (home s) = None \<or> error (home s) = None) \<and>
     (isLoading (home s) \<longrightarrow> result (home s) = None \<and> error (home s) = None) \<and>
     (uploadedImage (home s) = None \<longrightarrow>
        selectedStyle (home s) = None \<and> result (home s) = None \<and> error (home s) = None \<and>
        \<not> isLoading (home s))"
  by (auto dest!: reachable_app_inv simp: app_inv_def)

theorem reachable_page_consistent_witness:
  "let fB = \<lparr>file_name = ''b.png'', file_type = ''image/png'', file_size = 1000\<rparr>;
       fC = \<lparr>file_name = ''c.jpg'', file_type = ''image/jpeg'', file_size = 2000\<rparr>;
       pB = \<lparr>prep_base64 = Some ''QkI='', prep_mime = ''image/png'', prep_preview = ''data:image/png;base64,QkI=''\<rparr>;
       s = \<lparr>home = \<lparr>uploadedImage = Some (uploaded_of fB pB), selectedStyle = Some style_watercolor,
           isLoading = True, result = None, error = None\<rparr>,
         uploader = \<lparr>u_dragging = False, u_error = None, u_processing = False\<rparr>, uploads = {#fC#},
         transforms = {#(uploaded_of fB pB, style_watercolor)#}\<rparr>
   in (result (home s) = None \<or> error (home s) = None) \<and>
      (isLoading (home s) \<longrightarrow> result (home s) = None \<and> error (home s) = None) \<and>
      (uploadedImage (home s) = None \<longrightarrow>
         selectedStyle (home s) = None \<and> result (home s) = None \<and> error (home s) = None \<and>
         \<not> isLoading (home s))"
  using reachable_page_consistent [OF reachable_transform_in_flight [where
      fB = "\<lparr>file_name = ''b.png'', file_type = ''image/png'', file_size = 1000\<rparr>"
      and fC = "\<lparr>file_name = ''c.jpg'', file_type = ''image/jpeg'', file_size = 2000\<rparr>"
      and pB = "\<lparr>prep_base64 = Some ''QkI='', prep_mime = ''image/png'', prep_preview = ''data:image/png;base64,QkI=''\<rparr>" and st = style_watercolor]]
  by (simp add: validateFile_def SUPPORTED_TYPES_def MAX_FILE_SIZE_def STYLES_def)

subsection \<open>Refinement of the specification's stages\<close>

text \<open>C23. Every step of the page from a reachable state either keeps its stage or is a
  transition of the stage machine of the specification (section 4.5).\<close>

theorem ui_step_refines:
  assumes "reachable s" "ui_step s t"
  shows "stage_of (home t) = stage_of (home s) \<or> spec_step (stage_of (home s)) (stage_of (home t))"
proof -
  have "app_inv s" using assms(1) by (rule reachable_app_inv)
  with assms(2) show ?thesis
  proof (induction rule: ui_step.induct)
    case (upload_start s ev uf f u' started)
    then show ?case by (cases started) simp_all
  next
    case (upload_done f s r u' img)
    then show ?case by (cases img) (simp_all add: refines_upload_done)
  next
    case (select_style s st)
    then show ?case
      by (cases "result (home s) = None"; cases "error (home s) = None";
          cases "selectedStyle (home s) = None")
         (simp_all add: stage_of_simps handleStyleSelect_def spec_step.intros)
  next
    case (transform_click s h' req)
    then have "h' = (home s)\<lparr>isLoading := True, error := None, result := None\<rparr>"
      by (auto simp: handleTransform_start_def split: option.splits)
    moreover from transform_click have "\<not> isLoading (home s)" by (simp add: canTransform_def)
    ultimately show ?case using transform_click
      by (cases "error (home s) = None")
         (simp_all add: stage_of_simps spec_step.intros)
  next
    case (retry_click s h' rq)
    then have nl: "\<not> isLoading (home s)" "result (home s) = None" by (auto simp: app_inv_def)
    with retry_click.hyps have before: "stage_of (home s) = Failed" by (simp add: stage_of_simps)
    from retry_click.hyps(2) before nl show ?case
      by (auto simp: stage_of_simps spec_step.intros dest!: handleTransform_start_cases)
  next
    case (transform_done req s out)
    then have "isLoading (home s)" by (auto simp: app_inv_def)
    then have "stage_of (home s) = Transforming" by (simp add: stage_of_simps)
    then show ?case
      using stage_handleTransform_finish [of req out "home s"] by (auto intro: spec_step.intros)
  next
    case (retry_new_style s)
    then have "\<not> isLoading (home s)" "uploadedImage (home s) \<noteq> None" by (auto simp: app_inv_def)
    then show ?case by (simp add: stage_of_simps handleRetryWithNewStyle_def spec_step_any)
  next
    case (start_over s)
    then have "\<not> isLoading (home s)" by (auto simp: app_inv_def)
    then show ?case by (simp add: stage_of_simps handleStartOver_def spec_step_any)
  next
    case (image_reset s)
    then show ?case by (simp add: stage_of_simps handleImageReset_def spec_step_any)
  qed simp
qed

theorem ui_step_refines_witness:
  "let fB = \<lparr>file_name = ''b.png'', file_type = ''image/png'', file_size = 1000\<rparr>;
       fC = \<lparr>file_name = ''c.jpg'', file_type = ''image/jpeg'', file_size = 2000\<rparr>;
       pB = \<lparr>prep_base64 = Some ''QkI='', prep_mime = ''image/png'', prep_preview = ''data:image/png;base64,QkI=''\<rparr>;
       s = \<lparr>home = \<lparr>uploadedImage = Some (uploaded_of fB pB), selectedStyle = Some style_watercolor,
           isLoading = False, result = None, error = None\<rparr>,
         uploader = \<lparr>u_dragging = False, u_error = None, u_processing = False\<rparr>, uploads = {#fC#},
         transforms = {#}\<rparr>;
       t = \<lparr>home = \<lparr>uploadedImage = Some (uploaded_of fB pB), selectedStyle = Some style_watercolor,
           isLoading = True, result = None, error = None\<rparr>,
         uploader = \<lparr>u_dragging = False, u_error = None, u_processing = False\<rparr>, uploads = {#fC#},
         transforms = {#(uploaded_of fB pB, style_watercolor)#}\<rparr>
   in stage_of (home s) = StyleChosen \<and> stage_of (home t) = Transforming \<and>
      (stage_of (home t) = stage_of (home s) \<or> spec_step (stage_of (home s)) (stage_of (home t)))"
  using ui_step_refines [OF reachable_two_uploads [where fB = "\<lparr>file_name = ''b.png'', file_type = ''image/png'', file_size = 1000\<rparr>"
      and fC = "\<lparr>file_name = ''c.jpg'', file_type = ''image/jpeg'', file_size = 2000\<rparr>"
      and pB = "\<lparr>prep_base64 = Some ''QkI='', prep_mime = ''image/png'', prep_preview = ''data:image/png;base64,QkI=''\<rparr>" and st = style_watercolor]
      two_uploads_click [where fB = "\<lparr>file_name = ''b.png'', file_type = ''image/png'', file_size = 1000\<rparr>"
      and fC = "\<lparr>file_name = ''c.jpg'', file_type = ''image/jpeg'', file_size = 2000\<rparr>"
      and pB = "\<lparr>prep_base64 = Some ''QkI='', prep_mime = ''image/png'', prep_preview = ''data:image/png;base64,QkI=''\<rparr>" and st = style_watercolor]]
  by (simp add: validateFile_def SUPPORTED_TYPES_def MAX_FILE_SIZE_def STYLES_def stage_of_def)

subsection \<open>Interleavings\<close>

text \<open>C24. A preparation that completes while a transform is in flight replaces the
  uploaded image; the transform then lands and the page shows a result whose original is the
  earlier image beside the new upload.\<close>

theorem stale_result:
  assumes "validateFile fB = None" "validateFile fC = None" "st \<in> set STYLES"
    and "client_outcome (uploaded_of fB pB, st) out = Inr r"
  shows "\<exists>s. reachable s \<and> result (home s) = Some r \<and>
             uploadedImage (home s) = Some (uploaded_of fC pC) \<and> originalSrc r = prep_preview pB"
proof -
  let ?h = "\<lparr>uploadedImage = Some (uploaded_of fB pB), selectedStyle = Some st,
      isLoading = False, result = None, error = None\<rparr>"
  let ?u = "\<lparr>u_dragging = False, u_error = None, u_processing = False\<rparr>"
  have r5: "reachable \<lparr>home = ?h\<lparr>isLoading := True\<rparr>, uploader = ?u, uploads = {#fC#},
      transforms = {#(uploaded_of fB pB, st)#}\<rparr>"
    using reachable_transform_in_flight [OF assms(1-3)] by simp
  have fin: "processFile_finish fC (Inr pC) ?u = (?u, Some (uploaded_of fC pC))"
    by (simp add: processFile_finish_def)
  have r6: "reachable \<lparr>home = ?h\<lparr>isLoading := True, uploadedImage := Some (uploaded_of fC pC)\<rparr>,
      uploader = ?u, uploads = {#}, transforms = {#(uploaded_of fB pB, st)#}\<rparr>"
    by (rule reachable_step_eq [OF r5 ui_step.upload_done [where f = fC and r = "Inr pC"
          and u' = ?u and img = "Some (uploaded_of fC pC)"]])
       (simp_all add: handleImageUpload_def fin)
  have fin7: "handleTransform_finish (uploaded_of fB pB, st) out
      \<lparr>uploadedImage = Some (uploaded_of fC pC), selectedStyle = Some st, isLoading = True,
       result = None, error = None\<rparr> =
      \<lparr>uploadedImage = Some (uploaded_of fC pC), selectedStyle = Some st, isLoading = False,
       result = Some r, error = None\<rparr>"
    using assms(4) by (simp add: handleTransform_finish_def)
  have r7: "reachable \<lparr>home = ?h\<lparr>uploadedImage := Some (uploaded_of fC pC), result := Some r\<rparr>,
      uploader = ?u, uploads = {#}, transforms = {#}\<rparr>"
    by (rule reachable_step_eq [OF r6 ui_step.transform_done [where req = "(uploaded_of fB pB, st)"
          and out = out]])
       (simp_all add: fin7)
  moreover have "originalSrc r = prep_preview pB"
    using assms(4) by (auto simp: client_outcome_def uploaded_of_def Let_def
        split: fetch_outcome.splits sum.splits if_splits)
  ultimately show ?thesis by auto
qed

theorem stale_result_witness:
  "let fB = \<lparr>file_name = ''b.png'', file_type = ''image/png'', file_size = 1000\<rparr>;
       fC = \<lparr>file_name = ''c.jpg'', file_type = ''image/jpeg'', file_size = 2000\<rparr>;
       pB = \<lparr>prep_base64 = Some ''QkI='', prep_mime = ''image/png'', prep_preview = ''data:image/png;base64,QkI=''\<rparr>;
       pC = \<lparr>prep_base64 = Some ''Q0M='', prep_mime = ''image/jpeg'', prep_preview = ''data:image/jpeg;base64,Q0M=''\<rparr>;
       r = \<lparr>originalSrc = ''data:image/png;base64,QkI='',
            transformedSrc = ''data:image/png;base64,R0VO'', style = style_watercolor\<rparr>
   in \<exists>s. reachable s \<and> result (home s) = Some r \<and>
         uploadedImage (home s) = Some (uploaded_of fC pC) \<and> originalSrc r = prep_preview pB"
  using stale_result [where fB = "\<lparr>file_name = ''b.png'', file_type = ''image/png'', file_size = 1000\<rparr>"
      and fC = "\<lparr>file_name = ''c.jpg'', file_type = ''image/jpeg'', file_size = 2000\<rparr>"
      and pB = "\<lparr>prep_base64 = Some ''QkI='', prep_mime = ''image/png'', prep_preview = ''data:image/png;base64,QkI=''\<rparr>"
      and pC = "\<lparr>prep_base64 = Some ''Q0M='', prep_mime = ''image/jpeg'', prep_preview = ''data:image/jpeg;base64,Q0M=''\<rparr>" and st = style_watercolor
      and out = "FetchResponse 200 (Inr \<lparr>resp_image = Some ''R0VO'', resp_mime = Some ''image/png'',
                   resp_error = None\<rparr>)"
      and r = "\<lparr>originalSrc = ''data:image/png;base64,QkI='',
            transformedSrc = ''data:image/png;base64,R0VO'', style = style_watercolor\<rparr>"]
  by (simp add: validateFile_def SUPPORTED_TYPES_def MAX_FILE_SIZE_def STYLES_def client_outcome_def str_truthy_def uploaded_of_def)

text \<open>C25. A preparation that completes after a style was chosen replaces the image and
  keeps the selected style (the specification says a new upload discards it).\<close>

theorem reupload_keeps_style:
  assumes "validateFile fB = None" "validateFile fC = None" "st \<in> set STYLES"
  shows "\<exists>s t. reachable s \<and> ui_step s t \<and> stage_of (home s) = StyleChosen \<and>
           uploadedImage (home t) = Some (uploaded_of fC pC) \<and> selectedStyle (home t) = Some st"
proof -
  let ?s = "\<lparr>home = \<lparr>uploadedImage = Some (uploaded_of fB pB), selectedStyle = Some st,
      isLoading = False, result = None, error = None\<rparr>,
    uploader = \<lparr>u_dragging = False, u_error = None, u_processing = False\<rparr>,
    uploads = {#fC#}, transforms = {#}\<rparr>"
  have r: "reachable ?s" using assms by (rule reachable_two_uploads)
  have fin: "processFile_finish fC (Inr pC) \<lparr>u_dragging = False, u_error = None, u_processing = False\<rparr> =
      (\<lparr>u_dragging = False, u_error = None, u_processing = False\<rparr>, Some (uploaded_of fC pC))"
    by (simp add: processFile_finish_def)
  let ?t = "\<lparr>home = \<lparr>uploadedImage = Some (uploaded_of fC pC), selectedStyle = Some st,
      isLoading = False, result = None, error = None\<rparr>,
    uploader = \<lparr>u_dragging = False, u_error = None, u_processing = False\<rparr>,
    uploads = {#}, transforms = {#}\<rparr>"
  have "ui_step ?s (?s\<lparr>uploader := uploader ?s, uploads := uploads ?s - {#fC#},
      home := (case Some (uploaded_of fC pC) of None \<Rightarrow> home ?s
               | Some i \<Rightarrow> handleImageUpload i (home ?s))\<rparr>)"
    by (rule ui_step.upload_done [where r = "Inr pC"]) (simp_all add: fin)
  then have "ui_step ?s ?t" by (simp add: handleImageUpload_def)
  with r show ?thesis
    by (intro exI [of _ ?s] exI [of _ ?t]) (simp add: stage_of_def)
qed

theorem reupload_keeps_style_witness:
  "let fB = \<lparr>file_name = ''b.png'', file_type = ''image/png'', file_size = 1000\<rparr>;
       fC = \<lparr>file_name = ''c.jpg'', file_type = ''image/jpeg'', file_size = 2000\<rparr>;
       pB = \<lparr>prep_base64 = Some ''QkI='', prep_mime = ''image/png'', prep_preview = ''data:image/png;base64,QkI=''\<rparr>;
       pC = \<lparr>prep_base64 = Some ''Q0M='', prep_mime = ''image/jpeg'', prep_preview = ''data:image/jpeg;base64,Q0M=''\<rparr>
   in \<exists>s t. reachable s \<and> ui_step s t \<and> stage_of (home s) = StyleChosen \<and>
        uploadedImage (home t) = Some (uploaded_of fC pC) \<and> selectedStyle (home t) = Some style_watercolor"
  using reupload_keeps_style [where fB = "\<lparr>file_name = ''b.png'', file_type = ''image/png'', file_size = 1000\<rparr>"
      and fC = "\<lparr>file_name = ''c.jpg'', file_type = ''image/jpeg'', file_size = 2000\<rparr>"

      and pC = "\<lparr>prep_base64 = Some ''Q0M='', prep_mime = ''image/jpeg'', prep_preview = ''data:image/jpeg;base64,Q0M=''\<rparr>" and st = style_watercolor]
  by (simp add: validateFile_def SUPPORTED_TYPES_def MAX_FILE_SIZE_def STYLES_def)

end
