(* ===== verification/Progress.thy ===== *)
theory Progress
  imports Controller
begin

text \<open>
  Progress of the page's asynchronous work. \<open>settle_step r out\<close> is the part of
  \<open>ui_step\<close> in which no user acts: a pending preparation settles with the outcome
  \<open>r f\<close> of its file, or a pending transform request with the outcome \<open>out req\<close> of
  its fetch (the two completion rules of \<open>ui_step\<close>, with the browser's and the server's
  answers fixed by \<open>r\<close> and \<open>out\<close>). \<open>pending\<close> counts the work in flight.
  The lemmas show that completions alone always stop, and that from every reachable state,
  whatever the answers, all the work can complete and leave the page not loading.
\<close>

definition pending :: "app_state \<Rightarrow> nat" where
  "pending s = size (uploads s) + size (transforms s)"

inductive settle_step ::
  "(file_info \<Rightarrow> thrown + prepared) \<Rightarrow> (transform_request \<Rightarrow> fetch_outcome) \<Rightarrow>
   app_state \<Rightarrow> app_state \<Rightarrow> bool"
  for r out where
  prepared:
    "f \<in># uploads s \<Longrightarrow> processFile_finish f (r f) (uploader s) = (u', img) \<Longrightarrow>
     settle_step r out s
       (s\<lparr>uploader := u', uploads := uploads s - {#f#},
          home := (case img of None \<Rightarrow> home s | Some i \<Rightarrow> handleImageUpload i (home s))\<rparr>)"
| answered:
    "req \<in># transforms s \<Longrightarrow>
     settle_step r out s
       (s\<lparr>home := handleTransform_finish req (out req) (home s),
          transforms := transforms s - {#req#}\<rparr>)"

subsection \<open>Lemmas\<close>

lemma settle_step_ui_step: "settle_step r out s t \<Longrightarrow> ui_step s t"
  by (induction rule: settle_step.induct) (auto intro: ui_step.intros)

lemma settle_step_pending: "settle_step r out s t \<Longrightarrow> pending t < pending s"
  by (induction rule: settle_step.induct)
     (auto simp: pending_def size_Diff_singleton intro: diff_less size_Diff1_less
       dest!: multi_member_split)

lemma settle_exists:
  assumes "pending s \<noteq> 0"
  shows "\<exists>t. settle_step r out s t"
proof (cases "uploads s = {#}")
  case False
  then obtain f where f: "f \<in># uploads s" by blast
  obtain u' img where "processFile_finish f (r f) (uploader s) = (u', img)" by fastforce
  with f show ?thesis by (blast intro: settle_step.prepared)
next
  case True
  with assms obtain req where "req \<in># transforms s" by (auto simp: pending_def)
  then show ?thesis by (blast intro: settle_step.answered)
qed

text \<open>C34. From every reachable state, whatever the preparations and the fetches settle
  to, the completions of the work in flight lead to a reachable state with nothing in flight
  and the page not loading.\<close>

theorem settle_all:
  assumes "reachable s"
  shows "\<exists>t. (settle_step r out)\<^sup>*\<^sup>* s t \<and> reachable t \<and>
             uploads t = {#} \<and> transforms t = {#} \<and> \<not> isLoading (home t)"
  using assms
proof (induction "pending s" arbitrary: s rule: less_induct)
  case less
  show ?case
  proof (cases "pending s = 0")
    case True
    then have "uploads s = {#}" "transforms s = {#}" by (auto simp: pending_def)
    moreover have "\<not> isLoading (home s)"
      using reachable_app_inv [OF less.prems] \<open>transforms s = {#}\<close> by (simp add: app_inv_def)
    ultimately show ?thesis using less.prems by blast
  next
    case False
    then obtain t where t: "settle_step r out s t" using settle_exists by blast
    then have "reachable t" using less.prems by (blast intro: reachable.step settle_step_ui_step)
    from less.hyps [OF settle_step_pending [OF t] this] obtain u where
      "(settle_step r out)\<^sup>*\<^sup>* t u \<and> reachable u \<and> uploads u = {#} \<and> transforms u = {#} \<and>
       \<not> isLoading (home u)" by blast
    with t show ?thesis by (blast intro: converse_rtranclp_into_rtranclp)
  qed
qed

theorem settle_all_witness:
  "\<exists>t. (settle_step (\<lambda>_. Inl ThrownValue) (\<lambda>_. FetchRejected ThrownValue))\<^sup>*\<^sup>*
        \<lparr>home = \<lparr>uploadedImage = Some (uploaded_of \<lparr>file_name = ''b.png'', file_type = ''image/png'', file_size = 1000\<rparr> \<lparr>prep_base64 = Some ''QkI='', prep_mime = ''image/png'', prep_preview = ''data:image/png;base64,QkI=''\<rparr>),
                   selectedStyle = Some style_watercolor, isLoading = True, result = None,
                   error = None\<rparr>,
         uploader = \<lparr>u_dragging = False, u_error = None, u_processing = False\<rparr>,
         uploads = {#\<lparr>file_name = ''c.jpg'', file_type = ''image/jpeg'', file_size = 2000\<rparr>#},
         transforms = {#(uploaded_of \<lparr>file_name = ''b.png'', file_type = ''image/png'', file_size = 1000\<rparr> \<lparr>prep_base64 = Some ''QkI='', prep_mime = ''image/png'', prep_preview = ''data:image/png;base64,QkI=''\<rparr>, style_watercolor)#}\<rparr> t \<and>
      reachable t \<and> uploads t = {#} \<and> transforms t = {#} \<and> \<not> isLoading (home t)"
  using settle_all [OF reachable_transform_in_flight [where fB = "\<lparr>file_name = ''b.png'', file_type = ''image/png'', file_size = 1000\<rparr>" and fC = "\<lparr>file_name = ''c.jpg'', file_type = ''image/jpeg'', file_size = 2000\<rparr>"
      and pB = "\<lparr>prep_base64 = Some ''QkI='', prep_mime = ''image/png'', prep_preview = ''data:image/png;base64,QkI=''\<rparr>" and st = style_watercolor],
      where r = "\<lambda>_. Inl ThrownValue" and out = "\<lambda>_. FetchRejected ThrownValue"]
  by (simp add: validateFile_def SUPPORTED_TYPES_def MAX_FILE_SIZE_def STYLES_def)


end
