(* ===== verification/Download.thy ===== *)
theory Download
  imports Controller
begin

text \<open>
  The download converter: \<open>downloadAsJpg\<close> of \<open>src/lib/utils.ts\<close> and the
  \<open>handleDownload\<close> handler of \<open>src/components/ResultView.tsx\<close>.
  \<^item> a pixel is four bytes (\<open>8 word\<close>), red, green, blue and a non-premultiplied alpha, as
    the 2D canvas exposes them; a \<open>canvas\<close> is its size and its pixels in row-major order;
  \<^item> \<open>source_over\<close> is the canvas's default compositing operator (source over
    destination), computed on the byte values with rounding to nearest; \<open>fillRect\<close>
    and \<open>drawImage\<close> composite a colour and an image over a rectangle of the canvas;
  \<^item> the browser's parts are parameters: the decoded image (\<open>img_load\<close>), whether
    \<open>getContext("2d")\<close> returns a context, the clock (\<open>Date.now()\<close> in
    milliseconds) and the encoder behind \<open>canvas.toBlob\<close>, which may answer
    \<open>null\<close>;
  \<^item> \<open>downloadAsJpg\<close> yields the error the promise rejects with, or the file name
    and the blob the anchor element saves.
\<close>

subsection \<open>Pixels and the canvas\<close>

record pixel =
  red :: "8 word"
  green :: "8 word"
  blue :: "8 word"
  alpha :: "8 word"

text \<open>A new canvas is transparent black.\<close>

definition transparent_black :: pixel where
  "transparent_black = \<lparr>red = 0, green = 0, blue = 0, alpha = 0\<rparr>"

text \<open>\<open>ctx.fillStyle = "#FFFFFF"\<close>: opaque white.\<close>

definition WHITE :: pixel where
  "WHITE = \<lparr>red = 255, green = 255, blue = 255, alpha = 255\<rparr>"

text \<open>Source over destination on byte values: the resulting alpha, scaled by 255, is
  \<open>as * 255 + ad * (255 - as)\<close>; each colour channel is the alpha-weighted mean of the two
  colours, rounded to nearest.\<close>

definition blend_alpha :: "nat \<Rightarrow> nat \<Rightarrow> nat" where
  "blend_alpha as ad = as * 255 + ad * (255 - as)"

definition blend_chan :: "nat \<Rightarrow> nat \<Rightarrow> nat \<Rightarrow> nat \<Rightarrow> nat" where
  "blend_chan cs as cd ad =
     (let ao = blend_alpha as ad
      in if ao = 0 then 0 else (cs * as * 255 + cd * ad * (255 - as) + ao div 2) div ao)"

definition source_over :: "pixel \<Rightarrow> pixel \<Rightarrow> pixel" where
  "source_over s d =
     (let as = unat (alpha s); ad = unat (alpha d)
      in \<lparr>red = word_of_nat (blend_chan (unat (red s)) as (unat (red d)) ad),
          green = word_of_nat (blend_chan (unat (green s)) as (unat (green d)) ad),
          blue = word_of_nat (blend_chan (unat (blue s)) as (unat (blue d)) ad),
          alpha = word_of_nat ((blend_alpha as ad + 127) div 255)\<rparr>)"

record canvas =
  cv_width :: nat
  cv_height :: nat
  cv_pixels :: "pixel list"

text \<open>\<open>document.createElement("canvas")\<close> with \<open>width\<close> and \<open>height\<close> set.\<close>

definition create_canvas :: "nat \<Rightarrow> nat \<Rightarrow> canvas" where
  "create_canvas w h =
     \<lparr>cv_width = w, cv_height = h, cv_pixels = replicate (w * h) transparent_black\<rparr>"

definition in_rect :: "nat \<Rightarrow> nat \<Rightarrow> nat \<Rightarrow> nat \<Rightarrow> nat \<Rightarrow> nat \<Rightarrow> bool" where
  "in_rect x0 y0 w h x y \<longleftrightarrow> x0 \<le> x \<and> x < x0 + w \<and> y0 \<le> y \<and> y < y0 + h"

text \<open>\<open>ctx.fillRect(x0, y0, w, h)\<close> with the fill colour \<open>col\<close>.\<close>

definition fillRect :: "pixel \<Rightarrow> nat \<Rightarrow> nat \<Rightarrow> nat \<Rightarrow> nat \<Rightarrow> canvas \<Rightarrow> canvas" where
  "fillRect col x0 y0 w h c =
     c\<lparr>cv_pixels := map (\<lambda>(i, p). if in_rect x0 y0 w h (i mod cv_width c) (i div cv_width c)
                                   then source_over col p else p)
                        (enumerate 0 (cv_pixels c))\<rparr>"

text \<open>\<open>ctx.drawImage(img, dx, dy)\<close> for an image of \<open>iw\<close> by \<open>ih\<close> pixels
  \<open>px\<close>, drawn at its natural size.\<close>

definition drawImage :: "pixel list \<Rightarrow> nat \<Rightarrow> nat \<Rightarrow> nat \<Rightarrow> nat \<Rightarrow> canvas \<Rightarrow> canvas" where
  "drawImage px iw ih dx dy c =
     c\<lparr>cv_pixels := map (\<lambda>(i, p). let x = i mod cv_width c; y = i div cv_width c in
                                   if in_rect dx dy iw ih x y
                                   then source_over (px ! ((y - dy) * iw + (x - dx))) p else p)
                        (enumerate 0 (cv_pixels c))\<rparr>"

subsection \<open>The converter\<close>

text \<open>\<open>new Image()\<close> with \<open>src = imageSrc\<close>: \<open>onerror\<close>, or \<open>onload\<close> with
  \<open>naturalWidth\<close>, \<open>naturalHeight\<close> and the decoded pixels.\<close>

datatype img_load = ImgLoadError | ImgLoaded nat nat "pixel list"

type_synonym 'b blob_encoder = "mime \<Rightarrow> rat \<Rightarrow> canvas \<Rightarrow> 'b option"

definition JPEG_QUALITY :: rat where
  "JPEG_QUALITY = 92 / 100"

definition msg_blob_failed :: string where
  "msg_blob_failed = ''Blob '' @ utf8 [0xBCC0, 0xD658] @ '' '' @ utf8 [0xC2E4, 0xD328]"

text \<open>\<open>a.download\<close>: the slug, an underscore, \<open>Math.floor(Date.now() / 1000)\<close>.\<close>

definition download_name :: "string \<Rightarrow> nat \<Rightarrow> string" where
  "download_name styleName now = styleName @ ''_'' @ string_of_nat (now div 1000) @ ''.jpg''"

text \<open>The white canvas with the image drawn on it, lines 87--99.\<close>

definition flatten_canvas :: "nat \<Rightarrow> nat \<Rightarrow> pixel list \<Rightarrow> canvas" where
  "flatten_canvas w h px = drawImage px w h 0 0 (fillRect WHITE 0 0 w h (create_canvas w h))"

definition downloadAsJpg ::
  "(string \<Rightarrow> img_load) \<Rightarrow> bool \<Rightarrow> 'b blob_encoder \<Rightarrow> nat \<Rightarrow> string \<Rightarrow> string \<Rightarrow>
   thrown + (string \<times> 'b)" where
  "downloadAsJpg load ctx enc now imageSrc styleName =
     (case load imageSrc of
        ImgLoadError \<Rightarrow> Inl (ThrownError ''Error'' msg_load_failed)
      | ImgLoaded w h px \<Rightarrow>
          if \<not> ctx then Inl (ThrownError ''Error'' msg_ctx_failed)
          else (case enc ''image/jpeg'' JPEG_QUALITY (flatten_canvas w h px) of
                  None \<Rightarrow> Inl (ThrownError ''Error'' msg_blob_failed)
                | Some b \<Rightarrow> Inr (download_name styleName now, b)))"

subsection \<open>The download button\<close>

record result_view_state =
  isDownloading :: bool
  downloadError :: "string option"

definition msg_download_failed :: string where
  "msg_download_failed = utf8 [0xB2E4, 0xC6B4, 0xB85C, 0xB4DC, 0xC5D0] @ '' '' @
     utf8 [0xC2E4, 0xD328, 0xD588, 0xC2B5, 0xB2C8, 0xB2E4] @ ''. '' @ utf8 [0xB2E4, 0xC2DC] @
     '' '' @ utf8 [0xC2DC, 0xB3C4, 0xD574, 0xC8FC, 0xC138, 0xC694] @ ''.''"

definition handleDownload_start :: "result_view_state \<Rightarrow> result_view_state" where
  "handleDownload_start s = s\<lparr>isDownloading := True, downloadError := None\<rparr>"

definition handleDownload_finish ::
  "thrown + (string \<times> 'b) \<Rightarrow> result_view_state \<Rightarrow> result_view_state" where
  "handleDownload_finish out s =
     (case out of
        Inl _ \<Rightarrow> s\<lparr>downloadError := Some msg_download_failed\<rparr>
      | Inr _ \<Rightarrow> s)\<lparr>isDownloading := False\<rparr>"

text \<open>\<open>handleDownload\<close>: the flag and the cleared message, the awaited conversion,
  the message on failure, and \<open>finally\<close> the flag off. The second component is the
  file the browser saves, if any.\<close>

definition handleDownload ::
  "(string \<Rightarrow> img_load) \<Rightarrow> bool \<Rightarrow> 'b blob_encoder \<Rightarrow> nat \<Rightarrow> transform_result \<Rightarrow>
   result_view_state \<Rightarrow> result_view_state \<times> (string \<times> 'b) option" where
  "handleDownload load ctx enc now r s =
     (let out = downloadAsJpg load ctx enc now (transformedSrc r) (nameEn (style r))
      in (handleDownload_finish out (handleDownload_start s),
          case out of Inl _ \<Rightarrow> None | Inr d \<Rightarrow> Some d))"

text \<open>A click on the download button, rendered \<open>disabled={isDownloading}\<close>.\<close>

definition download_click ::
  "(string \<Rightarrow> img_load) \<Rightarrow> bool \<Rightarrow> 'b blob_encoder \<Rightarrow> nat \<Rightarrow> transform_result \<Rightarrow>
   result_view_state \<Rightarrow> result_view_state \<times> (string \<times> 'b) option" where
  "download_click load ctx enc now r s =
     (if isDownloading s then (s, None) else handleDownload load ctx enc now r s)"


subsection \<open>Lemmas\<close>

lemma unat_word_of_nat_byte: "n \<le> 255 \<Longrightarrow> unat (word_of_nat n :: 8 word) = n"
  by (simp add: unat_of_nat)

lemma unat_byte_le: "unat (w :: 8 word) \<le> 255"
proof -
  have "unat w < 2 ^ LENGTH(8)" by (rule unsigned_less)
  then show ?thesis by simp
qed

lemma blend_alpha_le: "as \<le> 255 \<Longrightarrow> ad \<le> 255 \<Longrightarrow> blend_alpha as ad \<le> 255 * 255"
proof -
  assume "as \<le> 255" "ad \<le> 255"
  then have "ad * (255 - as) \<le> 255 * (255 - as)" by simp
  with \<open>as \<le> 255\<close> show ?thesis by (simp add: blend_alpha_def diff_mult_distrib2)
qed

lemma blend_alpha_out_le: "as \<le> 255 \<Longrightarrow> ad \<le> 255 \<Longrightarrow> (blend_alpha as ad + 127) div 255 \<le> 255"
  using blend_alpha_le [of as ad] by simp

lemma blend_chan_le:
  assumes "cs \<le> 255" "as \<le> 255" "cd \<le> 255" "ad \<le> 255"
  shows "blend_chan cs as cd ad \<le> 255"
proof (cases "blend_alpha as ad = 0")
  case True
  then show ?thesis by (simp add: blend_chan_def)
next
  case False
  let ?ao = "blend_alpha as ad"
  have "cs * as * 255 \<le> 255 * (as * 255)" using assms(1) by simp
  moreover have "cd * ad * (255 - as) \<le> 255 * (ad * (255 - as))" using assms(3) by simp
  ultimately have "cs * as * 255 + cd * ad * (255 - as) \<le> 255 * (as * 255) + 255 * (ad * (255 - as))"
    by (rule add_mono)
  also have "\<dots> = 255 * ?ao" by (simp add: blend_alpha_def add_mult_distrib2)
  finally have "cs * as * 255 + cd * ad * (255 - as) \<le> 255 * ?ao" .
  with False have "cs * as * 255 + cd * ad * (255 - as) + ?ao div 2 < 256 * ?ao" by linarith
  then have "(cs * as * 255 + cd * ad * (255 - as) + ?ao div 2) div ?ao < 256"
    by (simp add: less_mult_imp_div_less mult.commute)
  with False show ?thesis by (simp add: blend_chan_def Let_def)
qed

lemma blend_alpha_opaque_dst: "as \<le> 255 \<Longrightarrow> blend_alpha as 255 = 65025"
  by (simp add: blend_alpha_def diff_mult_distrib2)

lemma blend_chan_transparent_white: "blend_chan cs 0 255 255 = 255"
  by (simp add: blend_chan_def blend_alpha_def)

lemma blend_chan_opaque: "cs \<le> 255 \<Longrightarrow> blend_chan cs 255 cd ad = cs"
  by (simp add: blend_chan_def blend_alpha_def)

lemma over_white_alpha: "alpha (source_over p WHITE) = 255"
  using unat_byte_le [of "alpha p"]
  by (simp add: source_over_def WHITE_def Let_def blend_alpha_opaque_dst)

lemma white_over_new: "source_over WHITE transparent_black = WHITE"
  by (simp add: source_over_def WHITE_def transparent_black_def blend_chan_def blend_alpha_def)

lemma index_in_rect:
  "i < w * h \<Longrightarrow> in_rect 0 0 w h (i mod w) (i div w)"
proof -
  assume i: "i < w * h"
  then have "0 < w" by (cases w) auto
  then have "i mod w < w" by simp
  moreover from i have "i div w < h" by (simp add: less_mult_imp_div_less mult.commute)
  ultimately show ?thesis by (simp add: in_rect_def)
qed

lemma canvas_ops_sel [simp]:
  "cv_width (create_canvas w h) = w" "cv_height (create_canvas w h) = h"
  "cv_width (fillRect col x0 y0 w h c) = cv_width c"
  "cv_height (fillRect col x0 y0 w h c) = cv_height c"
  "length (cv_pixels (fillRect col x0 y0 w h c)) = length (cv_pixels c)"
  "cv_width (drawImage px iw ih dx dy c) = cv_width c"
  "cv_height (drawImage px iw ih dx dy c) = cv_height c"
  "length (cv_pixels (drawImage px iw ih dx dy c)) = length (cv_pixels c)"
  by (simp_all add: create_canvas_def fillRect_def drawImage_def)

lemma fill_white_pixels:
  "cv_pixels (fillRect WHITE 0 0 w h (create_canvas w h)) = replicate (w * h) WHITE"
  by (rule nth_equalityI)
     (simp_all add: fillRect_def create_canvas_def nth_enumerate_eq index_in_rect white_over_new)

lemma flatten_canvas_eq:
  assumes "length px = w * h"
  shows "flatten_canvas w h px =
           \<lparr>cv_width = w, cv_height = h, cv_pixels = map (\<lambda>p. source_over p WHITE) px\<rparr>"
proof -
  have "cv_pixels (flatten_canvas w h px) = map (\<lambda>p. source_over p WHITE) px"
  proof (rule nth_equalityI)
    fix i assume "i < length (cv_pixels (flatten_canvas w h px))"
    then have i: "i < w * h" by (simp add: flatten_canvas_def create_canvas_def)
    have "px ! (i div w * w + i mod w) = px ! i" by simp
    with i assms show "cv_pixels (flatten_canvas w h px) ! i = map (\<lambda>p. source_over p WHITE) px ! i"
      by (simp add: flatten_canvas_def drawImage_def nth_enumerate_eq index_in_rect
          fill_white_pixels)
  qed (simp add: flatten_canvas_def create_canvas_def assms)
  moreover have "flatten_canvas w h px = \<lparr>cv_width = w, cv_height = h,
      cv_pixels = cv_pixels (flatten_canvas w h px)\<rparr>"
    by (simp add: flatten_canvas_def drawImage_def fillRect_def create_canvas_def)
  ultimately show ?thesis by simp
qed

lemma string_of_nat_jpg_no_underscore:
  "CHR ''_'' \<notin> set (string_of_nat n @ ''.jpg'')"
  using string_of_nat_digits [of n] by (auto simp: is_dec_digit_def)


lemma source_over_transparent_white: "alpha p = 0 \<Longrightarrow> source_over p WHITE = WHITE"
  by (simp add: source_over_def WHITE_def Let_def blend_chan_transparent_white
      blend_alpha_opaque_dst)

lemma source_over_opaque: "alpha p = 255 \<Longrightarrow> source_over p d = p"
  using unat_byte_le [of "red p"] unat_byte_le [of "green p"] unat_byte_le [of "blue p"]
  by (simp add: source_over_def Let_def blend_chan_opaque blend_alpha_def)

subsection \<open>Flattening\<close>

text \<open>C26. When the image loads, a 2D context is available and the encoder produces a blob,
  \<open>downloadAsJpg\<close> hands the encoder a JPEG request at quality 0.92 for a canvas of the
  image's natural size whose pixels are the image's pixels composited over white, and saves
  that blob under the name \<open>slug_seconds.jpg\<close>.\<close>

theorem downloadAsJpg_saves:
  assumes "load src = ImgLoaded w h px" "length px = w * h"
    and "enc ''image/jpeg'' JPEG_QUALITY
           \<lparr>cv_width = w, cv_height = h, cv_pixels = map (\<lambda>p. source_over p WHITE) px\<rparr> = Some b"
  shows "downloadAsJpg load True enc now src slug = Inr (download_name slug now, b)"
  using assms by (simp add: downloadAsJpg_def flatten_canvas_eq)

theorem downloadAsJpg_saves_witness:
  "downloadAsJpg (\<lambda>_. ImgLoaded 2 1 [\<lparr>red = 10, green = 20, blue = 30, alpha = 0\<rparr>, \<lparr>red = 1, green = 2, blue = 3, alpha = 255\<rparr>]) True
     (\<lambda>m q c. if m = ''image/jpeg'' \<and> q = JPEG_QUALITY then Some (cv_pixels c) else None)
     1700000000123 ''data:image/png;base64,R0VO'' ''anime'' =
   Inr (''anime_1700000000.jpg'', [WHITE, \<lparr>red = 1, green = 2, blue = 3, alpha = 255\<rparr>])"
proof -
  have "downloadAsJpg (\<lambda>_. ImgLoaded 2 1 [\<lparr>red = 10, green = 20, blue = 30, alpha = 0\<rparr>, \<lparr>red = 1, green = 2, blue = 3, alpha = 255\<rparr>]) True
     (\<lambda>m q c. if m = ''image/jpeg'' \<and> q = JPEG_QUALITY then Some (cv_pixels c) else None)
     1700000000123 ''data:image/png;base64,R0VO'' ''anime'' =
   Inr (download_name ''anime'' 1700000000123, map (\<lambda>p. source_over p WHITE) [\<lparr>red = 10, green = 20, blue = 30, alpha = 0\<rparr>, \<lparr>red = 1, green = 2, blue = 3, alpha = 255\<rparr>])"
    by (rule downloadAsJpg_saves) (simp+)
  then show ?thesis
    by (simp add: download_name_def string_of_nat.simps
        source_over_transparent_white source_over_opaque)
qed




subsection \<open>Errors, the file name and the button\<close>

text \<open>C29. \<open>downloadAsJpg\<close> rejects only with the image-load message when the image does
  not load, with the context message when there is no 2D context, and with the blob message
  when the encoder gives no blob for the flattened canvas.\<close>

theorem downloadAsJpg_error_cases:
  assumes "downloadAsJpg load ctx enc now src slug = Inl e"
  shows "(load src = ImgLoadError \<and> e = ThrownError ''Error'' msg_load_failed) \<or>
         (ctx = False \<and> e = ThrownError ''Error'' msg_ctx_failed) \<or>
         (ctx = True \<and> e = ThrownError ''Error'' msg_blob_failed \<and>
          (\<exists>w h px. load src = ImgLoaded w h px \<and>
             enc ''image/jpeg'' JPEG_QUALITY (flatten_canvas w h px) = None))"
  using assms by (auto simp: downloadAsJpg_def split: img_load.splits if_splits option.splits)

theorem downloadAsJpg_error_cases_witness:
  "downloadAsJpg (\<lambda>_. ImgLoaded 1 1 [\<lparr>red = 10, green = 20, blue = 30, alpha = 0\<rparr>]) False (\<lambda>_ _ _. Some ()) 0 ''x'' ''anime'' =
     Inl (ThrownError ''Error'' msg_ctx_failed) \<and>
   ((ImgLoaded 1 1 [\<lparr>red = 10, green = 20, blue = 30, alpha = 0\<rparr>] = ImgLoadError \<and>
       ThrownError ''Error'' msg_ctx_failed = ThrownError ''Error'' msg_load_failed) \<or>
    (False = False \<and> ThrownError ''Error'' msg_ctx_failed = ThrownError ''Error'' msg_ctx_failed) \<or>
    (False = True \<and> ThrownError ''Error'' msg_ctx_failed = ThrownError ''Error'' msg_blob_failed \<and>
       (\<exists>w h px. ImgLoaded 1 1 [\<lparr>red = 10, green = 20, blue = 30, alpha = 0\<rparr>] = ImgLoaded w h px \<and>
          (\<lambda>_ _ _. Some ()) ''image/jpeg'' JPEG_QUALITY (flatten_canvas w h px) = None)))"
proof -
  have h: "downloadAsJpg (\<lambda>_. ImgLoaded 1 1 [\<lparr>red = 10, green = 20, blue = 30, alpha = 0\<rparr>]) False (\<lambda>_ _ _. Some ()) 0 ''x'' ''anime'' =
     Inl (ThrownError ''Error'' msg_ctx_failed)"
    by (simp add: downloadAsJpg_def)
  show ?thesis using downloadAsJpg_error_cases [OF h] h by simp
qed

text \<open>C30. The name of a downloaded file splits at its only underscore into the style's
  slug and the seconds part, which is the decimal \<open>Math.floor(Date.now() / 1000)\<close>
  followed by \<open>.jpg\<close> and parses back to that number.\<close>

theorem download_name_roundtrip:
  assumes "st \<in> set STYLES"
  shows "(case js_split CHR ''_'' (download_name (nameEn st) now) of
            [a, b] \<Rightarrow> a = nameEn st \<and> drop (length b - 4) b = ''.jpg'' \<and>
                      nat_of_digits (take (length b - 4) b) = now div 1000
          | _ \<Rightarrow> False)"
proof -
  have "js_split CHR ''_'' (download_name (nameEn st) now) =
          [nameEn st, string_of_nat (now div 1000) @ ''.jpg'']"
    using STYLES_slug_no_underscore [OF assms] string_of_nat_jpg_no_underscore
    by (simp add: download_name_def js_split_prefix js_split_no_sep del: js_split.simps)
  then show ?thesis by simp
qed

theorem download_name_roundtrip_witness:
  "(case js_split CHR ''_'' (download_name (nameEn style_anime) 1700000000123) of
      [a, b] \<Rightarrow> a = nameEn style_anime \<and> drop (length b - 4) b = ''.jpg'' \<and>
                nat_of_digits (take (length b - 4) b) = 1700000000123 div 1000
    | _ \<Rightarrow> False)"
  using download_name_roundtrip [of style_anime 1700000000123] by (simp add: STYLES_def)

text \<open>C31. After a click on the download button the button is enabled again; the failure
  message is shown exactly when no file was saved, and a saved file carries the name built
  from the result's style slug.\<close>

theorem handleDownload_outcome:
  assumes "handleDownload load ctx enc now r s = (s', saved)"
  shows "\<not> isDownloading s' \<and>
         (downloadError s' = Some msg_download_failed \<longleftrightarrow> saved = None) \<and>
         (downloadError s' = None \<longleftrightarrow> saved \<noteq> None) \<and>
         (\<forall>f. saved = Some f \<longrightarrow> fst f = download_name (nameEn (style r)) now)"
  using assms
  by (auto simp: handleDownload_def handleDownload_start_def handleDownload_finish_def
      downloadAsJpg_def split: sum.splits img_load.splits if_splits option.splits)

theorem handleDownload_outcome_witness:
  "handleDownload (\<lambda>_. ImgLoadError) True (\<lambda>_ _ _. Some ()) 0 
     \<lparr>originalSrc = ''data:image/png;base64,QkI='', transformedSrc = ''data:image/png;base64,R0VO'', style = style_anime\<rparr>
     \<lparr>isDownloading = False, downloadError = None\<rparr> =
     (\<lparr>isDownloading = False, downloadError = Some msg_download_failed\<rparr>, None) \<and>
   \<not> isDownloading \<lparr>isDownloading = False, downloadError = Some msg_download_failed\<rparr>"
proof -
  have h: "handleDownload (\<lambda>_. ImgLoadError) True (\<lambda>_ _ _. Some ()) 0 
     \<lparr>originalSrc = ''data:image/png;base64,QkI='', transformedSrc = ''data:image/png;base64,R0VO'', style = style_anime\<rparr>
     \<lparr>isDownloading = False, downloadError = None\<rparr> =
     (\<lparr>isDownloading = False, downloadError = Some msg_download_failed\<rparr>, None)"
    by (simp add: handleDownload_def handleDownload_start_def handleDownload_finish_def
        downloadAsJpg_def)
  show ?thesis using handleDownload_outcome [OF h] h by simp
qed

end
