(* ===== verification/Views.thy ===== *)
theory Views
  imports Download
begin

text \<open>
  What the page renders: the presentation components \<open>StyleCard\<close>, \<open>StyleGrid\<close>,
  \<open>TransformButton\<close>, \<open>LoadingOverlay\<close> and the markup of \<open>ResultView\<close> as view
  functions from their props (and state) to a record of what they show and which controls
  are enabled, and the JSX of \<open>Home\<close> (\<open>src/app/page.tsx\<close>, lines 119--222) as
  \<open>Home_view\<close> on the page's state. Class names and static decoration are left out; the
  texts, the \<open>aria-pressed\<close>/\<open>disabled\<close> attributes and the conditions under which each
  part appears are kept. The lemmas relate the view to the invariants of the controller.
\<close>

subsection \<open>Style cards and grid\<close>

record card_view =
  card_dom_id :: string
  card_pressed :: bool
  card_disabled :: bool
  card_label :: string
  card_emoji :: string
  card_name :: string
  card_subtitle :: string
  card_tooltip :: string

text \<open>\<open>nameEn.replace(/-/g, " ")\<close>.\<close>

definition slug_words :: "string \<Rightarrow> string" where
  "slug_words s = map (\<lambda>c. if c = CHR ''-'' then CHR '' '' else c) s"

text \<open>\<open>StyleCard\<close>; the tooltip is \<open>prompt.substring(0, 120)\<close> and an ellipsis (the
  prompts of the catalog are ASCII, so characters and UTF-16 units agree).\<close>

definition StyleCard :: "style_option \<Rightarrow> bool \<Rightarrow> bool \<Rightarrow> card_view" where
  "StyleCard st isSelected disabled =
     \<lparr>card_dom_id = ''style-card-'' @ string_of_nat (style_id st),
      card_pressed = isSelected, card_disabled = disabled,
      card_label = name st @ '' '' @ utf8 [0xC2A4, 0xD0C0, 0xC77C] @ '' '' @ utf8 [0xC120, 0xD0DD],
      card_emoji = emoji st, card_name = name st, card_subtitle = slug_words (nameEn st),
      card_tooltip = take 120 (prompt st) @ ''...''\<rparr>"

text \<open>The card's \<open>onClick\<close>: \<open>!disabled && onSelect(style)\<close>.\<close>

definition StyleCard_click :: "style_option \<Rightarrow> bool \<Rightarrow> style_option option" where
  "StyleCard_click st disabled = (if disabled then None else Some st)"

text \<open>\<open>StyleGrid\<close>: the header badge with the selected style's name and one card per
  entry of \<open>STYLES\<close>, pressed when its id is the selected style's id
  (\<open>selectedStyle?.id === style.id\<close>, false without a selection).\<close>

definition StyleGrid :: "style_option option \<Rightarrow> bool \<Rightarrow> string option \<times> card_view list" where
  "StyleGrid sel disabled =
     (map_option (\<lambda>s. utf8 [0x2728] @ '' '' @ name s) sel,
      map (\<lambda>st. StyleCard st (case sel of None \<Rightarrow> False | Some s \<Rightarrow> style_id s = style_id st) disabled)
        STYLES)"

subsection \<open>Transform button and loading overlay\<close>

record button_view =
  btn_disabled :: bool
  btn_shimmer :: bool
  btn_spinner :: bool
  btn_text :: string
  btn_hint :: bool

definition msg_converting :: string where
  "msg_converting = utf8 [0xBCC0, 0xD658] @ '' '' @ utf8 [0xC911] @ ''...''"

definition msg_convert :: string where
  "msg_convert = utf8 [0xC2A4, 0xD0C0, 0xC77C] @ '' '' @ utf8 [0xBCC0, 0xD658, 0xD558, 0xAE30]"

definition TransformButton :: "bool \<Rightarrow> bool \<Rightarrow> button_view" where
  "TransformButton disabled loading =
     \<lparr>btn_disabled = (disabled \<or> loading), btn_shimmer = (\<not> disabled \<and> \<not> loading),
      btn_spinner = loading, btn_text = (if loading then msg_converting else msg_convert),
      btn_hint = (disabled \<and> \<not> loading)\<rparr>"

record overlay_view =
  ov_emoji :: string
  ov_style_line :: "string option"

text \<open>\<open>LoadingOverlay\<close>: nothing unless loading; the style's emoji or the palette
  (\<open>style?.emoji || "..."\<close>), and the line naming the style being applied.\<close>

definition LoadingOverlay :: "bool \<Rightarrow> style_option option \<Rightarrow> overlay_view option" where
  "LoadingOverlay loading sel =
     (if \<not> loading then None
      else Some \<lparr>ov_emoji = (case sel of Some st \<Rightarrow> if emoji st \<noteq> [] then emoji st else utf8 [0x1F3A8]
                                      | None \<Rightarrow> utf8 [0x1F3A8]),
                 ov_style_line = map_option (\<lambda>st. emoji st @ '' '' @ name st @ '' '' @
                   utf8 [0xC2A4, 0xD0C0, 0xC77C] @ '' '' @ utf8 [0xC801, 0xC6A9] @ '' '' @
                   utf8 [0xC911]) sel\<rparr>)"

subsection \<open>Result view\<close>

record result_panel =
  rp_badge :: string
  rp_before :: string
  rp_after :: string
  rp_after_title :: string
  rp_after_alt :: string
  rp_download_disabled :: bool
  rp_download_spinner :: bool
  rp_error :: "string option"

definition ResultView_view :: "transform_result \<Rightarrow> result_view_state \<Rightarrow> result_panel" where
  "ResultView_view r s =
     \<lparr>rp_badge = emoji (style r) @ '' '' @ name (style r),
      rp_before = originalSrc r, rp_after = transformedSrc r,
      rp_after_title = name (style r) @ '' (After)'',
      rp_after_alt = name (style r) @ '' '' @ utf8 [0xC2A4, 0xD0C0, 0xC77C, 0xB85C] @ '' '' @
                     utf8 [0xBCC0, 0xD658, 0xB41C] @ '' '' @ utf8 [0xC774, 0xBBF8, 0xC9C0],
      rp_download_disabled = isDownloading s, rp_download_spinner = isDownloading s,
      rp_error = downloadError s\<rparr>"

subsection \<open>The page\<close>

record home_view =
  hv_uploader :: uploader_view
  hv_style_grid :: "(string option \<times> card_view list) option"
  hv_button :: "button_view option"
  hv_error :: "string option"
  hv_overlay :: "overlay_view option"
  hv_result :: "transform_result option"

text \<open>Lines 152--212: the uploader (disabled while loading), the grid once an image is
  uploaded, the transform button once a style is chosen and while there is no result
  (\<open>disabled={!canTransform}\<close>), the error box, the overlay and the result.\<close>

definition Home_view :: "app_state \<Rightarrow> home_view" where
  "Home_view s =
     (let h = home s
      in \<lparr>hv_uploader = ImageUploader_view (uploadedImage h) (isLoading h) (uploader s),
          hv_style_grid = (if uploadedImage h \<noteq> None
                           then Some (StyleGrid (selectedStyle h) (isLoading h)) else None),
          hv_button = (if uploadedImage h \<noteq> None \<and> selectedStyle h \<noteq> None \<and> result h = None
                       then Some (TransformButton (\<not> canTransform h) (isLoading h)) else None),
          hv_error = error h,
          hv_overlay = LoadingOverlay (isLoading h) (selectedStyle h),
          hv_result = result h\<rparr>)"

text \<open>What the page keeps about the selection: a selected style is an entry of the
  catalog, and loading happens only with an image and a style.\<close>

definition catalog_inv :: "app_state \<Rightarrow> bool" where
  "catalog_inv s \<longleftrightarrow>
     (\<forall>st. selectedStyle (home s) = Some st \<longrightarrow> st \<in> set STYLES) \<and>
     (isLoading (home s) \<longrightarrow> uploadedImage (home s) \<noteq> None \<and> selectedStyle (home s) \<noteq> None)"

subsection \<open>Lemmas\<close>

lemma catalog_inv_init: "catalog_inv app_init"
  by (simp add: catalog_inv_def app_init_def home_init_def)

lemma ui_step_catalog_inv:
  "ui_step s t \<Longrightarrow> app_inv s \<Longrightarrow> catalog_inv s \<Longrightarrow> catalog_inv t"
proof (induction rule: ui_step.induct)
  case (upload_done f s r u' img)
  then show ?case by (auto simp: catalog_inv_def handleImageUpload_def split: option.splits)
next
  case (select_style s st)
  then show ?case by (auto simp: catalog_inv_def handleStyleSelect_def)
next
  case (transform_click s h' req)
  then show ?case
    by (auto simp: catalog_inv_def handleTransform_start_def split: option.splits)
next
  case (retry_click s h' rq)
  then show ?case by (auto simp: catalog_inv_def dest!: handleTransform_start_cases)
next
  case (transform_done req s out)
  then show ?case
    by (auto simp: catalog_inv_def handleTransform_finish_def split: sum.splits)
next
  case (retry_new_style s)
  then show ?case by (auto simp: catalog_inv_def app_inv_def handleRetryWithNewStyle_def)
next
  case (start_over s)
  then show ?case by (auto simp: catalog_inv_def app_inv_def handleStartOver_def)
next
  case (image_reset s)
  then show ?case by (auto simp: catalog_inv_def handleImageReset_def)
qed (simp_all add: catalog_inv_def)

lemma reachable_catalog_inv: "reachable s \<Longrightarrow> catalog_inv s"
proof (induction rule: reachable.induct)
  case init
  show ?case by (rule catalog_inv_init)
next
  case (step s t)
  then show ?case by (blast intro: ui_step_catalog_inv reachable_app_inv)
qed

lemma Home_view_sel:
  "hv_uploader (Home_view s) =
     ImageUploader_view (uploadedImage (home s)) (isLoading (home s)) (uploader s)"
  "hv_style_grid (Home_view s) =
     (if uploadedImage (home s) \<noteq> None
      then Some (StyleGrid (selectedStyle (home s)) (isLoading (home s))) else None)"
  "hv_button (Home_view s) =
     (if uploadedImage (home s) \<noteq> None \<and> selectedStyle (home s) \<noteq> None \<and> result (home s) = None
      then Some (TransformButton (\<not> canTransform (home s)) (isLoading (home s))) else None)"
  "hv_error (Home_view s) = error (home s)"
  "hv_overlay (Home_view s) = LoadingOverlay (isLoading (home s)) (selectedStyle (home s))"
  "hv_result (Home_view s) = result (home s)"
  by (simp_all add: Home_view_def Let_def)

lemma StyleGrid_pressed:
  "filter card_pressed (snd (StyleGrid sel d)) =
     (case sel of None \<Rightarrow> [] | Some st \<Rightarrow>
        map (\<lambda>x. StyleCard x True d) (filter (\<lambda>x. style_id st = style_id x) STYLES))"
  by (cases sel) (simp_all add: StyleGrid_def filter_map comp_def StyleCard_def)

lemma StyleGrid_pressed_catalog:
  "st \<in> set STYLES \<Longrightarrow> filter card_pressed (snd (StyleGrid (Some st) d)) = [StyleCard st True d]"
  by (simp add: StyleGrid_pressed filter_key_unique [OF STYLES_ids_distinct])

text \<open>C36. In every reachable state the style grid presses exactly one card when a style is
  selected, the card of that style, and none otherwise: selection by id picks out one card
  because the catalog's ids are distinct and the selected style is one of its entries.\<close>

theorem grid_single_pressed:
  assumes "reachable s" "hv_style_grid (Home_view s) = Some g"
  shows "filter card_pressed (snd g) =
           (case selectedStyle (home s) of None \<Rightarrow> []
            | Some st \<Rightarrow> [StyleCard st True (isLoading (home s))])"
proof -
  have cards: "snd g = snd (StyleGrid (selectedStyle (home s)) (isLoading (home s)))"
    using assms(2) by (auto simp: Home_view_sel split: if_splits)
  show ?thesis
  proof (cases "selectedStyle (home s)")
    case None
    then show ?thesis by (simp add: cards StyleGrid_pressed)
  next
    case (Some st)
    with reachable_catalog_inv [OF assms(1)] have "st \<in> set STYLES" by (simp add: catalog_inv_def)
    with Some show ?thesis by (simp add: cards StyleGrid_pressed_catalog)
  qed
qed

theorem grid_single_pressed_witness:
  "hv_style_grid (Home_view (\<lparr>home = \<lparr>uploadedImage = Some (uploaded_of \<lparr>file_name = ''b.png'', file_type = ''image/png'', file_size = 1000\<rparr> \<lparr>prep_base64 = Some ''QkI='', prep_mime = ''image/png'', prep_preview = ''data:image/png;base64,QkI=''\<rparr>), selectedStyle = Some style_watercolor,
        isLoading = False, result = None, error = None\<rparr>,
      uploader = \<lparr>u_dragging = False, u_error = None, u_processing = False\<rparr>, uploads = {#\<lparr>file_name = ''c.jpg'', file_type = ''image/jpeg'', file_size = 2000\<rparr>#},
      transforms = {#}\<rparr>)) = Some (StyleGrid (Some style_watercolor) False) \<and>
   filter card_pressed (snd (StyleGrid (Some style_watercolor) False)) =
     [StyleCard style_watercolor True False]"
proof -
  have v: "validateFile \<lparr>file_name = ''b.png'', file_type = ''image/png'', file_size = 1000\<rparr> = None" "validateFile \<lparr>file_name = ''c.jpg'', file_type = ''image/jpeg'', file_size = 2000\<rparr> = None"
    by (simp_all add: validateFile_def SUPPORTED_TYPES_def MAX_FILE_SIZE_def)
  have st: "style_watercolor \<in> set STYLES" by (simp add: STYLES_def)
  have r: "reachable (\<lparr>home = \<lparr>uploadedImage = Some (uploaded_of \<lparr>file_name = ''b.png'', file_type = ''image/png'', file_size = 1000\<rparr> \<lparr>prep_base64 = Some ''QkI='', prep_mime = ''image/png'', prep_preview = ''data:image/png;base64,QkI=''\<rparr>), selectedStyle = Some style_watercolor,
        isLoading = False, result = None, error = None\<rparr>,
      uploader = \<lparr>u_dragging = False, u_error = None, u_processing = False\<rparr>, uploads = {#\<lparr>file_name = ''c.jpg'', file_type = ''image/jpeg'', file_size = 2000\<rparr>#},
      transforms = {#}\<rparr>)" by (rule reachable_two_uploads [OF v st])
  have g: "hv_style_grid (Home_view (\<lparr>home = \<lparr>uploadedImage = Some (uploaded_of \<lparr>file_name = ''b.png'', file_type = ''image/png'', file_size = 1000\<rparr> \<lparr>prep_base64 = Some ''QkI='', prep_mime = ''image/png'', prep_preview = ''data:image/png;base64,QkI=''\<rparr>), selectedStyle = Some style_watercolor,
        isLoading = False, result = None, error = None\<rparr>,
      uploader = \<lparr>u_dragging = False, u_error = None, u_processing = False\<rparr>, uploads = {#\<lparr>file_name = ''c.jpg'', file_type = ''image/jpeg'', file_size = 2000\<rparr>#},
      transforms = {#}\<rparr>)) = Some (StyleGrid (Some style_watercolor) False)"
    by (simp add: Home_view_sel)
  from grid_single_pressed [OF r g] g show ?thesis by simp
qed

text \<open>C37. In every reachable state the loading overlay is shown exactly while a request
  is in flight; while loading, neither a result nor an error is shown, the transform button
  is shown disabled with its spinner and "converting" text, and every style card is
  disabled; and whenever the transform button is shown, it is disabled exactly when a click
  would not start a request.\<close>

theorem page_view_consistent:
  assumes "reachable s"
  shows "(hv_overlay (Home_view s) \<noteq> None \<longleftrightarrow> isLoading (home s)) \<and>
         (isLoading (home s) \<longrightarrow>
            hv_result (Home_view s) = None \<and> hv_error (Home_view s) = None \<and>
            (\<exists>b. hv_button (Home_view s) = Some b \<and> btn_disabled b \<and> btn_spinner b \<and>
                 btn_text b = msg_converting) \<and>
            (\<forall>g. hv_style_grid (Home_view s) = Some g \<longrightarrow> (\<forall>c \<in> set (snd g). card_disabled c))) \<and>
         (\<forall>b. hv_button (Home_view s) = Some b \<longrightarrow> (btn_disabled b \<longleftrightarrow> \<not> canTransform (home s)))"
proof -
  have a: "app_inv s" by (rule reachable_app_inv [OF assms])
  have c: "catalog_inv s" by (rule reachable_catalog_inv [OF assms])
  show ?thesis
    using a c
    by (auto simp: Home_view_sel app_inv_def catalog_inv_def LoadingOverlay_def
        TransformButton_def canTransform_def StyleGrid_def StyleCard_def)
qed

theorem page_view_consistent_witness:
  "let s = \<lparr>home = \<lparr>uploadedImage = Some (uploaded_of \<lparr>file_name = ''b.png'', file_type = ''image/png'', file_size = 1000\<rparr> \<lparr>prep_base64 = Some ''QkI='', prep_mime = ''image/png'', prep_preview = ''data:image/png;base64,QkI=''\<rparr>), selectedStyle = Some style_watercolor,
        isLoading = True, result = None, error = None\<rparr>,
      uploader = \<lparr>u_dragging = False, u_error = None, u_processing = False\<rparr>, uploads = {#\<lparr>file_name = ''c.jpg'', file_type = ''image/jpeg'', file_size = 2000\<rparr>#},
      transforms = {#(uploaded_of \<lparr>file_name = ''b.png'', file_type = ''image/png'', file_size = 1000\<rparr> \<lparr>prep_base64 = Some ''QkI='', prep_mime = ''image/png'', prep_preview = ''data:image/png;base64,QkI=''\<rparr>, style_watercolor)#}\<rparr>
   in hv_overlay (Home_view s) \<noteq> None \<and> isLoading (home s) \<and>
      hv_result (Home_view s) = None \<and> hv_error (Home_view s) = None \<and>
      hv_button (Home_view s) = Some (TransformButton True True) \<and>
      btn_disabled (TransformButton True True) \<and> btn_spinner (TransformButton True True) \<and>
      btn_text (TransformButton True True) = msg_converting \<and>
      list_all card_disabled (snd (StyleGrid (Some style_watercolor) True))"
proof -
  have v: "validateFile \<lparr>file_name = ''b.png'', file_type = ''image/png'', file_size = 1000\<rparr> = None" "validateFile \<lparr>file_name = ''c.jpg'', file_type = ''image/jpeg'', file_size = 2000\<rparr> = None"
    by (simp_all add: validateFile_def SUPPORTED_TYPES_def MAX_FILE_SIZE_def)
  have st: "style_watercolor \<in> set STYLES" by (simp add: STYLES_def)
  show ?thesis
    using page_view_consistent [OF reachable_transform_in_flight [OF v st]]
    by (simp add: Let_def Home_view_sel canTransform_def list_all_iff)
qed

text \<open>C39. With a result on screen, the grid stays enabled: picking another catalog style
  keeps the result (labelled with the style it was made in) while the grid presses the new
  style and no transform button is shown; nothing clears the result until the user presses
  "new style" or "start over".\<close>

theorem pick_style_keeps_result:
  assumes "reachable s" "result (home s) = Some r" "st \<in> set STYLES"
  shows "\<exists>t. ui_step s t \<and> reachable t \<and> hv_result (Home_view t) = Some r \<and>
           hv_button (Home_view t) = None \<and>
           map_option (filter card_pressed \<circ> snd) (hv_style_grid (Home_view t)) =
             Some [StyleCard st True False]"
proof -
  have "\<not> isLoading (home s)" "uploadedImage (home s) \<noteq> None"
    using reachable_app_inv [OF assms(1)] assms(2) by (auto simp: app_inv_def)
  have step: "ui_step s (s\<lparr>home := handleStyleSelect st (home s)\<rparr>)"
    using \<open>uploadedImage (home s) \<noteq> None\<close> \<open>\<not> isLoading (home s)\<close> assms(3)
    by (rule ui_step.select_style)
  moreover have "reachable (s\<lparr>home := handleStyleSelect st (home s)\<rparr>)"
    using assms(1) step by (rule reachable.step)
  ultimately show ?thesis
    using assms(2,3) \<open>\<not> isLoading (home s)\<close> \<open>uploadedImage (home s) \<noteq> None\<close>
    by (intro exI [of _ "s\<lparr>home := handleStyleSelect st (home s)\<rparr>"])
       (simp add: Home_view_sel handleStyleSelect_def StyleGrid_pressed_catalog)
qed

theorem pick_style_keeps_result_witness:
  "\<exists>t. ui_step (\<lparr>home = \<lparr>uploadedImage = Some (uploaded_of \<lparr>file_name = ''b.png'', file_type = ''image/png'', file_size = 1000\<rparr> \<lparr>prep_base64 = Some ''QkI='', prep_mime = ''image/png'', prep_preview = ''data:image/png;base64,QkI=''\<rparr>), selectedStyle = Some style_watercolor,
        isLoading = False, result = Some (\<lparr>originalSrc = ''data:image/png;base64,QkI='', transformedSrc = ''data:image/png;base64,R0VO'', style = style_watercolor\<rparr>), error = None\<rparr>,
      uploader = \<lparr>u_dragging = False, u_error = None, u_processing = False\<rparr>, uploads = {#\<lparr>file_name = ''c.jpg'', file_type = ''image/jpeg'', file_size = 2000\<rparr>#},
      transforms = {#}\<rparr>) t \<and> reachable t \<and>
     hv_result (Home_view t) = Some \<lparr>originalSrc = ''data:image/png;base64,QkI='', transformedSrc = ''data:image/png;base64,R0VO'', style = style_watercolor\<rparr> \<and> hv_button (Home_view t) = None \<and>
     map_option (filter card_pressed \<circ> snd) (hv_style_grid (Home_view t)) =
       Some [StyleCard style_anime True False]"
proof -
  have v: "validateFile \<lparr>file_name = ''b.png'', file_type = ''image/png'', file_size = 1000\<rparr> = None" "validateFile \<lparr>file_name = ''c.jpg'', file_type = ''image/jpeg'', file_size = 2000\<rparr> = None"
    by (simp_all add: validateFile_def SUPPORTED_TYPES_def MAX_FILE_SIZE_def)
  have st: "style_watercolor \<in> set STYLES" "style_anime \<in> set STYLES" by (simp_all add: STYLES_def)
  have r5: "reachable (\<lparr>home = \<lparr>uploadedImage = Some (uploaded_of \<lparr>file_name = ''b.png'', file_type = ''image/png'', file_size = 1000\<rparr> \<lparr>prep_base64 = Some ''QkI='', prep_mime = ''image/png'', prep_preview = ''data:image/png;base64,QkI=''\<rparr>), selectedStyle = Some style_watercolor,
        isLoading = True, result = None, error = None\<rparr>,
      uploader = \<lparr>u_dragging = False, u_error = None, u_processing = False\<rparr>, uploads = {#\<lparr>file_name = ''c.jpg'', file_type = ''image/jpeg'', file_size = 2000\<rparr>#},
      transforms = {#(uploaded_of \<lparr>file_name = ''b.png'', file_type = ''image/png'', file_size = 1000\<rparr> \<lparr>prep_base64 = Some ''QkI='', prep_mime = ''image/png'', prep_preview = ''data:image/png;base64,QkI=''\<rparr>, style_watercolor)#}\<rparr>)" by (rule reachable_transform_in_flight [OF v st(1)])
  have r6: "reachable (\<lparr>home = \<lparr>uploadedImage = Some (uploaded_of \<lparr>file_name = ''b.png'', file_type = ''image/png'', file_size = 1000\<rparr> \<lparr>prep_base64 = Some ''QkI='', prep_mime = ''image/png'', prep_preview = ''data:image/png;base64,QkI=''\<rparr>), selectedStyle = Some style_watercolor,
        isLoading = False, result = Some (\<lparr>originalSrc = ''data:image/png;base64,QkI='', transformedSrc = ''data:image/png;base64,R0VO'', style = style_watercolor\<rparr>), error = None\<rparr>,
      uploader = \<lparr>u_dragging = False, u_error = None, u_processing = False\<rparr>, uploads = {#\<lparr>file_name = ''c.jpg'', file_type = ''image/jpeg'', file_size = 2000\<rparr>#},
      transforms = {#}\<rparr>)"
    by (rule reachable_step_eq [OF r5 ui_step.transform_done [where req = "(uploaded_of \<lparr>file_name = ''b.png'', file_type = ''image/png'', file_size = 1000\<rparr> \<lparr>prep_base64 = Some ''QkI='', prep_mime = ''image/png'', prep_preview = ''data:image/png;base64,QkI=''\<rparr>, style_watercolor)" and out = "FetchResponse 200 (Inr \<lparr>resp_image = Some ''R0VO'', resp_mime = Some ''image/png'', resp_error = None\<rparr>)"]])
       (simp_all add: handleTransform_finish_def client_outcome_def str_truthy_def uploaded_of_def)
  show ?thesis by (rule pick_style_keeps_result [OF r6 _ st(2)]) simp
qed



end
