(* ===== verification/Spec2Isabelle.thy ===== *)
theory Spec2Isabelle
  imports Prelude Transform_Route Styles Image_Prep Uploader Controller Progress Download Views
begin

text \<open>
  Verification development of the image style transfer web application of this repository:
  a Next.js client that prepares a photo, lets the user pick one of 21 art styles, sends the
  photo and the style's prompt to its own API route, which asks the Gemini model for a
  restyled image, shows the result and converts it to a JPEG file for download.

  \<^bold>\<open>The parts and how they interact.\<close> The page \<open>src/app/page.tsx\<close> (the
  controller) holds the uploaded image, the selected style, the loading flag, the result and
  the error. \<open>ImageUploader\<close> validates a dropped file and prepares it with
  \<open>resizeAndConvertToBase64\<close> (\<open>src/lib/utils.ts\<close>), then hands the prepared image
  to the page. The style catalog is \<open>STYLES\<close> (\<open>src/lib/styles.ts\<close>). The page posts
  the image and the style's prompt to \<open>POST\<close> of \<open>src/app/api/transform/route.ts\<close>,
  which calls the model and normalises its answer; the page turns the answer into a result or
  an error message. \<open>ResultView\<close> downloads the result through \<open>downloadAsJpg\<close>.

  \<^bold>\<open>Theories.\<close>
  \<^item> \<open>Prelude\<close>: the JavaScript runtime the sources rely on: strings as UTF-8 byte
    lists (\<open>utf8\<close> writes the Korean literals from their code points), parsed JSON
    (\<open>jsval\<close>) with truthiness and property access, \<open>split\<close>, \<open>join\<close>,
    \<open>String(v)\<close>, and decimal printing with its parser (\<open>string_of_nat\<close>,
    \<open>nat_of_digits\<close>, round trip \<open>nat_of_digits_string_of_nat\<close>).
  \<^item> \<open>Transform_Route\<close>: the whole \<open>POST\<close> handler. \<open>route_prepare\<close> is the code
    up to the model call (\<open>getAI\<close>, \<open>req.json()\<close>, the destructuring, the parameter
    check, the prompt \<open>full_prompt\<close>), \<open>route_finish\<close> the code after it (the
    \<open>parts\<close> check, the loop \<open>first_inline\<close>, the text fallback, both \<open>catch\<close>
    blocks). The model is a parameter \<open>upstream\<close> giving the elapsed milliseconds and
    the outcome of \<open>generateContent\<close>. Lemmas C1--C9: the request sent upstream, the
    first inline image wins, the error answers (400 missing parameter, 500 missing key, no
    content or text only, 504 on \<open>AbortError\<close>), every answer well formed, and the
    answer independent of the model's latency.
  \<^item> \<open>Styles\<close>: \<open>StyleOption\<close> as a record and the 21 entries of \<open>STYLES\<close>
    literally; C10--C11 the ids 1..21 and distinct, well-formed slugs.
  \<^item> \<open>Image_Prep\<close>: \<open>validateFile\<close>, the resize arithmetic \<open>resize_dims\<close>
    (JavaScript numbers as exact rationals, \<open>Math.round\<close> as \<open>js_round\<close>), the data
    URL and its base64 split, the promise \<open>resizeAndConvertToBase64\<close> with its three
    rejections, and \<open>processFile\<close> split at its \<open>await\<close>. The browser (reader and
    decoder outcome, 2D context, canvas encoder) is a parameter. C12--C20: integer form of
    the resize, no upscaling, longest side exactly 1024, aspect kept to half a pixel, a
    1 x 2049 image resized to a zero-width canvas, the validation order, the data URL round
    trip, the empty canvas, \<open>processFile\<close> on every branch.
  \<^item> \<open>Uploader\<close>: the event handlers of \<open>ImageUploader\<close> (drag enter, leave and
    over, the drop with its \<open>disabled\<close> check, the file input, the click) as
    \<open>uploader_input\<close>, and its rendering \<open>ImageUploader_view\<close>: the preview with the
    file's name and its size formatted by \<open>toFixed2\<close> (\<open>Number.prototype.toFixed(2)\<close>),
    or the drop zone with spinner, prompt and message. C38: the size label parses back to the
    size within half a hundredth of a MiB.
  \<^item> \<open>Controller\<close>: the page's hooks as \<open>home_state\<close>, one function per handler
    (\<open>handleTransform\<close> split at its \<open>await\<close> into \<open>handleTransform_start\<close> and
    \<open>handleTransform_finish\<close>, the client checks of the answer in
    \<open>client_outcome\<close>), and the page with the uploader and the work in flight as the step
    relation \<open>ui_step\<close> whose guards are the JSX conditions and \<open>disabled\<close>
    attributes; uploads enter through the uploader's handlers (\<open>uploader_input\<close>). Preparations and transform requests in flight are multisets: they complete
    in any order. C21--C22 the invariant of every reachable state (one request at most,
    consistent flags), C23 the refinement of the spec's stage machine (section 4.5) by
    \<open>stage_of\<close>, C24--C25 two interleavings the code allows (a stale result, a kept
    style).
  \<^item> \<open>Progress\<close>: \<open>settle_step\<close>, the completions of the page's pending work with
    the browser's and the server's answers as parameters, and \<open>pending\<close>, the amount of
    work in flight. C34 (liveness): from every reachable state all pending work can complete,
    leaving the page not loading; C35 (termination): completions alone always stop.
  \<^item> \<open>Download\<close>: the canvas as a grid of byte pixels with source-over compositing,
    \<open>fillRect\<close>, \<open>drawImage\<close>, \<open>downloadAsJpg\<close> and \<open>handleDownload\<close> of
    \<open>ResultView\<close>. C26--C31: the encoder receives the image flattened over white at its
    natural size, transparent pixels become white and opaque ones stay, the byte arithmetic
    never wraps, the three rejections, the file name round trip, the button state.
  \<^item> \<open>Views\<close>: the presentation components as view functions from props to what they
    show (\<open>StyleCard\<close>, \<open>StyleGrid\<close>, \<open>TransformButton\<close>,
    \<open>LoadingOverlay\<close>, the markup of \<open>ResultView\<close>) and the JSX of \<open>Home\<close> as
    \<open>Home_view\<close> on the page's state, with \<open>catalog_inv\<close> (the selected style is a
    catalog entry; loading only with an image and a style). C36: exactly the selected style's
    card is pressed; C37: the loading screen is consistent and the transform button is
    enabled exactly when a click starts a request; C39: a style picked while a result is shown
    keeps the result; C40: a drop starts the preparation of the first file only.
  \<^item> this theory: the parts composed, C32--C33: a successful transform from the page's
    request to the displayed result, and a very thin image accepted by the uploader but
    refused by the route, surfacing as the page's error.

  \<^bold>\<open>Modelling choices.\<close> JavaScript numbers in the resize are exact rationals: the
  values involved (at most 2 * 1024 * side) are far below 2^53, so double arithmetic is
  exact up to the one rounding of the division, which the rational model places at
  \<open>Math.round\<close>; the proved bounds hold for the rational model. Pixel bytes are
  \<open>8 word\<close>; the compositing formula is the canvas's source-over with rounding to
  nearest, one admissible implementation (browsers differ in the last bit). Every loop of the
  sources is over a finite list and is structural recursion; no fuel is needed. The network,
  the model, the browser's decoder and encoders, the clock and the rendering are parameters
  or left out.

  \<^bold>\<open>Not modelled.\<close> Class names, SVG icons and animations of the components (the
  view functions keep their texts, attributes and display conditions); the static header and
  footer of \<open>Home\<close>; \<open>layout.tsx\<close>, which holds only metadata and the html/body
  wrapper; scrolling (\<open>setTimeout\<close>/\<open>scrollIntoView\<close>), which changes no state;
  \<open>console.error\<close>; \<open>src/lib/gemini.ts\<close>, which no route imports. The state of
  \<open>ResultView\<close> (the download flag and message) is modelled by its handler but not
  carried in the page's step relation, since it lives and dies with the mounted result.
\<close>

subsection \<open>The parts composed\<close>

lemma STYLES_prompt_not_Nil: "st \<in> set STYLES \<Longrightarrow> prompt st \<noteq> []"
  using STYLES_prompts by (simp add: list_all_iff)

lemma route_prepare_request_body:
  assumes "gemini_api_key env = Some k" "k \<noteq> []"
    and "img_base64 img = Some b" "b \<noteq> []" "img_mime img \<noteq> []" "prompt st \<noteq> []"
  shows "route_prepare env (Inr (request_body (img, st))) = CallUpstream
    \<lparr>up_model = MODEL_NAME, up_prompt = full_prompt (JStr (prompt st)),
     up_mime = JStr (img_mime img), up_data = JStr b, up_modalities = [''TEXT'', ''IMAGE'']\<rparr>"
  using assms by (simp add: route_prepare_def getAI_Inr request_body_def)

text \<open>C32. A transform end to end: the page's request for an image with a non-empty
  payload and a catalog style reaches the model as the route's model name and its full prompt
  for the style's prompt (C1), with the image's MIME type and data; when the model's
  first image part is the \<open>inlineData\<close> \<open>(d, m)\<close> with non-empty \<open>d\<close>, the page
  ends with the loading flag off and the result showing the original preview beside
  \<open>data:m;base64,d\<close> in that style.\<close>

theorem transform_round_trip:
  assumes "gemini_api_key env = Some k" "k \<noteq> []"
    and "img_base64 img = Some b" "b \<noteq> []" "img_mime img \<noteq> []" "st \<in> set STYLES"
    and "upstream \<lparr>up_model = MODEL_NAME,
           up_prompt = full_prompt (JStr (prompt st)), up_mime = JStr (img_mime img),
           up_data = JStr b, up_modalities = [''TEXT'', ''IMAGE'']\<rparr> = (t, Resolved r)"
    and "response_parts r = Some (pre @ p # post)" "\<forall>q \<in> set pre. part_inline q = None"
    and "part_inline p = Some \<lparr>blob_data = Some d, blob_mime = Some m\<rparr>" "d \<noteq> []"
  shows "handleTransform_finish (img, st)
           (deliver (POST env (Inr (request_body (img, st))) upstream)) h =
         h\<lparr>result := Some \<lparr>originalSrc = img_preview img,
                            transformedSrc = ''data:'' @ m @ '';base64,'' @ d, style = st\<rparr>,
           isLoading := False\<rparr>"
proof -
  have "POST env (Inr (request_body (img, st))) upstream = route_finish (Resolved r)"
    using route_prepare_request_body [OF assms(1-5) STYLES_prompt_not_Nil [OF assms(6)]] assms(7)
    by (rule POST_call)
  also have "\<dots> = \<lparr>status = 200, payload = \<lparr>resp_image = Some d, resp_mime = Some m,
      resp_error = None\<rparr>\<rparr>"
    using route_finish_first_inline [OF assms(8-10)] by simp
  finally show ?thesis
    using assms(11)
    by (simp add: handleTransform_finish_def client_outcome_def deliver_def str_truthy_def)
qed

theorem transform_round_trip_witness:
  "handleTransform_finish (\<lparr>img_file = \<lparr>file_name = ''cat.png'', file_type = ''image/png'', file_size = 5000\<rparr>, img_preview = ''data:image/png;base64,QUJD'', img_base64 = Some ''QUJD'', img_mime = ''image/png''\<rparr>, style_anime)
     (deliver (POST \<lparr>gemini_api_key = Some ''key''\<rparr> (Inr (request_body (\<lparr>img_file = \<lparr>file_name = ''cat.png'', file_type = ''image/png'', file_size = 5000\<rparr>, img_preview = ''data:image/png;base64,QUJD'', img_base64 = Some ''QUJD'', img_mime = ''image/png''\<rparr>, style_anime)))
        (\<lambda>_. (4200, Resolved \<lparr>candidates = Some [\<lparr>cand_content = Some \<lparr>parts = Some [\<lparr>part_inline = None, part_text = Some ''Done''\<rparr>, \<lparr>part_inline = Some \<lparr>blob_data = Some ''R0VO'', blob_mime = Some ''image/png''\<rparr>, part_text = None\<rparr>]\<rparr>\<rparr>]\<rparr>)))) \<lparr>uploadedImage = Some \<lparr>img_file = \<lparr>file_name = ''cat.png'', file_type = ''image/png'', file_size = 5000\<rparr>, img_preview = ''data:image/png;base64,QUJD'', img_base64 = Some ''QUJD'', img_mime = ''image/png''\<rparr>, selectedStyle = Some style_anime, isLoading = True, result = None, error = None\<rparr> =
   \<lparr>uploadedImage = Some \<lparr>img_file = \<lparr>file_name = ''cat.png'', file_type = ''image/png'', file_size = 5000\<rparr>, img_preview = ''data:image/png;base64,QUJD'', img_base64 = Some ''QUJD'', img_mime = ''image/png''\<rparr>, selectedStyle = Some style_anime, isLoading = False,
    result = Some \<lparr>originalSrc = ''data:image/png;base64,QUJD'',
                   transformedSrc = ''data:image/png;base64,R0VO'', style = style_anime\<rparr>,
    error = None\<rparr>"
proof -
  have "handleTransform_finish (\<lparr>img_file = \<lparr>file_name = ''cat.png'', file_type = ''image/png'', file_size = 5000\<rparr>, img_preview = ''data:image/png;base64,QUJD'', img_base64 = Some ''QUJD'', img_mime = ''image/png''\<rparr>, style_anime)
     (deliver (POST \<lparr>gemini_api_key = Some ''key''\<rparr> (Inr (request_body (\<lparr>img_file = \<lparr>file_name = ''cat.png'', file_type = ''image/png'', file_size = 5000\<rparr>, img_preview = ''data:image/png;base64,QUJD'', img_base64 = Some ''QUJD'', img_mime = ''image/png''\<rparr>, style_anime)))
        (\<lambda>_. (4200, Resolved \<lparr>candidates = Some [\<lparr>cand_content = Some \<lparr>parts = Some [\<lparr>part_inline = None, part_text = Some ''Done''\<rparr>, \<lparr>part_inline = Some \<lparr>blob_data = Some ''R0VO'', blob_mime = Some ''image/png''\<rparr>, part_text = None\<rparr>]\<rparr>\<rparr>]\<rparr>)))) \<lparr>uploadedImage = Some \<lparr>img_file = \<lparr>file_name = ''cat.png'', file_type = ''image/png'', file_size = 5000\<rparr>, img_preview = ''data:image/png;base64,QUJD'', img_base64 = Some ''QUJD'', img_mime = ''image/png''\<rparr>, selectedStyle = Some style_anime, isLoading = True, result = None, error = None\<rparr> =
     \<lparr>uploadedImage = Some \<lparr>img_file = \<lparr>file_name = ''cat.png'', file_type = ''image/png'', file_size = 5000\<rparr>, img_preview = ''data:image/png;base64,QUJD'', img_base64 = Some ''QUJD'', img_mime = ''image/png''\<rparr>, selectedStyle = Some style_anime, isLoading = True, result = None, error = None\<rparr>\<lparr>result := Some \<lparr>originalSrc = img_preview \<lparr>img_file = \<lparr>file_name = ''cat.png'', file_type = ''image/png'', file_size = 5000\<rparr>, img_preview = ''data:image/png;base64,QUJD'', img_base64 = Some ''QUJD'', img_mime = ''image/png''\<rparr>,
          transformedSrc = ''data:'' @ ''image/png'' @ '';base64,'' @ ''R0VO'', style = style_anime\<rparr>,
        isLoading := False\<rparr>"
    by (rule transform_round_trip [where pre = "[\<lparr>part_inline = None, part_text = Some ''Done''\<rparr>]"
          and post = "[]"]) (simp add: STYLES_def response_parts_def)+
  then show ?thesis by simp
qed

text \<open>C33. A very thin image breaks the chain: a 1 x 2049 picture passes validation and
  preparation, but the prepared image has an empty base64 payload (the canvas is 0 x 1024 and
  \<open>toDataURL\<close> gives \<open>data:,\<close>), so the route refuses the request with 400 and the
  page shows the missing-parameter message as the transform error.\<close>

theorem thin_image_fails_transform:
  assumes "gemini_api_key env = Some k" "k \<noteq> []"
  shows "\<exists>p. resizeAndConvertToBase64 enc True (Loaded img 1 2049) f = Inr p \<and>
           prep_base64 p = Some [] \<and>
           handleTransform_finish (uploaded_of f p, st)
             (deliver (POST env (Inr (request_body (uploaded_of f p, st))) upstream)) h =
           h\<lparr>error := Some msg_missing_param, isLoading := False\<rparr>"
proof -
  let ?p = "\<lparr>prep_base64 = Some [], prep_mime = file_type f, prep_preview = ''data:,''\<rparr>"
  have "resize_dims 1 2049 = (0, 1024)" by (simp add: resize_dims_eq MAX_DIMENSION_def)
  then have prep: "resizeAndConvertToBase64 enc True (Loaded img 1 2049) f = Inr ?p"
    by (simp add: resizeAndConvertToBase64_def canvas_to_data_url_def)
  have "route_prepare env (Inr (request_body (uploaded_of f ?p, st))) =
          Respond (error_response 400 msg_missing_param)"
    using assms by (simp add: route_prepare_def getAI_Inr request_body_def uploaded_of_def)
  then have "POST env (Inr (request_body (uploaded_of f ?p, st))) upstream =
               error_response 400 msg_missing_param"
    by (rule POST_respond)
  then have "handleTransform_finish (uploaded_of f ?p, st)
      (deliver (POST env (Inr (request_body (uploaded_of f ?p, st))) upstream)) h =
      h\<lparr>error := Some msg_missing_param, isLoading := False\<rparr>"
    by (simp add: handleTransform_finish_def client_outcome_def deliver_def str_truthy_def
        thrown_message_def msg_missing_param_def)
  with prep show ?thesis by auto
qed

theorem thin_image_fails_transform_witness:
  "\<exists>p. resizeAndConvertToBase64 (\<lambda>m img w h. (m, ''QUJD'')) True (Loaded () 1 2049)
         \<lparr>file_name = ''line.png'', file_type = ''image/png'', file_size = 100\<rparr> = Inr p \<and>
       prep_base64 p = Some [] \<and>
       handleTransform_finish
         (uploaded_of \<lparr>file_name = ''line.png'', file_type = ''image/png'', file_size = 100\<rparr> p,
          style_anime)
         (deliver (POST \<lparr>gemini_api_key = Some ''key''\<rparr>
            (Inr (request_body
              (uploaded_of \<lparr>file_name = ''line.png'', file_type = ''image/png'', file_size = 100\<rparr> p,
               style_anime)))
            (\<lambda>_. (0, Rejected ThrownValue))))
         \<lparr>uploadedImage = None, selectedStyle = Some style_anime, isLoading = True, result = None,
          error = None\<rparr> =
       \<lparr>uploadedImage = None, selectedStyle = Some style_anime, isLoading = False, result = None,
        error = Some msg_missing_param\<rparr>"
  using thin_image_fails_transform [of "\<lparr>gemini_api_key = Some ''key''\<rparr>" "''key''"
      "\<lambda>m img w h. (m, ''QUJD'')" "()"
      "\<lparr>file_name = ''line.png'', file_type = ''image/png'', file_size = 100\<rparr>" style_anime
      "\<lambda>_. (0, Rejected ThrownValue)"
      "\<lparr>uploadedImage = None, selectedStyle = Some style_anime, isLoading = True, result = None,
          error = None\<rparr>"]
  by simp

end
